(* ===== verification/Prelude.thy ===== *)
theory Prelude
  imports Complex_Main "HOL-Library.AList"
begin

text \<open>
  The Python runtime the monitor's modules run on, as far as the modules use it:
  insertion-ordered dictionaries (\<open>dict\<close>, \<open>dict.update\<close>), \<open>int()\<close> applied
  to a float, \<open>str.startswith\<close>, \<open>str()\<close> of a counter, the fragment of
  \<open>json.loads\<close> (the JSON syntax it accepts, and the values the failure table
  meets), the exception classes of Python and botocore
  the handler distinguishes, and \<open>try\<close>/\<open>except\<close> as an exception-and-state monad.
  Everything here is shared by the component theories; the lemmas are the ones their
  proofs are carried by.
\<close>

named_theorems py_simps \<open>equations of the exception-and-state monad\<close>

section \<open>Values and exceptions\<close>

text \<open>
  A Python value as far as the handler's dictionaries hold them: the scanner stores
  strings, the failure table hands back whatever \<open>json.loads\<close> makes of a stored
  string. \<open>PUndecoded\<close> stands for a valid JSON document outside the values decoded
  below (arrays, objects, floats, strings with escapes, \<open>NaN\<close> and the infinities);
  no theorem depends on the value \<open>json.loads\<close> builds for it.
\<close>

datatype pyval = PStr string | PInt int | PBool bool | PNone | PUndecoded string

text \<open>
  The exception classes the code raises, catches or meets. The first three are the
  modelled subclasses of \<open>botocore.exceptions.ClientError\<close> (a service answered with an
  error code); \<open>ClientError\<close> is any other error code. \<open>ParamValidationError\<close> and
  \<open>EndpointConnectionError\<close> are raised by botocore before or instead of a service
  answer and are not \<open>ClientError\<close>s.
\<close>

datatype exc =
    UnknownResourceException
  | ResourceNotFoundException
  | InternalServerError
  | ClientError string
  | ParamValidationError
  | EndpointConnectionError
  | KeyError string
  | JSONDecodeError
  | ValueError string
  | IndexError
  | AttributeError string

fun is_client_error :: "exc \<Rightarrow> bool" where
  "is_client_error UnknownResourceException = True"
| "is_client_error ResourceNotFoundException = True"
| "is_client_error InternalServerError = True"
| "is_client_error (ClientError _) = True"
| "is_client_error _ = False"

text \<open>\<open>type(v).__name__\<close> of a value; a value \<open>json.loads\<close> produced outside the modelled
  fragment (a float, a list, an object) has no modelled type. A dictionary conforms to
  the annotation \<open>dict[str, t]\<close> when every value has type \<open>t\<close>.\<close>

fun py_typeof :: "pyval \<Rightarrow> string option" where
  "py_typeof (PStr _) = Some ''str''"
| "py_typeof (PInt _) = Some ''int''"
| "py_typeof (PBool _) = Some ''bool''"
| "py_typeof PNone = Some ''NoneType''"
| "py_typeof (PUndecoded _) = None"

definition dict_conforms :: "string \<Rightarrow> ('k \<times> pyval) list \<Rightarrow> bool" where
  "dict_conforms t d \<longleftrightarrow> list_all (\<lambda>(k, v). py_typeof v = Some t) d"

section \<open>Dictionaries\<close>

text \<open>
  A Python \<open>dict\<close> keeps its keys in insertion order: \<open>d[k] = v\<close> replaces the value
  in place when \<open>k\<close> is present and appends otherwise, which is \<^const>\<open>AList.update\<close>.
  \<open>d.update(e)\<close> assigns the items of \<open>e\<close> one by one, in \<open>e\<close>'s order.
\<close>

type_synonym ('k, 'v) pydict = "('k \<times> 'v) list"

abbreviation dict_wf :: "('k, 'v) pydict \<Rightarrow> bool" where
  "dict_wf d \<equiv> distinct (map fst d)"

fun dict_update :: "('k, 'v) pydict \<Rightarrow> ('k, 'v) pydict \<Rightarrow> ('k, 'v) pydict" where
  "dict_update d [] = d"
| "dict_update d ((k, v) # kvs) = dict_update (AList.update k v d) kvs"

lemma dict_update_wf [intro]: "dict_wf d \<Longrightarrow> dict_wf (dict_update d e)"
  by (induction d e rule: dict_update.induct) (simp_all add: distinct_update)

lemma map_of_dict_update: "map_of (dict_update d e) = map_of d ++ map_of (rev e)"
  by (induction d e rule: dict_update.induct)
    (auto simp: update_conv' fun_eq_iff map_add_def split: option.splits)

lemma map_of_rev_wf: "dict_wf e \<Longrightarrow> map_of (rev e) = map_of e"
proof (rule ext)
  fix k
  assume wf: "dict_wf e"
  show "map_of (rev e) k = map_of e k"
  proof (cases "map_of e k")
    case None
    moreover from None have "map_of (rev e) k = None"
      by (simp add: map_of_eq_None_iff)
    ultimately show ?thesis by simp
  next
    case (Some v)
    then have "(k, v) \<in> set (rev e)" by (simp add: map_of_SomeD)
    moreover from wf have "distinct (map fst (rev e))" by (simp add: rev_map [symmetric])
    ultimately show ?thesis using Some by (simp add: map_of_is_SomeI)
  qed
qed

lemma map_of_dict_update_wf:
  "dict_wf e \<Longrightarrow> map_of (dict_update d e) = map_of d ++ map_of e"
  by (simp add: map_of_dict_update map_of_rev_wf)

text \<open>The keys already present keep their places; new keys are appended.\<close>

lemma dict_update_keys_prefix:
  "\<exists>new. map fst (dict_update d e) = map fst d @ new \<and> set new \<subseteq> set (map fst e)"
proof (induction d e rule: dict_update.induct)
  case (1 d)
  then show ?case by simp
next
  case (2 d k v kvs)
  then obtain new where new: "map fst (dict_update (AList.update k v d) kvs) = map fst (AList.update k v d) @ new"
    and sub: "set new \<subseteq> set (map fst kvs)" by blast
  show ?case
  proof (cases "k \<in> set (map fst d)")
    case True
    with new sub show ?thesis by (auto simp: update_keys)
  next
    case False
    with new sub show ?thesis by (auto simp: update_keys intro!: exI [of _ "k # new"])
  qed
qed

lemma set_update_subset: "set (AList.update k v al) \<subseteq> insert (k, v) (set al)"
  by (induction al) auto

lemma keys_dict_update: "set (map fst (dict_update d e)) = set (map fst d) \<union> set (map fst e)"
  by (induction d e rule: dict_update.induct) (auto simp: dom_update)

lemma dict_conforms_AList_update [intro]:
  "py_typeof v = Some t \<Longrightarrow> dict_conforms t d \<Longrightarrow> dict_conforms t (AList.update k v d)"
  unfolding dict_conforms_def list_all_iff using set_update_subset [of k v d] by blast

lemma length_dict_update: "dict_wf d \<Longrightarrow> length (dict_update d e) \<le> length d + length e"
proof -
  assume wf: "dict_wf d"
  have "length (dict_update d e) = card (set (map fst (dict_update d e)))"
    using distinct_card [OF dict_update_wf [OF wf, of e]] by (simp only: length_map)
  also have "\<dots> \<le> card (set (map fst d)) + card (set (map fst e))"
    using keys_dict_update [of d e] card_Un_le [of "set (map fst d)" "set (map fst e)"] by simp
  also have "\<dots> \<le> length d + length e"
    using card_length [of "map fst d"] card_length [of "map fst e"] by simp
  finally show ?thesis .
qed

lemma update_apsnd: "AList.update k (f v) (map (apsnd f) d) = map (apsnd f) (AList.update k v d)"
  by (induction d) auto

lemma dict_update_apsnd: "dict_update (map (apsnd f) d) (map (apsnd f) e) = map (apsnd f) (dict_update d e)"
  by (induction d e rule: dict_update.induct) (simp_all add: update_apsnd [symmetric])

lemma dict_conforms_dict_update_both:
  "dict_conforms t d \<Longrightarrow> dict_conforms t e \<Longrightarrow> dict_conforms t (dict_update d e)"
  by (induction d e rule: dict_update.induct) (auto simp: dict_conforms_def intro: dict_conforms_AList_update [unfolded dict_conforms_def])

lemma str_dict_as_pairs:
  "dict_conforms ''str'' xs \<Longrightarrow> \<exists>ys. xs = map (\<lambda>(arn, p). (arn, PStr p)) ys \<and> map fst ys = map fst xs"
proof (induction xs)
  case Nil
  then show ?case by simp
next
  case (Cons kv xs)
  obtain k v where kv: "kv = (k, v)" by fastforce
  with Cons.prems obtain p where v: "v = PStr p" by (cases v) (auto simp: dict_conforms_def)
  from Cons obtain ys where "xs = map (\<lambda>(arn, p). (arn, PStr p)) ys \<and> map fst ys = map fst xs"
    by (auto simp: dict_conforms_def)
  then show ?case by (intro exI [of _ "(k, p) # ys"]) (simp add: kv v)
qed

lemma dict_update_empty_iff: "dict_update d e = [] \<longleftrightarrow> d = [] \<and> e = []"
proof (induction d e rule: dict_update.induct)
  case (1 d)
  then show ?case by simp
next
  case (2 d k v kvs)
  have "AList.update k v d \<noteq> []" by (cases d) simp_all
  with 2 show ?case by simp
qed

section \<open>Numbers and strings\<close>

text \<open>
  \<open>int(x)\<close> for a float \<open>x\<close> truncates towards zero. Floats are modelled as reals:
  the comparisons the code makes are exact on the values it compares.
\<close>

definition py_int :: "real \<Rightarrow> int" where
  "py_int x = (if 0 \<le> x then \<lfloor>x\<rfloor> else - \<lfloor>- x\<rfloor>)"

lemma py_int_less_iff: "0 \<le> x \<Longrightarrow> py_int x < c \<longleftrightarrow> x < of_int c"
  by (simp add: py_int_def floor_less_iff)

lemma py_int_of_int [simp]: "py_int (of_int n) = n"
  by (simp add: py_int_def)

definition startswith :: "string \<Rightarrow> string \<Rightarrow> bool" where
  "startswith s p \<longleftrightarrow> take (length p) s = p"

lemma startswith_append [simp]: "startswith (p @ s) p"
  by (simp add: startswith_def)

lemma startswith_conv: "startswith s p \<longleftrightarrow> (\<exists>r. s = p @ r)"
  unfolding startswith_def by (metis append_eq_conv_conj append_take_drop_id)

text \<open>\<open>str(n)\<close> of a non-negative counter: its decimal digits.\<close>

definition digit_char :: "nat \<Rightarrow> char" where
  "digit_char d = char_of (48 + d)"

fun str_nat :: "nat \<Rightarrow> string" where
  "str_nat n = (if n < 10 then [digit_char n] else str_nat (n div 10) @ [digit_char (n mod 10)])"

declare str_nat.simps [simp del]

section \<open>json.loads: the JSON syntax and the values the failure table meets\<close>

definition is_digit :: "char \<Rightarrow> bool" where
  "is_digit c \<longleftrightarrow> (48::nat) \<le> of_char c \<and> (of_char c :: nat) \<le> 57"

definition digits_value :: "string \<Rightarrow> int" where
  "digits_value s = foldl (\<lambda>n c. 10 * n + (int (of_char c) - 48)) 0 s"

text \<open>
  A JSON integer: an optional minus sign, then \<open>0\<close> or a non-zero digit followed by
  digits. A leading zero followed by more digits is not JSON.
\<close>

definition json_uint :: "string \<Rightarrow> bool" where
  "json_uint s \<longleftrightarrow> s \<noteq> [] \<and> list_all is_digit s \<and> (hd s = CHR ''0'' \<longrightarrow> s = ''0'')"

definition json_int_literal :: "string \<Rightarrow> bool" where
  "json_int_literal s \<longleftrightarrow> json_uint s \<or> (s \<noteq> [] \<and> hd s = CHR ''-'' \<and> json_uint (tl s))"

definition json_int_value :: "string \<Rightarrow> int" where
  "json_int_value s = (if s \<noteq> [] \<and> hd s = CHR ''-'' then - digits_value (tl s) else digits_value s)"

text \<open>A JSON string literal without escapes: a quote, characters other than quote and
  backslash, a quote.\<close>

definition json_plain_string :: "string \<Rightarrow> bool" where
  "json_plain_string s \<longleftrightarrow> 2 \<le> length s \<and> hd s = CHR 0x22 \<and> last s = CHR 0x22
     \<and> list_all (\<lambda>c. c \<noteq> CHR 0x22 \<and> c \<noteq> CHR 0x5C \<and> 32 \<le> (of_char c :: nat)) (butlast (tl s))"

definition json_ws :: "char \<Rightarrow> bool" where
  "json_ws c \<longleftrightarrow> c \<in> set [CHR 0x20, CHR 0x09, CHR 0x0A, CHR 0x0D]"

datatype json_token = JBeginObject | JEndObject | JBeginArray | JEndArray | JColon | JComma | JString | JScalar

definition json_escapes :: "char list" where
  "json_escapes = [CHR 0x22, CHR 0x5C, CHR ''/'', CHR ''b'', CHR ''f'', CHR ''n'', CHR ''r'', CHR ''t'']"

definition is_hex_digit :: "char \<Rightarrow> bool" where
  "is_hex_digit c \<longleftrightarrow> is_digit c \<or> c \<in> set ''abcdefABCDEF''"

function json_string_rest :: "string \<Rightarrow> string option" where
  "json_string_rest [] = None"
| "json_string_rest (c # cs) =
     (if c = CHR 0x22 then Some cs
      else if c = CHR 0x5C then
        (case cs of
           [] \<Rightarrow> None
         | e # cs' \<Rightarrow>
             if e \<in> set json_escapes then json_string_rest cs'
             else if e = CHR ''u'' \<and> 4 \<le> length cs' \<and> list_all is_hex_digit (take 4 cs')
             then json_string_rest (drop 4 cs')
             else None)
      else if (of_char c :: nat) < 32 then None
      else json_string_rest cs)"
  by pat_completeness auto
termination by (relation "measure length") auto

lemma json_string_rest_shorter: "json_string_rest s = Some r \<Longrightarrow> length r < length s"
  by (induction s rule: json_string_rest.induct) (auto split: if_splits list.splits)

definition json_number_char :: "char \<Rightarrow> bool" where
  "json_number_char c \<longleftrightarrow> is_digit c \<or> c \<in> set ''+-.eE''"

definition json_digits :: "string \<Rightarrow> bool" where
  "json_digits s \<longleftrightarrow> s \<noteq> [] \<and> list_all is_digit s"

definition json_exponent :: "string \<Rightarrow> bool" where
  "json_exponent s \<longleftrightarrow> s = [] \<or>
     (hd s \<in> set ''eE'' \<and> (if tl s \<noteq> [] \<and> hd (tl s) \<in> set ''+-'' then json_digits (tl (tl s)) else json_digits (tl s)))"

definition json_fraction_exponent :: "string \<Rightarrow> bool" where
  "json_fraction_exponent s \<longleftrightarrow>
     (if s \<noteq> [] \<and> hd s = CHR ''.''
      then takeWhile is_digit (tl s) \<noteq> [] \<and> json_exponent (dropWhile is_digit (tl s))
      else json_exponent s)"

definition json_number :: "string \<Rightarrow> bool" where
  "json_number s \<longleftrightarrow>
     (let t = (if s \<noteq> [] \<and> hd s = CHR ''-'' then tl s else s); d = takeWhile is_digit t
      in d \<noteq> [] \<and> (hd d = CHR ''0'' \<longrightarrow> d = ''0'') \<and> json_fraction_exponent (dropWhile is_digit t))"

definition json_constants :: "string list" where
  "json_constants = [''true'', ''false'', ''null'', ''NaN'', ''Infinity'', ''-Infinity'']"

function json_tokens :: "string \<Rightarrow> json_token list option" where
  "json_tokens [] = Some []"
| "json_tokens (c # cs) =
     (if json_ws c then json_tokens cs
      else if c = CHR ''{'' then map_option (Cons JBeginObject) (json_tokens cs)
      else if c = CHR ''}'' then map_option (Cons JEndObject) (json_tokens cs)
      else if c = CHR ''['' then map_option (Cons JBeginArray) (json_tokens cs)
      else if c = CHR '']'' then map_option (Cons JEndArray) (json_tokens cs)
      else if c = CHR '':'' then map_option (Cons JColon) (json_tokens cs)
      else if c = CHR '','' then map_option (Cons JComma) (json_tokens cs)
      else if c = CHR 0x22 then
        (case json_string_rest cs of
           None \<Rightarrow> None
         | Some rest \<Rightarrow> map_option (Cons JString) (json_tokens rest))
      else (case find (\<lambda>k. take (length k) (c # cs) = k) json_constants of
              Some k \<Rightarrow> map_option (Cons JScalar) (json_tokens (drop (length k - 1) cs))
            | None \<Rightarrow>
                if json_number (takeWhile json_number_char (c # cs))
                then map_option (Cons JScalar) (json_tokens (dropWhile json_number_char cs))
                else None))"
  by pat_completeness auto
termination
  by (relation "measure length")
     (auto simp: less_Suc_eq_le length_dropWhile_le dest: json_string_rest_shorter)

datatype json_frame = JInArray | JInObject

datatype json_expect = JValue | JValueOrEnd | JKeyOrEnd | JKey | JColonNext | JAfterValue

fun json_value_step :: "json_frame list \<Rightarrow> json_token \<Rightarrow> (json_frame list \<times> json_expect) option" where
  "json_value_step st JBeginArray = Some (JInArray # st, JValueOrEnd)"
| "json_value_step st JBeginObject = Some (JInObject # st, JKeyOrEnd)"
| "json_value_step st JString = Some (st, JAfterValue)"
| "json_value_step st JScalar = Some (st, JAfterValue)"
| "json_value_step st _ = None"

fun json_step :: "json_frame list \<times> json_expect \<Rightarrow> json_token \<Rightarrow> (json_frame list \<times> json_expect) option" where
  "json_step (st, JValue) t = json_value_step st t"
| "json_step (JInArray # st, JValueOrEnd) JEndArray = Some (st, JAfterValue)"
| "json_step (st, JValueOrEnd) t = json_value_step st t"
| "json_step (JInObject # st, JKeyOrEnd) JEndObject = Some (st, JAfterValue)"
| "json_step (st, JKeyOrEnd) JString = Some (st, JColonNext)"
| "json_step (st, JKey) JString = Some (st, JColonNext)"
| "json_step (st, JColonNext) JColon = Some (st, JValue)"
| "json_step (JInArray # st, JAfterValue) JComma = Some (JInArray # st, JValue)"
| "json_step (JInArray # st, JAfterValue) JEndArray = Some (st, JAfterValue)"
| "json_step (JInObject # st, JAfterValue) JComma = Some (JInObject # st, JKey)"
| "json_step (JInObject # st, JAfterValue) JEndObject = Some (st, JAfterValue)"
| "json_step _ _ = None"

fun json_run :: "json_frame list \<times> json_expect \<Rightarrow> json_token list \<Rightarrow> (json_frame list \<times> json_expect) option" where
  "json_run s [] = Some s"
| "json_run s (t # ts) = (case json_step s t of None \<Rightarrow> None | Some s' \<Rightarrow> json_run s' ts)"

definition json_valid :: "string \<Rightarrow> bool" where
  "json_valid s \<longleftrightarrow>
     (case json_tokens s of None \<Rightarrow> False | Some ts \<Rightarrow> json_run ([], JValue) ts = Some ([], JAfterValue))"

definition json_strip :: "string \<Rightarrow> string" where
  "json_strip s = rev (dropWhile json_ws (rev (dropWhile json_ws s)))"

text \<open>
  \<open>json.loads(s)\<close> raises \<open>JSONDecodeError\<close> exactly when \<open>s\<close> is not a JSON document
  in the syntax Python's decoder accepts (white space around the value; \<open>NaN\<close>,
  \<open>Infinity\<close> and \<open>-Infinity\<close> as constants; no control character inside a string).
  A valid document decodes to an integer, a plain string or a constant as far as
  \<open>pyval\<close> represents them; any other document is \<open>PUndecoded\<close>.
\<close>

definition json_loads :: "string \<Rightarrow> exc + pyval" where
  "json_loads s =
     (if \<not> json_valid s then Inl JSONDecodeError
      else let t = json_strip s in
        if json_int_literal t then Inr (PInt (json_int_value t))
        else if json_plain_string t then Inr (PStr (butlast (tl t)))
        else if t = ''true'' then Inr (PBool True)
        else if t = ''false'' then Inr (PBool False)
        else if t = ''null'' then Inr PNone
        else Inr (PUndecoded t))"

lemma is_digit_lexes_as_number:
  "\<forall>c. is_digit c \<longrightarrow> \<not> json_ws c \<and> c \<notin> set ''{}[]:,'' \<and> c \<noteq> CHR 0x22 \<and> json_number_char c
     \<and> (\<forall>k \<in> set json_constants. hd k \<noteq> c) \<and> c \<noteq> CHR ''-''"
  by code_simp

lemma json_tokens_digits:
  assumes "json_uint s"
  shows "json_tokens s = Some [JScalar]"
proof (cases s)
  case (Cons c cs)
  have dig: "list_all is_digit s" and z: "hd s = CHR ''0'' \<longrightarrow> s = ''0''"
    using assms by (auto simp: json_uint_def)
  then have "is_digit c" and "list_all is_digit cs" using Cons by auto
  note d = is_digit_lexes_as_number [rule_format, OF \<open>is_digit c\<close>]
  have nc: "find (\<lambda>k. take (length k) (c # cs) = k) json_constants = None"
    using d by (auto simp: find_None_iff json_constants_def)
  have tw: "takeWhile json_number_char cs = cs" and dw: "dropWhile json_number_char cs = []"
    using dig Cons is_digit_lexes_as_number by (auto simp: list_all_iff takeWhile_eq_all_conv dropWhile_eq_Nil_conv)
  have "json_number (c # cs)"
    using d dig z Cons by (simp add: json_number_def takeWhile_eq_all_conv dropWhile_eq_Nil_conv list_all_iff
        json_fraction_exponent_def json_exponent_def)
  then show ?thesis using Cons d nc by (simp add: tw dw)
qed (use assms in \<open>simp add: json_uint_def\<close>)

lemma json_strip_id: "list_all (\<lambda>c. \<not> json_ws c) s \<Longrightarrow> json_strip s = s"
proof -
  assume "list_all (\<lambda>c. \<not> json_ws c) s"
  then have "\<forall>c \<in> set xs. \<not> json_ws c" if "set xs = set s" for xs using that by (simp add: list_all_iff)
  then have "dropWhile json_ws xs = xs" if "set xs = set s" for xs
    using that by (cases xs) auto
  then show ?thesis by (simp add: json_strip_def)
qed

lemma json_loads_Inl: "json_loads s = Inl e \<Longrightarrow> e = JSONDecodeError"
  unfolding json_loads_def Let_def by (simp split: if_split_asm)

lemma json_loads_error: "isl (json_loads s) \<Longrightarrow> json_loads s = Inl JSONDecodeError"
  by (cases "json_loads s") (auto dest: json_loads_Inl)

lemma json_loads_uint: "json_uint s \<Longrightarrow> json_loads s = Inr (PInt (digits_value s))"
proof -
  assume u: "json_uint s"
  then have "s \<noteq> []" and "is_digit (hd s)" by (auto simp: json_uint_def list_all_iff)
  then have "hd s \<noteq> CHR ''-''" by (auto simp: is_digit_def)
  moreover have "json_valid s" using json_tokens_digits [OF u] by (simp add: json_valid_def)
  moreover have "json_strip s = s"
    using u is_digit_lexes_as_number by (intro json_strip_id) (auto simp: json_uint_def list_all_iff)
  ultimately show ?thesis using u by (simp add: json_loads_def json_int_literal_def json_int_value_def)
qed

text \<open>\<open>json.dumps\<close> of a string without quotes, backslashes or control characters.\<close>

definition json_dumps_str :: "string \<Rightarrow> string" where
  "json_dumps_str s = CHR 0x22 # s @ [CHR 0x22]"

text \<open>The string operations of the repair script: \<open>s.split(c)\<close> with an explicit
  separator (every occurrence splits, empty fields are kept), \<open>xs[i]\<close> for a
  non-negative index, and \<open>s.isdigit()\<close> on ASCII strings.\<close>

fun py_split :: "char \<Rightarrow> string \<Rightarrow> string list" where
  "py_split c [] = [[]]"
| "py_split c (x # xs) = (let r = py_split c xs in if x = c then [] # r else (x # hd r) # tl r)"

definition py_index :: "'a list \<Rightarrow> nat \<Rightarrow> exc + 'a" where
  "py_index xs i = (if i < length xs then Inr (xs ! i) else Inl IndexError)"

definition py_isdigit :: "string \<Rightarrow> bool" where
  "py_isdigit s \<longleftrightarrow> s \<noteq> [] \<and> list_all is_digit s"

lemma py_split_not_Nil [simp]: "py_split c s \<noteq> []"
  by (induction s) (simp_all add: Let_def)

lemma py_split_no_sep: "c \<notin> set s \<Longrightarrow> py_split c s = [s]"
  by (induction s) (auto simp: Let_def)

lemma py_split_append_sep: "c \<notin> set a \<Longrightarrow> py_split c (a @ c # b) = a # py_split c b"
proof (induction a)
  case Nil
  then show ?case by simp
next
  case (Cons x a)
  then show ?case using py_split_not_Nil [of c "a @ c # b"] by (auto simp: Let_def)
qed

section \<open>Paginators\<close>

text \<open>
  \<open>for page in paginator.paginate(...): for item in page[...]: ...\<close>: the pages a
  paginator yields, each a list of items or the exception raised while fetching it; the
  body folds the items of a page into an accumulator and may raise itself. The first
  exception ends the loop.
\<close>

fun fold_pages :: "('d \<Rightarrow> 'i list \<Rightarrow> exc + 'd) \<Rightarrow> 'd \<Rightarrow> (exc + 'i list) list \<Rightarrow> exc + 'd" where
  "fold_pages f d [] = Inr d"
| "fold_pages f d (Inl e # pages) = Inl e"
| "fold_pages f d (Inr items # pages) = (case f d items of Inl e \<Rightarrow> Inl e | Inr d' \<Rightarrow> fold_pages f d' pages)"

text \<open>When no page fails and the body never raises, the loop is the body run over the
  concatenated items.\<close>

lemma fold_pages_concat:
  assumes "\<And>d xs ys. f d (xs @ ys) = (case f d xs of Inl e \<Rightarrow> Inl e | Inr d' \<Rightarrow> f d' ys)"
    and "\<And>d. f d [] = Inr d"
  shows "fold_pages f d (map Inr pages) = f d (concat pages)"
proof (induction pages arbitrary: d)
  case Nil
  then show ?case using assms(2) by simp
next
  case (Cons p pages)
  then show ?case using assms(1) by (simp split: sum.splits)
qed

section \<open>try/except: an exception-and-state monad\<close>

text \<open>
  A statement of the handler maps the state it starts in to its result, a value or the
  exception it raises, and the state it leaves behind. Effects made before an exception
  stay: the state is returned on both sides of the sum, as Python keeps the effects of
  the calls that completed before a raise.
\<close>

type_synonym ('s, 'a) pyst = "'s \<Rightarrow> (exc + 'a) \<times> 's"

definition py_return :: "'a \<Rightarrow> ('s, 'a) pyst" where
  [py_simps]: "py_return x = (\<lambda>s. (Inr x, s))"

definition py_raise :: "exc \<Rightarrow> ('s, 'a) pyst" where
  [py_simps]: "py_raise e = (\<lambda>s. (Inl e, s))"

definition py_bind :: "('s, 'a) pyst \<Rightarrow> ('a \<Rightarrow> ('s, 'b) pyst) \<Rightarrow> ('s, 'b) pyst" where
  [py_simps]: "py_bind m f = (\<lambda>s. case m s of (Inl e, s') \<Rightarrow> (Inl e, s') | (Inr x, s') \<Rightarrow> f x s')"

text \<open>\<open>try: m except e: h e\<close>; the handler decides for itself whether to re-raise.\<close>

definition py_try :: "('s, 'a) pyst \<Rightarrow> (exc \<Rightarrow> ('s, 'a) pyst) \<Rightarrow> ('s, 'a) pyst" where
  [py_simps]: "py_try m h = (\<lambda>s. case m s of (Inl e, s') \<Rightarrow> h e s' | (Inr x, s') \<Rightarrow> (Inr x, s'))"

definition py_modify :: "('s \<Rightarrow> 's) \<Rightarrow> ('s, unit) pyst" where
  [py_simps]: "py_modify f = (\<lambda>s. (Inr (), f s))"

definition py_when :: "bool \<Rightarrow> ('s, unit) pyst \<Rightarrow> ('s, unit) pyst" where
  [py_simps]: "py_when b m = (if b then m else py_return ())"

text \<open>Running a statement on one field of a larger state.\<close>

definition py_lift :: "('t \<Rightarrow> 's) \<Rightarrow> ('s \<Rightarrow> 't \<Rightarrow> 't) \<Rightarrow> ('s, 'a) pyst \<Rightarrow> ('t, 'a) pyst" where
  [py_simps]: "py_lift get put m = (\<lambda>t. case m (get t) of (r, s') \<Rightarrow> (r, put s' t))"

text \<open>A statement that leaves a view of the state unchanged, whatever it returns.
  The rules follow the structure of statements, so that frame facts are proved by
  composing the facts of the calls.\<close>

definition py_preserves :: "('s \<Rightarrow> 'b) \<Rightarrow> ('s, 'a) pyst \<Rightarrow> bool" where
  "py_preserves f m \<longleftrightarrow> (\<forall>s. f (snd (m s)) = f s)"

named_theorems preserves_intros \<open>rules that establish \<^const>\<open>py_preserves\<close>\<close>

lemma py_preserves_return [preserves_intros]: "py_preserves f (py_return x)"
  and py_preserves_raise [preserves_intros]: "py_preserves f (py_raise e)"
  by (simp_all add: py_preserves_def py_simps)

lemma py_preserves_modify [preserves_intros]:
  "(\<And>s. f (g s) = f s) \<Longrightarrow> py_preserves f (py_modify g)"
  by (simp add: py_preserves_def py_simps)

lemma py_preserves_bind [preserves_intros]:
  "py_preserves f m \<Longrightarrow> (\<And>x. py_preserves f (k x)) \<Longrightarrow> py_preserves f (py_bind m k)"
  unfolding py_preserves_def py_simps by (auto split: prod.splits sum.splits) (metis snd_conv)+

lemma py_preserves_try [preserves_intros]:
  "py_preserves f m \<Longrightarrow> (\<And>e. py_preserves f (h e)) \<Longrightarrow> py_preserves f (py_try m h)"
  unfolding py_preserves_def py_simps by (auto split: prod.splits sum.splits) (metis snd_conv)+

lemma py_preserves_when [preserves_intros]:
  "py_preserves f m \<Longrightarrow> py_preserves f (py_when b m)"
  by (simp add: py_preserves_def py_simps)

lemma py_preserves_if [preserves_intros]:
  "py_preserves f m1 \<Longrightarrow> py_preserves f m2 \<Longrightarrow> py_preserves f (if b then m1 else m2)"
  by simp

lemma py_preserves_lift [preserves_intros]:
  "py_preserves g m \<Longrightarrow> (\<And>s t. f (put s t) = g s) \<Longrightarrow> (\<And>t. f t = g (get t)) \<Longrightarrow>
   py_preserves f (py_lift get put m)"
  unfolding py_preserves_def py_simps by (auto split: prod.splits) (metis snd_conv)

lemma py_preservesD: "py_preserves f m \<Longrightarrow> f (snd (m s)) = f s"
  by (simp add: py_preserves_def)

text \<open>A statement that keeps an invariant of the state, whatever it returns.\<close>

definition py_keeps :: "('s \<Rightarrow> bool) \<Rightarrow> ('s, 'a) pyst \<Rightarrow> bool" where
  "py_keeps P m \<longleftrightarrow> (\<forall>s. P s \<longrightarrow> P (snd (m s)))"

named_theorems keeps_intros \<open>rules that establish \<^const>\<open>py_keeps\<close>\<close>

lemma py_keeps_return [keeps_intros]: "py_keeps P (py_return x)"
  and py_keeps_raise [keeps_intros]: "py_keeps P (py_raise e)"
  and py_keeps_read [keeps_intros]: "py_keeps P (\<lambda>s. (f s, s))"
  by (simp_all add: py_keeps_def py_simps)

lemma py_keeps_modify [keeps_intros]:
  "(\<And>s. P s \<Longrightarrow> P (g s)) \<Longrightarrow> py_keeps P (py_modify g)"
  by (simp add: py_keeps_def py_simps)

lemma py_keeps_bind [keeps_intros]:
  "py_keeps P m \<Longrightarrow> (\<And>x. py_keeps P (k x)) \<Longrightarrow> py_keeps P (py_bind m k)"
  unfolding py_keeps_def py_simps by (auto split: prod.splits sum.splits)

lemma py_keeps_try [keeps_intros]:
  "py_keeps P m \<Longrightarrow> (\<And>e. py_keeps P (h e)) \<Longrightarrow> py_keeps P (py_try m h)"
  unfolding py_keeps_def py_simps by (auto split: prod.splits sum.splits)

lemma py_keeps_when [keeps_intros]:
  "py_keeps P m \<Longrightarrow> py_keeps P (py_when b m)"
  by (simp add: py_keeps_def py_simps)

lemma py_keeps_if [keeps_intros]:
  "py_keeps P m1 \<Longrightarrow> py_keeps P m2 \<Longrightarrow> py_keeps P (if b then m1 else m2)"
  by simp

lemma py_keeps_lift [keeps_intros]:
  "py_keeps Q m \<Longrightarrow> (\<And>t. P t \<Longrightarrow> Q (get t)) \<Longrightarrow> (\<And>s t. Q s \<Longrightarrow> P t \<Longrightarrow> P (put s t)) \<Longrightarrow>
   py_keeps P (py_lift get put m)"
  unfolding py_keeps_def py_simps by (auto split: prod.splits) (metis snd_conv)

lemma py_keepsD: "py_keeps P m \<Longrightarrow> P s \<Longrightarrow> P (snd (m s))"
  by (simp add: py_keeps_def)

lemma py_bind_return [simp]: "py_bind (py_return x) f = f x"
  by (simp add: py_simps)

lemma py_return_bind [simp]: "py_bind m py_return = m"
  by (rule ext) (simp add: py_simps split: prod.splits sum.splits)

lemma py_bind_assoc: "py_bind (py_bind m f) g = py_bind m (\<lambda>x. py_bind (f x) g)"
  by (rule ext) (simp add: py_simps split: prod.splits sum.splits)

lemma py_bind_raise [simp]: "py_bind (py_raise e) f = py_raise e"
  by (simp add: py_simps)

text \<open>\<open>except Exception as e: raise e\<close> changes nothing.\<close>

lemma py_try_reraise [simp]: "py_try m py_raise = m"
  by (rule ext) (simp add: py_simps split: prod.splits sum.splits)

lemma py_try_return [simp]: "py_try (py_return x) h = py_return x"
  by (simp add: py_simps)

lemma py_try_raise [simp]: "py_try (py_raise e) h = h e"
  by (simp add: py_simps)

text \<open>A \<open>for\<close> loop whose body is a statement: the first exception ends it.\<close>

primrec py_foreach :: "('a \<Rightarrow> ('s, unit) pyst) \<Rightarrow> 'a list \<Rightarrow> ('s, unit) pyst" where
  "py_foreach f [] = py_return ()"
| "py_foreach f (x # xs) = py_bind (f x) (\<lambda>_. py_foreach f xs)"

lemma py_foreach_append: "py_foreach f (xs @ ys) = py_bind (py_foreach f xs) (\<lambda>_. py_foreach f ys)"
  by (induction xs) (simp_all add: py_bind_assoc)

lemma py_preserves_foreach [preserves_intros]:
  "(\<And>x. x \<in> set xs \<Longrightarrow> py_preserves f (k x)) \<Longrightarrow> py_preserves f (py_foreach k xs)"
  by (induction xs) (simp_all add: py_preserves_return py_preserves_bind)

lemma py_keeps_foreach [keeps_intros]:
  "(\<And>x. x \<in> set xs \<Longrightarrow> py_keeps P (k x)) \<Longrightarrow> py_keeps P (py_foreach k xs)"
  by (induction xs) (simp_all add: py_keeps_return py_keeps_bind)

end
