(* ===== verification/Services.thy ===== *)
theory Services
  imports Prelude
begin

text \<open>
  The services the programs talk to, AWS Resource Access Manager (RAM), the DynamoDB
  failure table and, for the repair script, Lake Formation's permission listing, as the
  spec and the services' documentation describe them (they are external collaborators,
  not code of the repository). The world holds the resource shares, their principal
  associations and the table's items. Each API call either has the effect the service
  documents or raises: an environment names the time of the invocation and, for each
  call, the exception the service or the network raises on it, if any. Besides these
  injected faults, the services raise on their own where the spec says so: RAM raises
  \<open>UnknownResourceException\<close> for a share that does not exist, and botocore raises
  \<open>ParamValidationError\<close> before sending a request whose principal or item attribute
  is not a string.
\<close>

datatype association_status = ASSOCIATING | ASSOCIATED | FAILED | DISASSOCIATING | DISASSOCIATED

record association =
  resourceShareArn :: string
  resourceShareName :: string
  associatedEntity :: string
  status :: association_status
  creationTime :: real

text \<open>An item of the failure table is its key \<open>resourceShareArn\<close> and its string
  attribute \<open>aws_account\<close>; the table is keyed, so a dictionary in item order.\<close>

type_synonym ddb_items = "(string, string) pydict"

record world =
  shares :: "string \<rightharpoonup> string"
  associations :: "association list"
  ddb_table :: ddb_items

datatype api_call =
    GetResourceShareAssociations
  | DisassociateResourceShare string pyval
  | AssociateResourceShare string pyval
  | ScanTable
  | PutItem string pyval
  | DeleteItem string
  | GetShareAssociations string
  | ListPermissions "nat option"

text \<open>A Lake Formation permission as \<open>list_permissions\<close> returns it: the principal's
  \<open>DataLakePrincipalIdentifier\<close> and, when the grant is a cross-account grant made
  through RAM, the share ARNs under \<open>AdditionalDetails.ResourceShare\<close> (\<open>None\<close> when either
  key is absent).\<close>

record lf_permission =
  principal_identifier :: string
  resource_share_details :: "string list option"

record env =
  now :: real
  fault :: "api_call \<Rightarrow> exc option"

section \<open>RAM\<close>

text \<open>\<open>get_resource_share_associations(associationType="PRINCIPAL",
  associationStatus="ASSOCIATING")\<close>, paginated: the pending principal associations.\<close>

definition get_resource_share_associations_pages :: "env \<Rightarrow> world \<Rightarrow> (exc + association list) list" where
  "get_resource_share_associations_pages env w =
     (case fault env GetResourceShareAssociations of
        Some e \<Rightarrow> [Inl e]
      | None \<Rightarrow> [Inr (filter (\<lambda>a. status a = ASSOCIATING) (associations w))])"

definition drop_association :: "string \<Rightarrow> string \<Rightarrow> association list \<Rightarrow> association list" where
  "drop_association arn p as = filter (\<lambda>a. \<not> (resourceShareArn a = arn \<and> associatedEntity a = p)) as"

text \<open>The associations of one share, in the order RAM keeps them.\<close>

abbreviation share_associations :: "string \<Rightarrow> world \<Rightarrow> association list" where
  "share_associations arn w \<equiv> filter (\<lambda>x. resourceShareArn x = arn) (associations w)"

definition disassociate_resource_share :: "env \<Rightarrow> string \<Rightarrow> pyval \<Rightarrow> (world, unit) pyst" where
  "disassociate_resource_share env arn pv = (\<lambda>w.
     case pv of
       PStr p \<Rightarrow>
         (case fault env (DisassociateResourceShare arn pv) of
            Some e \<Rightarrow> (Inl e, w)
          | None \<Rightarrow>
              (case shares w arn of
                 None \<Rightarrow> (Inl UnknownResourceException, w)
               | Some _ \<Rightarrow> (Inr (), w\<lparr>associations := drop_association arn p (associations w)\<rparr>)))
     | _ \<Rightarrow> (Inl ParamValidationError, w))"

text \<open>Associating a principal creates a fresh pending association (a new invitation)
  stamped with the current time.\<close>

definition associate_resource_share :: "env \<Rightarrow> string \<Rightarrow> pyval \<Rightarrow> (world, unit) pyst" where
  "associate_resource_share env arn pv = (\<lambda>w.
     case pv of
       PStr p \<Rightarrow>
         (case fault env (AssociateResourceShare arn pv) of
            Some e \<Rightarrow> (Inl e, w)
          | None \<Rightarrow>
              (case shares w arn of
                 None \<Rightarrow> (Inl UnknownResourceException, w)
               | Some name \<Rightarrow>
                   (Inr (), w\<lparr>associations := drop_association arn p (associations w) @
                      [\<lparr>resourceShareArn = arn, resourceShareName = name, associatedEntity = p,
                        status = ASSOCIATING, creationTime = now env\<rparr>]\<rparr>)))
     | _ \<Rightarrow> (Inl ParamValidationError, w))"

section \<open>DynamoDB\<close>

definition scan_pages :: "env \<Rightarrow> world \<Rightarrow> (exc + ddb_items) list" where
  "scan_pages env w = (case fault env ScanTable of Some e \<Rightarrow> [Inl e] | None \<Rightarrow> [Inr (ddb_table w)])"

definition put_item :: "env \<Rightarrow> string \<Rightarrow> pyval \<Rightarrow> (world, unit) pyst" where
  "put_item env arn pv = (\<lambda>w.
     case pv of
       PStr p \<Rightarrow>
         (case fault env (PutItem arn pv) of
            Some e \<Rightarrow> (Inl e, w)
          | None \<Rightarrow> (Inr (), w\<lparr>ddb_table := AList.update arn p (ddb_table w)\<rparr>))
     | _ \<Rightarrow> (Inl ParamValidationError, w))"

text \<open>Deleting an absent key succeeds: DynamoDB's \<open>DeleteItem\<close> is idempotent.\<close>

definition delete_item :: "env \<Rightarrow> string \<Rightarrow> (world, unit) pyst" where
  "delete_item env arn = (\<lambda>w.
     case fault env (DeleteItem arn) of
       Some e \<Rightarrow> (Inl e, w)
     | None \<Rightarrow> (Inr (), w\<lparr>ddb_table := AList.delete arn (ddb_table w)\<rparr>))"

lemma drop_association_idem [simp]:
  "drop_association arn p (drop_association arn p as) = drop_association arn p as"
  by (simp add: drop_association_def)

lemmas service_defs =
  disassociate_resource_share_def associate_resource_share_def put_item_def delete_item_def

section \<open>Frame and table invariant\<close>

text \<open>RAM calls leave the table alone, table calls leave RAM alone, and no call
  creates a second item for a key.\<close>

lemma ram_calls_keep_table:
  "ddb_table (snd (disassociate_resource_share env arn pv w)) = ddb_table w"
  "ddb_table (snd (associate_resource_share env arn pv w)) = ddb_table w"
  by (simp_all add: service_defs split: pyval.splits option.splits)

lemma table_calls_keep_ram:
  "shares (snd (put_item env arn pv w)) = shares w"
  "associations (snd (put_item env arn pv w)) = associations w"
  "shares (snd (delete_item env arn w)) = shares w"
  "associations (snd (delete_item env arn w)) = associations w"
  by (simp_all add: service_defs split: pyval.splits option.splits)

lemma table_calls_preserve_ram [preserves_intros]:
  "py_preserves (\<lambda>w. filter P (associations w)) (put_item env arn pv)"
  "py_preserves (\<lambda>w. filter P (associations w)) (delete_item env arn)"
  by (simp_all add: py_preserves_def table_calls_keep_ram)

lemma service_calls_preserve_shares [preserves_intros]:
  "py_preserves shares (disassociate_resource_share env arn pv)"
  "py_preserves shares (associate_resource_share env arn pv)"
  "py_preserves shares (put_item env arn pv)"
  "py_preserves shares (delete_item env arn)"
  by (simp_all add: py_preserves_def service_defs split: pyval.splits option.splits)

lemma service_calls_keep_wf [keeps_intros]:
  "py_keeps (\<lambda>w. dict_wf (ddb_table w)) (disassociate_resource_share env arn pv)"
  "py_keeps (\<lambda>w. dict_wf (ddb_table w)) (associate_resource_share env arn pv)"
  "py_keeps (\<lambda>w. dict_wf (ddb_table w)) (put_item env arn pv)"
  "py_keeps (\<lambda>w. dict_wf (ddb_table w)) (delete_item env arn)"
  by (simp_all add: py_keeps_def service_defs distinct_update distinct_delete split: pyval.splits option.splits)

text \<open>A call on one key of the table leaves every other key's item alone.\<close>

lemma service_calls_keep_other_item [keeps_intros]:
  "py_keeps (\<lambda>w. map_of (ddb_table w) k = c) (disassociate_resource_share env arn pv)"
  "py_keeps (\<lambda>w. map_of (ddb_table w) k = c) (associate_resource_share env arn pv)"
  "arn \<noteq> k \<Longrightarrow> py_keeps (\<lambda>w. map_of (ddb_table w) k = c) (put_item env arn pv)"
  "arn \<noteq> k \<Longrightarrow> py_keeps (\<lambda>w. map_of (ddb_table w) k = c) (delete_item env arn)"
  by (simp_all add: py_keeps_def service_defs update_conv' delete_conv' split: pyval.splits option.splits)

section \<open>The queries of the repair script\<close>

text \<open>\<open>get_resource_share_associations(resourceShareArns=[arn], associationType="PRINCIPAL")\<close>:
  the principal associations of one share, whatever their status; RAM raises
  \<open>UnknownResourceException\<close> for a share that does not exist.\<close>

definition get_share_associations :: "env \<Rightarrow> string \<Rightarrow> (world, association list) pyst" where
  "get_share_associations env arn = (\<lambda>w.
     case fault env (GetShareAssociations arn) of
       Some e \<Rightarrow> (Inl e, w)
     | None \<Rightarrow>
         (case shares w arn of
            None \<Rightarrow> (Inl UnknownResourceException, w)
          | Some _ \<Rightarrow> (Inr (filter (\<lambda>a. resourceShareArn a = arn) (associations w)), w)))"

text \<open>Lake Formation's \<open>list_permissions\<close> over a fixed listing of pages. The token of
  a page is its index: a request without a token returns the first page, a request with
  token \<open>i\<close> the page \<open>i\<close>, and a page carries the token of the next page, or none when
  it is the last. An empty listing is one empty page.\<close>

definition list_permissions ::
  "env \<Rightarrow> lf_permission list list \<Rightarrow> nat option \<Rightarrow> (world, lf_permission list \<times> nat option) pyst" where
  "list_permissions env pages tok = (\<lambda>w.
     case fault env (ListPermissions tok) of
       Some e \<Rightarrow> (Inl e, w)
     | None \<Rightarrow>
         (let i = (case tok of None \<Rightarrow> 0 | Some i \<Rightarrow> i)
          in (Inr (if i < length pages then pages ! i else [],
                   if Suc i < length pages then Some (Suc i) else None), w)))"

lemma list_permissions_next:
  "list_permissions env pages tok w = (Inr (perms, nxt), w') \<Longrightarrow>
     w' = w \<and> (case nxt of None \<Rightarrow> True
                | Some j \<Rightarrow> j = Suc (case tok of None \<Rightarrow> 0 | Some i \<Rightarrow> i) \<and> j < length pages)"
  by (auto simp: list_permissions_def Let_def split: option.splits if_splits)

lemma queries_preserve_world [preserves_intros]:
  "py_preserves f (get_share_associations env arn)"
  "py_preserves f (list_permissions env pages tok)"
  by (simp_all add: py_preserves_def get_share_associations_def list_permissions_def Let_def split: option.splits)

text \<open>The associations of one share are left alone by calls on any other share.\<close>

lemma ram_calls_keep_other_share [preserves_intros]:
  "arn \<noteq> k \<Longrightarrow> py_preserves (\<lambda>w. filter (\<lambda>a. resourceShareArn a = k) (associations w)) (disassociate_resource_share env arn pv)"
  "arn \<noteq> k \<Longrightarrow> py_preserves (\<lambda>w. filter (\<lambda>a. resourceShareArn a = k) (associations w)) (associate_resource_share env arn pv)"
  by (auto simp: py_preserves_def service_defs drop_association_def filter_filter
           split: pyval.splits option.splits intro!: filter_cong)

end
