(* ===== verification/RamManager.thy ===== *)
theory RamManager
  imports Services
begin

text \<open>
  \<open>src/src/lf_stale_ram_invite_monitor/ram_manager.py\<close>, class \<open>RamManager\<close>: the
  cutoff computed at construction, the scan for expired invitations
  (\<open>get_new_expired_ram_invitations\<close>) and the two mutating calls, which reach RAM only
  when the \<open>dry_run\<close> flag is true. The lemmas characterise the scan exactly: which
  invitations it returns, with which principal, and where the cutoff lies.
\<close>

record ram_manager =
  timeout_timestamp :: int
  dry_run :: bool

definition LAKE_FORMATION_PREFIX :: string where
  "LAKE_FORMATION_PREFIX = ''LakeFormation-''"

text \<open>\<open>__init__\<close>: \<open>int(time.time()) - timeout_in_secs\<close>.\<close>

definition RamManager :: "real \<Rightarrow> int \<Rightarrow> bool \<Rightarrow> ram_manager" where
  "RamManager time_now timeout_in_secs dry =
     \<lparr>timeout_timestamp = py_int time_now - timeout_in_secs, dry_run = dry\<rparr>"

text \<open>The condition of the inner loop of \<open>get_new_expired_ram_invitations\<close>.\<close>

definition is_expired_invitation :: "ram_manager \<Rightarrow> association \<Rightarrow> bool" where
  "is_expired_invitation rm invitation \<longleftrightarrow>
     startswith (resourceShareName invitation) LAKE_FORMATION_PREFIX
     \<and> py_int (creationTime invitation) < timeout_timestamp rm"

fun collect_expired :: "ram_manager \<Rightarrow> (string, pyval) pydict \<Rightarrow> association list \<Rightarrow> (string, pyval) pydict" where
  "collect_expired rm d [] = d"
| "collect_expired rm d (invitation # invitations) =
     collect_expired rm
       (if is_expired_invitation rm invitation
        then AList.update (resourceShareArn invitation) (PStr (associatedEntity invitation)) d else d) invitations"

definition get_new_expired_ram_invitations :: "ram_manager \<Rightarrow> env \<Rightarrow> (world, (string, pyval) pydict) pyst" where
  "get_new_expired_ram_invitations rm env = (\<lambda>w.
     (fold_pages (\<lambda>d invitations. Inr (collect_expired rm d invitations)) [] (get_resource_share_associations_pages env w), w))"

definition deassociate_account_from_ram_share :: "ram_manager \<Rightarrow> env \<Rightarrow> string \<Rightarrow> pyval \<Rightarrow> (world, unit) pyst" where
  "deassociate_account_from_ram_share rm env arn acct =
     (if dry_run rm then disassociate_resource_share env arn acct else py_return ())"

definition associate_account_with_ram_share :: "ram_manager \<Rightarrow> env \<Rightarrow> string \<Rightarrow> pyval \<Rightarrow> (world, unit) pyst" where
  "associate_account_with_ram_share rm env arn acct =
     (if dry_run rm then associate_resource_share env arn acct else py_return ())"

text \<open>An invitation created exactly at the cutoff of a manager built at time 1000 with a
  timeout of one second.\<close>

definition example_invitation :: association where
  "example_invitation =
     \<lparr>resourceShareArn = ''arn:aws:ram:us-east-1:123456789012:resource-share/1'',
      resourceShareName = ''LakeFormation-V4-ACTJVKOTWF'', associatedEntity = ''111111111111'',
      status = ASSOCIATING, creationTime = 999\<rparr>"

lemma ram_manager_keeps [keeps_intros]:
  "py_keeps Q (disassociate_resource_share env arn acct) \<Longrightarrow> py_keeps Q (deassociate_account_from_ram_share rm env arn acct)"
  "py_keeps Q (associate_resource_share env arn acct) \<Longrightarrow> py_keeps Q (associate_account_with_ram_share rm env arn acct)"
  by (simp_all add: deassociate_account_from_ram_share_def associate_account_with_ram_share_def keeps_intros)

lemma ram_manager_preserves [preserves_intros]:
  "py_preserves f (disassociate_resource_share env arn acct) \<Longrightarrow> py_preserves f (deassociate_account_from_ram_share rm env arn acct)"
  "py_preserves f (associate_resource_share env arn acct) \<Longrightarrow> py_preserves f (associate_account_with_ram_share rm env arn acct)"
  by (simp_all add: deassociate_account_from_ram_share_def associate_account_with_ram_share_def preserves_intros)

section \<open>The scan\<close>

text \<open>The reference the scan is compared with: the expired invitations, each as a
  share/principal pair, in the order RAM lists them.\<close>

definition expired_pairs :: "ram_manager \<Rightarrow> association list \<Rightarrow> (string, pyval) pydict" where
  "expired_pairs rm invitations =
     map (\<lambda>invitation. (resourceShareArn invitation, PStr (associatedEntity invitation))) (filter (is_expired_invitation rm) invitations)"

lemma collect_expired_eq: "collect_expired rm d invitations = dict_update d (expired_pairs rm invitations)"
  by (induction rm d invitations rule: collect_expired.induct) (simp_all add: expired_pairs_def)

lemma collect_expired_append:
  "collect_expired rm d (xs @ ys) = collect_expired rm (collect_expired rm d xs) ys"
  by (induction xs arbitrary: d) simp_all

lemma collect_pages_concat:
  "fold_pages (\<lambda>d invitations. Inr (collect_expired rm d invitations)) d (map Inr pages) =
   Inr (collect_expired rm d (concat pages))"
  by (rule fold_pages_concat) (simp_all add: collect_expired_append)

lemma collect_pages_error:
  "Inl e \<in> set pages \<Longrightarrow>
   \<exists>e'. fold_pages (\<lambda>d invitations. Inr (collect_expired rm d invitations)) d pages = Inl e'"
proof (induction pages arbitrary: d)
  case Nil
  then show ?case by simp
next
  case (Cons p pages)
  then show ?case by (cases p) auto
qed

lemma collect_pages_exact:
  "fold_pages (\<lambda>d invitations. Inr (collect_expired rm d invitations)) d pages =
     (case find isl pages of
        Some p \<Rightarrow> Inl (projl p)
      | None \<Rightarrow> Inr (collect_expired rm d (concat (map projr pages))))"
proof (induction pages arbitrary: d)
  case (Cons p pages)
  then show ?case by (cases p) (simp_all add: collect_expired_append split: option.split)
qed simp

text \<open>
  C29. The paginator loop of \<open>get_new_expired_ram_invitations\<close>, for any sequence of pages
  the paginator yields, each a page of invitations or the exception raised while fetching
  it: the first failed page's exception propagates, and the invitations of the pages before
  it are dropped with the local dict; when every page arrives, the result is the
  expired invitations of all pages taken as one list, later invitations of a share
  replacing earlier ones, however RAM splits them into pages.
\<close>

theorem scan_pages_exact:
  "fold_pages (\<lambda>d invitations. Inr (collect_expired rm d invitations)) [] pages =
     (case find isl pages of
        Some p \<Rightarrow> Inl (projl p)
      | None \<Rightarrow> Inr (dict_update [] (expired_pairs rm (concat (map projr pages)))))"
  unfolding collect_pages_exact by (simp add: collect_expired_eq split: option.split)

definition pending_invitations :: "world \<Rightarrow> association list" where
  "pending_invitations w = filter (\<lambda>a. status a = ASSOCIATING) (associations w)"

lemma get_new_expired_ram_invitations_eq:
  "get_new_expired_ram_invitations rm env w =
     (case fault env GetResourceShareAssociations of
        Some e \<Rightarrow> (Inl e, w)
      | None \<Rightarrow> (Inr (dict_update [] (expired_pairs rm (pending_invitations w))), w))"
  by (simp add: get_new_expired_ram_invitations_def get_resource_share_associations_pages_def
      collect_expired_eq pending_invitations_def split: option.splits)

lemma keys_expired_pairs:
  "set (map fst (expired_pairs rm invitations)) =
   resourceShareArn ` set (filter (is_expired_invitation rm) invitations)"
  by (force simp: expired_pairs_def)

text \<open>
  C3: the scan changes nothing and returns, unless listing the associations fails, a
  dictionary with one entry per share that has a pending invitation which is expired
  (in the managed namespace and older than the cutoff) and no other; a share's
  principal is that of its last such invitation in the order RAM lists them.
\<close>

theorem get_new_expired_ram_invitations_exact:
  "snd (get_new_expired_ram_invitations rm env w) = w
   \<and> (case fst (get_new_expired_ram_invitations rm env w) of
        Inl e \<Rightarrow> fault env GetResourceShareAssociations = Some e
      | Inr d \<Rightarrow> dict_wf d
          \<and> set (map fst d) = resourceShareArn ` set (filter (is_expired_invitation rm) (pending_invitations w))
          \<and> map_of d = map_of (rev (expired_pairs rm (pending_invitations w))))"
proof (cases "fault env GetResourceShareAssociations")
  case None
  let ?d = "dict_update [] (expired_pairs rm (pending_invitations w))"
  have "dict_wf ?d"
    by (rule dict_update_wf) simp
  moreover have "set (map fst ?d) = resourceShareArn ` set (filter (is_expired_invitation rm) (pending_invitations w))"
    using keys_dict_update [of "[]" "expired_pairs rm (pending_invitations w)"] keys_expired_pairs by simp
  moreover have "map_of ?d = map_of (rev (expired_pairs rm (pending_invitations w)))"
    by (simp add: map_of_dict_update)
  ultimately show ?thesis
    using None by (simp only: get_new_expired_ram_invitations_eq option.case prod.sel sum.case)
next
  case (Some e)
  then show ?thesis by (simp add: get_new_expired_ram_invitations_eq)
qed

text \<open>Where an invitation lies against the cutoff: for a creation time that is not
  before the epoch, \<open>int(ts) < cutoff\<close> is exactly \<open>ts < cutoff\<close>.\<close>

lemma is_expired_invitation_iff:
  "0 \<le> creationTime invitation \<Longrightarrow>
   is_expired_invitation rm invitation \<longleftrightarrow>
     startswith (resourceShareName invitation) LAKE_FORMATION_PREFIX
     \<and> creationTime invitation < of_int (timeout_timestamp rm)"
  by (simp add: is_expired_invitation_def py_int_less_iff)

lemma timeout_timestamp_RamManager:
  "0 \<le> t \<Longrightarrow> timeout_timestamp (RamManager t secs dry) = \<lfloor>t\<rfloor> - secs"
  by (simp add: RamManager_def py_int_def)

text \<open>
  C4: with the manager built at time \<open>t\<close> with timeout \<open>secs\<close>, an invitation
  (created at or after the epoch) is expired exactly when its share is in the
  \<open>LakeFormation-\<close> namespace and it was created strictly before the cutoff
  \<open>int(t) - secs\<close>; an invitation created exactly at the cutoff is not.
\<close>

theorem is_expired_iff_before_cutoff:
  assumes "0 \<le> t" and "0 \<le> creationTime invitation"
  shows "is_expired_invitation (RamManager t secs dry) invitation \<longleftrightarrow>
           startswith (resourceShareName invitation) ''LakeFormation-''
           \<and> creationTime invitation < of_int (\<lfloor>t\<rfloor> - secs)"
  using assms by (simp add: is_expired_invitation_iff timeout_timestamp_RamManager LAKE_FORMATION_PREFIX_def)

theorem is_expired_iff_before_cutoff_witness:
  "(0::real) \<le> 1000 \<and> 0 \<le> creationTime example_invitation
   \<and> \<not> is_expired_invitation (RamManager 1000 1 True) example_invitation"
proof -
  have h1: "(0::real) \<le> 1000" by simp
  have h2: "0 \<le> creationTime example_invitation" by (simp add: example_invitation_def)
  show ?thesis
    using h1 h2 is_expired_iff_before_cutoff [OF h1 h2, of 1 True] by (simp add: example_invitation_def)
qed

end
