(* ===== verification/LambdaHandler.thy ===== *)
theory LambdaHandler
  imports RamManager DdbManager
begin

text \<open>
  \<open>src/src/lf_stale_ram_invite_monitor/lambda_handler.py\<close>, \<open>lambda_handler\<close>: the
  event's defaults, the scan, the merge with the failure table, and the loop that
  refreshes each share with its nested \<open>try\<close>/\<open>except\<close> blocks, counting refreshed
  and failed shares. The loop's local counters and the world are the state of the loop
  body; an exception that leaves the body ends the invocation with the effects made so
  far. The lemmas give the body's effect on every branch, relate it to the per-share
  state machine of the spec, and lift it to the whole loop.
\<close>

record event =
  ram_timeout_in_seconds :: "int option"
  dry_run_flag :: "bool option"
  ddb_table_name :: "string option"

definition ELEVEN_HOURS_IN_SECS :: int where
  "ELEVEN_HOURS_IN_SECS = 11 * 60 * 60"

datatype response = Response (message: string) (recreated_count: nat) (failed_count: nat)

record handler_state =
  hworld :: world
  refreshed_ram_shares :: nat
  failed_ram_shares_count :: nat

definition on_world :: "(world, 'a) pyst \<Rightarrow> (handler_state, 'a) pyst" where
  "on_world m = py_lift hworld (\<lambda>w s. s\<lparr>hworld := w\<rparr>) m"

definition incr_refreshed :: "(handler_state, unit) pyst" where
  "incr_refreshed = py_modify (\<lambda>s. s\<lparr>refreshed_ram_shares := refreshed_ram_shares s + 1\<rparr>)"

definition incr_failed :: "(handler_state, unit) pyst" where
  "incr_failed = py_modify (\<lambda>s. s\<lparr>failed_ram_shares_count := failed_ram_shares_count s + 1\<rparr>)"

text \<open>The body of the loop for one share (lines 60--78), clause by clause.\<close>

definition refresh_share ::
  "env \<Rightarrow> ram_manager \<Rightarrow> (string, pyval) pydict \<Rightarrow> string \<Rightarrow> pyval \<Rightarrow> (handler_state, unit) pyst" where
  "refresh_share env rm prev arn acct =
     py_try
       (py_bind (on_world (deassociate_account_from_ram_share rm env arn acct)) (\<lambda>_.
          py_try
            (py_bind (on_world (associate_account_with_ram_share rm env arn acct)) (\<lambda>_.
             py_bind incr_refreshed (\<lambda>_.
             py_when (arn \<in> set (map fst prev)) (on_world (remove_resource_share_from_ddb env arn)))))
            (\<lambda>e. if is_client_error e
                 then py_bind (on_world (add_resource_share_to_ddb env arn acct)) (\<lambda>_. incr_failed)
                 else py_raise e)))
       (\<lambda>e. if e = UnknownResourceException
            then py_when (arn \<in> set (map fst prev)) (on_world (remove_resource_share_from_ddb env arn))
            else incr_failed)"

fun refresh_all ::
  "env \<Rightarrow> ram_manager \<Rightarrow> (string, pyval) pydict \<Rightarrow> (string, pyval) pydict \<Rightarrow> (handler_state, unit) pyst" where
  "refresh_all env rm prev [] = py_return ()"
| "refresh_all env rm prev ((arn, acct) # work) =
     py_bind (refresh_share env rm prev arn acct) (\<lambda>_. refresh_all env rm prev work)"

definition summary_message :: "nat \<Rightarrow> nat \<Rightarrow> string" where
  "summary_message r f = ''Recreated '' @ str_nat r @ '' RAM invitations. Failed = '' @ str_nat f"

text \<open>The loop run from zero counters, and the summary built from its counters.\<close>

definition run_refresh ::
  "env \<Rightarrow> ram_manager \<Rightarrow> (string, pyval) pydict \<Rightarrow> (string, pyval) pydict \<Rightarrow> (world, response) pyst" where
  "run_refresh env rm prev work = (\<lambda>w.
     case refresh_all env rm prev work \<lparr>hworld = w, refreshed_ram_shares = 0, failed_ram_shares_count = 0\<rparr> of
       (Inl e, s) \<Rightarrow> (Inl e, hworld s)
     | (Inr _, s) \<Rightarrow>
         (Inr (Response (summary_message (refreshed_ram_shares s) (failed_ram_shares_count s))
                 (refreshed_ram_shares s) (failed_ram_shares_count s)), hworld s))"

text \<open>Lines 35--38: the event's optional keys with their defaults, and the manager.\<close>

definition handler_ram_manager :: "env \<Rightarrow> event \<Rightarrow> ram_manager" where
  "handler_ram_manager env ev =
     (let timeout_in_seconds =
            (case ram_timeout_in_seconds ev of Some t \<Rightarrow> t | None \<Rightarrow> ELEVEN_HOURS_IN_SECS);
          dry = (case dry_run_flag ev of Some b \<Rightarrow> b | None \<Rightarrow> True)
      in RamManager (now env) timeout_in_seconds dry)"

definition lambda_handler :: "env \<Rightarrow> event \<Rightarrow> (world, response) pyst" where
  "lambda_handler env ev =
     py_try
       (let rm = handler_ram_manager env ev
        in case ddb_table_name ev of
             None \<Rightarrow> py_raise (KeyError ''ddb_table_name'')
           | Some _ \<Rightarrow>
               py_bind (get_new_expired_ram_invitations rm env) (\<lambda>expired.
               py_bind (get_previously_failed_accounts_for_resource_share env) (\<lambda>prev.
               let work = dict_update expired prev in
               if work = [] then py_return (Response ''No expired RAM shares found.'' 0 0)
               else run_refresh env rm prev work)))
       (\<lambda>e. py_raise e)"

text \<open>The handler as one case distinction over its reads.\<close>

lemma lambda_handler_unfold:
  "lambda_handler env ev w =
     (case ddb_table_name ev of
        None \<Rightarrow> (Inl (KeyError ''ddb_table_name''), w)
      | Some _ \<Rightarrow>
          (case get_new_expired_ram_invitations (handler_ram_manager env ev) env w of
             (Inl e, w1) \<Rightarrow> (Inl e, w1)
           | (Inr expired, w1) \<Rightarrow>
               (case get_previously_failed_accounts_for_resource_share env w1 of
                  (Inl e, w2) \<Rightarrow> (Inl e, w2)
                | (Inr prev, w2) \<Rightarrow>
                    (if dict_update expired prev = [] then (Inr (Response ''No expired RAM shares found.'' 0 0), w2)
                     else run_refresh env (handler_ram_manager env ev) prev (dict_update expired prev) w2))))"
  by (simp only: lambda_handler_def py_try_reraise)
    (auto simp: Let_def py_bind_def py_return_def py_raise_def split: option.splits prod.splits sum.splits)

lemmas refresh_defs = refresh_share_def on_world_def incr_refreshed_def incr_failed_def
  deassociate_account_from_ram_share_def associate_account_with_ram_share_def
  remove_resource_share_from_ddb_cases add_resource_share_to_ddb_eq

section \<open>Invariants and frames of the loop\<close>

lemma on_world_keeps [keeps_intros]: "py_keeps Q m \<Longrightarrow> py_keeps (\<lambda>s. Q (hworld s)) (on_world m)"
  and on_world_preserves [preserves_intros]: "py_preserves f m \<Longrightarrow> py_preserves (\<lambda>s. f (hworld s)) (on_world m)"
  by (simp_all add: on_world_def keeps_intros preserves_intros)

lemma counters_keep [keeps_intros]:
  "py_keeps (\<lambda>s. Q (hworld s)) incr_refreshed" "py_keeps (\<lambda>s. Q (hworld s)) incr_failed"
  and counters_preserve [preserves_intros]:
  "py_preserves (\<lambda>s. f (hworld s)) incr_refreshed" "py_preserves (\<lambda>s. f (hworld s)) incr_failed"
  by (simp_all add: incr_refreshed_def incr_failed_def keeps_intros preserves_intros)

lemma refresh_all_keeps:
  "(\<And>arn acct. (arn, acct) \<in> set work \<Longrightarrow> py_keeps P (refresh_share env rm prev arn acct)) \<Longrightarrow>
   py_keeps P (refresh_all env rm prev work)"
proof (induction work)
  case Nil
  then show ?case by (simp add: keeps_intros)
next
  case (Cons entry work)
  then show ?case by (cases entry) (simp add: keeps_intros)
qed

lemma refresh_all_preserves:
  "(\<And>arn acct. (arn, acct) \<in> set work \<Longrightarrow> py_preserves f (refresh_share env rm prev arn acct)) \<Longrightarrow>
   py_preserves f (refresh_all env rm prev work)"
proof (induction work)
  case Nil
  then show ?case by (simp add: preserves_intros)
next
  case (Cons entry work)
  then show ?case by (cases entry) (simp add: preserves_intros)
qed

lemma run_refresh_keeps:
  "py_keeps (\<lambda>s. Q (hworld s)) (refresh_all env rm prev work) \<Longrightarrow> py_keeps Q (run_refresh env rm prev work)"
  unfolding py_keeps_def run_refresh_def
  by (auto split: prod.splits sum.splits) (metis handler_state.select_convs(1) snd_conv)+

text \<open>The reads before the loop change nothing, so the handler keeps whatever every run
  of the loop keeps.\<close>

lemma lambda_handler_keeps:
  assumes "\<And>rm prev work. py_keeps Q (run_refresh env rm prev work)"
  shows "py_keeps Q (lambda_handler env ev)"
  unfolding py_keeps_def
proof (intro allI impI)
  fix w assume "Q w"
  then show "Q (snd (lambda_handler env ev w))"
    using assms [unfolded py_keeps_def]
    by (simp add: lambda_handler_unfold get_new_expired_ram_invitations_def
        get_previously_failed_accounts_for_resource_share_def split: option.splits sum.splits)
qed

lemma refresh_share_keeps_table_wf:
  "py_keeps (\<lambda>s. dict_wf (ddb_table (hworld s))) (refresh_share env rm prev arn acct)"
  unfolding refresh_share_def by (intro keeps_intros)

lemma refresh_share_keeps_other_record:
  "arn \<noteq> k \<Longrightarrow> py_keeps (\<lambda>s. map_of (ddb_table (hworld s)) k = c) (refresh_share env rm prev arn acct)"
  unfolding refresh_share_def by (intro keeps_intros)

text \<open>One iteration touches RAM only for its own share, and never the set of shares.\<close>

lemma refresh_share_keeps_other_share:
  "arn' \<noteq> arn \<Longrightarrow> py_preserves (\<lambda>s. share_associations arn (hworld s)) (refresh_share env rm prev arn' acct)"
  unfolding refresh_share_def by (intro preserves_intros ram_calls_keep_other_share)

lemma refresh_share_keeps_shares:
  "py_preserves (\<lambda>s. shares (hworld s)) (refresh_share env rm prev arn acct)"
  unfolding refresh_share_def by (intro preserves_intros)

text \<open>Either the handler stops before the loop, leaving the world as it was, or both
  reads succeed, the work set is not empty, and the handler is the loop.\<close>

lemma lambda_handler_cases:
  "snd (lambda_handler env ev w) = w
   \<or> (\<exists>expired prev.
        get_new_expired_ram_invitations (handler_ram_manager env ev) env w = (Inr expired, w)
        \<and> get_previously_failed_accounts_for_resource_share env w = (Inr prev, w)
        \<and> dict_update expired prev \<noteq> []
        \<and> lambda_handler env ev w = run_refresh env (handler_ram_manager env ev) prev (dict_update expired prev) w)"
  using get_new_expired_ram_invitations_eq [of "handler_ram_manager env ev" env w]
    get_previously_failed_eq [of env w]
  by (auto simp: lambda_handler_unfold split: option.splits prod.splits sum.splits)

lemma dry_run_handler_ram_manager:
  "dry_run (handler_ram_manager env ev) \<longleftrightarrow> dry_run_flag ev \<noteq> Some False"
  by (auto simp: handler_ram_manager_def RamManager_def Let_def split: option.splits)

section \<open>The loop body, branch by branch\<close>

text \<open>A principal that is not a string (what \<open>json.loads\<close> makes of an account
  number) is refused by botocore before RAM is called: the share counts as failed and
  nothing changes.\<close>

lemma refresh_share_not_string:
  "dry_run rm \<Longrightarrow> \<not> (\<exists>p. acct = PStr p) \<Longrightarrow>
   refresh_share env rm prev arn acct s = (Inr (), s\<lparr>failed_ram_shares_count := Suc (failed_ram_shares_count s)\<rparr>)"
  by (cases acct) (simp_all add: refresh_defs service_defs py_simps)

text \<open>With the flag false no RAM call is made; the share counts as refreshed and its
  failure record, if it had one, is deleted.\<close>

lemma refresh_share_flag_off:
  "\<not> dry_run rm \<Longrightarrow> fault env (DeleteItem arn) = None \<Longrightarrow>
   refresh_share env rm prev arn acct s =
     (Inr (), s\<lparr>hworld := (if arn \<in> set (map fst prev)
                             then (hworld s)\<lparr>ddb_table := AList.delete arn (ddb_table (hworld s))\<rparr>
                             else hworld s),
               refreshed_ram_shares := Suc (refreshed_ram_shares s)\<rparr>)"
  by (simp add: refresh_defs service_defs py_simps)

lemma refresh_all_keeps_unusable_record:
  assumes "dry_run rm"
    and "\<forall>(arn, v) \<in> set work. arn = k \<longrightarrow> \<not> (\<exists>p. v = PStr p)"
  shows "py_keeps (\<lambda>s. map_of (ddb_table (hworld s)) k = c) (refresh_all env rm prev work)"
proof (rule refresh_all_keeps)
  fix arn acct assume entry: "(arn, acct) \<in> set work"
  show "py_keeps (\<lambda>s. map_of (ddb_table (hworld s)) k = c) (refresh_share env rm prev arn acct)"
  proof (cases "arn = k")
    case True
    with entry assms have "\<not> (\<exists>p. acct = PStr p)" by auto
    with assms(1) show ?thesis by (simp add: py_keeps_def refresh_share_not_string)
  next
    case False
    then show ?thesis by (rule refresh_share_keeps_other_record)
  qed
qed

lemma refresh_all_Cons_abort:
  "refresh_share env rm prev arn acct s = (Inl e, s') \<Longrightarrow>
   refresh_all env rm prev ((arn, acct) # work) s = (Inl e, s')"
  by (simp add: py_simps)

lemma refresh_all_Cons_continue:
  "refresh_share env rm prev arn acct s = (Inr (), s') \<Longrightarrow>
   refresh_all env rm prev ((arn, acct) # work) s = refresh_all env rm prev work s'"
  by (simp add: py_simps)

text \<open>Each iteration adds at most one to each counter.\<close>

lemma refresh_share_counts:
  "refreshed_ram_shares (snd (refresh_share env rm prev arn acct s)) \<le> Suc (refreshed_ram_shares s)
   \<and> failed_ram_shares_count (snd (refresh_share env rm prev arn acct s)) \<le> Suc (failed_ram_shares_count s)"
  by (auto simp: refresh_share_def on_world_def incr_refreshed_def incr_failed_def py_simps
           split: prod.splits sum.splits)

lemma refresh_all_counts:
  "refreshed_ram_shares (snd (refresh_all env rm prev work s)) \<le> refreshed_ram_shares s + length work
   \<and> failed_ram_shares_count (snd (refresh_all env rm prev work s)) \<le> failed_ram_shares_count s + length work"
proof (induction work arbitrary: s)
  case Nil
  then show ?case by (simp add: py_simps)
next
  case (Cons kv work)
  obtain arn acct where kv: "kv = (arn, acct)" by fastforce
  obtain r s1 where st: "refresh_share env rm prev arn acct s = (r, s1)" by fastforce
  have step: "refreshed_ram_shares s1 \<le> Suc (refreshed_ram_shares s) \<and> failed_ram_shares_count s1 \<le> Suc (failed_ram_shares_count s)"
    using refresh_share_counts [of env rm prev arn acct s] st by simp
  show ?case
  proof (cases r)
    case (Inl e)
    then show ?thesis using kv st step by (simp add: py_bind_def)
  next
    case (Inr u)
    then show ?thesis using kv st step Cons.IH [of s1] by (simp add: py_bind_def)
  qed
qed

lemma response_counts_work:
  "run_refresh env rm prev work w = (Inr (Response m r f), w') \<Longrightarrow> r \<le> length work \<and> f \<le> length work"
  using refresh_all_counts [of env rm prev work "\<lparr>hworld = w, refreshed_ram_shares = 0, failed_ram_shares_count = 0\<rparr>"]
  by (auto simp: run_refresh_def split: prod.splits sum.splits)

text \<open>On services that answer every call, each string principal is re-invited and its
  failure record, if any, deleted.\<close>

lemma refresh_share_fault_free:
  assumes "fault env = (\<lambda>_. None)" and "dry_run rm"
  shows "fst (refresh_share env rm prev arn (PStr p) s) = Inr ()
         \<and> ddb_table (hworld (snd (refresh_share env rm prev arn (PStr p) s))) =
             (if arn \<in> set (map fst prev) then AList.delete arn (ddb_table (hworld s)) else ddb_table (hworld s))"
  using assms by (cases "shares (hworld s) arn") (auto simp: refresh_defs service_defs py_simps)

lemma refresh_all_fault_free:
  assumes "fault env = (\<lambda>_. None)" and "dry_run rm"
  shows "fst (refresh_all env rm prev (map (\<lambda>(arn, p). (arn, PStr p)) pairs) s) = Inr ()
         \<and> map_of (ddb_table (hworld (snd (refresh_all env rm prev (map (\<lambda>(arn, p). (arn, PStr p)) pairs) s))))
           = map_of (ddb_table (hworld s)) |` (- (set (map fst pairs) \<inter> set (map fst prev)))"
proof (induction pairs arbitrary: s)
  case Nil
  then show ?case by (simp add: py_simps)
next
  case (Cons pair pairs)
  obtain arn p where pair: "pair = (arn, p)" by fastforce
  obtain s1 where s1: "refresh_share env rm prev arn (PStr p) s = (Inr (), s1)"
    using refresh_share_fault_free [OF assms, of prev arn p s] by (cases "refresh_share env rm prev arn (PStr p) s") auto
  have t1: "ddb_table (hworld s1) = (if arn \<in> set (map fst prev) then AList.delete arn (ddb_table (hworld s)) else ddb_table (hworld s))"
    using refresh_share_fault_free [OF assms, of prev arn p s] s1 by simp
  have step: "refresh_all env rm prev (map (\<lambda>(arn, p). (arn, PStr p)) (pair # pairs)) s
                = refresh_all env rm prev (map (\<lambda>(arn, p). (arn, PStr p)) pairs) s1"
    using s1 by (simp add: pair py_bind_def)
  show ?case
    using Cons.IH [of s1] t1 step
    by (auto simp: pair delete_conv' restrict_map_def fun_eq_iff)
qed

text \<open>On services that answer every call, the iteration for a share re-invites the
  principal it is given: the share's associations with that principal are replaced by
  one fresh pending association; the loop does this once for each share of the work set.\<close>

lemma refresh_share_reinvites:
  assumes "fault env = (\<lambda>_. None)" and "dry_run rm" and "shares (hworld s) arn = Some name"
  shows "share_associations arn (hworld (snd (refresh_share env rm prev arn (PStr p) s))) =
           drop_association arn p (share_associations arn (hworld s)) @
             [\<lparr>resourceShareArn = arn, resourceShareName = name, associatedEntity = p, status = ASSOCIATING, creationTime = now env\<rparr>]"
  using assms by (auto simp: refresh_defs service_defs py_simps drop_association_def filter_filter conj_commute)

lemma refresh_all_reinvites:
  assumes faults: "fault env = (\<lambda>_. None)" and rm: "dry_run rm"
    and "distinct (map fst pairs)" and "(arn, p) \<in> set pairs" and "shares (hworld s) arn = Some name"
  shows "share_associations arn (hworld (snd (refresh_all env rm prev (map (\<lambda>(a, q). (a, PStr q)) pairs) s))) =
           drop_association arn p (share_associations arn (hworld s)) @
             [\<lparr>resourceShareArn = arn, resourceShareName = name, associatedEntity = p, status = ASSOCIATING, creationTime = now env\<rparr>]"
  using assms(3-5)
proof (induction pairs arbitrary: s)
  case Nil
  then show ?case by simp
next
  case (Cons pair pairs)
  obtain a q where pair: "pair = (a, q)" by fastforce
  obtain s1 where s1: "refresh_share env rm prev a (PStr q) s = (Inr (), s1)"
    using refresh_share_fault_free [OF faults rm, of prev a q s] by (cases "refresh_share env rm prev a (PStr q) s") auto
  have step: "refresh_all env rm prev (map (\<lambda>(a, q). (a, PStr q)) (pair # pairs)) s
                = refresh_all env rm prev (map (\<lambda>(a, q). (a, PStr q)) pairs) s1"
    using s1 by (simp add: pair py_bind_def)
  have sh: "shares (hworld s1) = shares (hworld s)"
    using py_preservesD [OF refresh_share_keeps_shares, of env rm prev a "PStr q" s] s1 by simp
  show ?case
  proof (cases "a = arn")
    case True
    with Cons.prems pair have "q = p" and notin: "arn \<notin> set (map fst pairs)" by (auto simp: image_iff)
    have "py_preserves (\<lambda>s. share_associations arn (hworld s)) (refresh_all env rm prev (map (\<lambda>(a, q). (a, PStr q)) pairs))"
      using notin by (intro refresh_all_preserves refresh_share_keeps_other_share) (auto simp: image_iff)
    then have "share_associations arn (hworld (snd (refresh_all env rm prev (map (\<lambda>(a, q). (a, PStr q)) pairs) s1)))
                 = share_associations arn (hworld s1)" by (rule py_preservesD)
    then show ?thesis
      using refresh_share_reinvites [OF faults rm Cons.prems(3), of prev p] s1 step True \<open>q = p\<close>
      by (simp add: pair)
  next
    case False
    have "share_associations arn (hworld s1) = share_associations arn (hworld s)"
      using py_preservesD [OF refresh_share_keeps_other_share [OF False], of env rm prev "PStr q" s] s1 by simp
    then show ?thesis
      using Cons.IH [of s1] Cons.prems False sh step pair by simp
  qed
qed

end
