(* ===== verification/RefreshSpec.thy ===== *)
theory RefreshSpec
  imports LambdaHandler
begin

text \<open>
  The contract of the refresh loop, as the spec states it (section 4.3), and the proof
  that \<open>lambda_handler.py\<close> implements it where the spec's assumptions about the
  services hold. Each share of the work set runs through a small state machine driven
  by what the services answer: \<open>START\<close>, then \<open>REMOVED\<close> when the principal is
  disassociated, ending in \<open>REFRESHED\<close>, \<open>GONE\<close> (the share no longer exists),
  \<open>FAILED\<close> (the removal failed) or \<open>FAILED_RECORDED\<close> (the re-association failed
  and the failure was written to the table). The machine is an inductive step relation
  (\<open>refresh_step\<close>, runs \<open>refresh_run\<close>), equal to an executable
  one (\<open>run_machine\<close>). Each terminal state has an effect on the abstract
  state of the loop: the two counters and the failure table as a map
  (\<open>refresh_effect\<close>). The refinement theorems say that one iteration of the
  loop body, and the whole loop, change the abstract state exactly as the machine's
  terminal states prescribe, provided the spec's assumptions hold: the mutating calls
  are live, writes and deletes of the table succeed, and a failed re-association is a
  service error (\<open>ClientError\<close>). Where an assumption fails the code leaves the
  contract; \<open>Spec2Isabelle\<close> proves how.
\<close>

datatype refresh_state = START | REMOVED | REFRESHED | GONE | FAILED | FAILED_RECORDED

datatype service_event = RemoveSucceeds | RemoveUnknownResource | RemoveFails | AddSucceeds | AddFails

inductive refresh_step :: "refresh_state \<Rightarrow> service_event \<Rightarrow> refresh_state \<Rightarrow> bool" where
  remove_ok: "refresh_step START RemoveSucceeds REMOVED"
| remove_gone: "refresh_step START RemoveUnknownResource GONE"
| remove_failed: "refresh_step START RemoveFails FAILED"
| add_ok: "refresh_step REMOVED AddSucceeds REFRESHED"
| add_failed: "refresh_step REMOVED AddFails FAILED_RECORDED"

inductive refresh_run :: "refresh_state \<Rightarrow> service_event list \<Rightarrow> refresh_state \<Rightarrow> bool" where
  run_nil: "refresh_run q [] q"
| run_cons: "refresh_step q ev q' \<Longrightarrow> refresh_run q' evs q'' \<Longrightarrow> refresh_run q (ev # evs) q''"

code_pred refresh_step .
code_pred refresh_run .

inductive_simps refresh_run_Nil [simp]: "refresh_run q [] q'"
inductive_simps refresh_run_Cons [simp]: "refresh_run q (ev # evs) q'"
inductive_simps refresh_step_simps: "refresh_step q ev q'"

fun terminal :: "refresh_state \<Rightarrow> bool" where
  "terminal START = False"
| "terminal REMOVED = False"
| "terminal _ = True"

fun next_state :: "refresh_state \<Rightarrow> service_event \<Rightarrow> refresh_state option" where
  "next_state START RemoveSucceeds = Some REMOVED"
| "next_state START RemoveUnknownResource = Some GONE"
| "next_state START RemoveFails = Some FAILED"
| "next_state REMOVED AddSucceeds = Some REFRESHED"
| "next_state REMOVED AddFails = Some FAILED_RECORDED"
| "next_state _ _ = None"

fun run_machine :: "refresh_state \<Rightarrow> service_event list \<Rightarrow> refresh_state option" where
  "run_machine q [] = Some q"
| "run_machine q (ev # evs) = (case next_state q ev of None \<Rightarrow> None | Some q' \<Rightarrow> run_machine q' evs)"

lemma refresh_step_iff [simp]: "refresh_step q ev q' \<longleftrightarrow> next_state q ev = Some q'"
  by (cases q; cases ev) (auto simp: refresh_step_simps)

lemma refresh_run_iff: "refresh_run q evs q' \<longleftrightarrow> run_machine q evs = Some q'"
proof (induction evs arbitrary: q)
  case Nil
  show ?case by auto
next
  case (Cons ev evs)
  show ?case by (cases "next_state q ev") (simp_all add: Cons.IH)
qed

record failure_summary =
  sum_refreshed :: nat
  sum_failed :: nat
  sum_store :: "string \<rightharpoonup> string"

fun refresh_effect :: "bool \<Rightarrow> string \<Rightarrow> string \<Rightarrow> refresh_state \<Rightarrow> failure_summary \<Rightarrow> failure_summary" where
  "refresh_effect in_prev arn p REFRESHED a =
     a\<lparr>sum_refreshed := Suc (sum_refreshed a),
       sum_store := (if in_prev then (sum_store a)(arn := None) else sum_store a)\<rparr>"
| "refresh_effect in_prev arn p GONE a =
     a\<lparr>sum_store := (if in_prev then (sum_store a)(arn := None) else sum_store a)\<rparr>"
| "refresh_effect in_prev arn p FAILED a = a\<lparr>sum_failed := Suc (sum_failed a)\<rparr>"
| "refresh_effect in_prev arn p FAILED_RECORDED a =
     a\<lparr>sum_failed := Suc (sum_failed a), sum_store := (sum_store a)(arn \<mapsto> p)\<rparr>"
| "refresh_effect in_prev arn p START a = a"
| "refresh_effect in_prev arn p REMOVED a = a"

definition abs_state :: "handler_state \<Rightarrow> failure_summary" where
  "abs_state s = \<lparr>sum_refreshed = refreshed_ram_shares s, sum_failed = failed_ram_shares_count s,
                  sum_store = map_of (ddb_table (hworld s))\<rparr>"

definition service_events :: "env \<Rightarrow> (string \<rightharpoonup> string) \<Rightarrow> string \<Rightarrow> string \<Rightarrow> service_event list" where
  "service_events env sh arn p =
     (case fault env (DisassociateResourceShare arn (PStr p)) of
        Some e \<Rightarrow> [if e = UnknownResourceException then RemoveUnknownResource else RemoveFails]
      | None \<Rightarrow>
          (case sh arn of
             None \<Rightarrow> [RemoveUnknownResource]
           | Some _ \<Rightarrow>
               [RemoveSucceeds,
                (case fault env (AssociateResourceShare arn (PStr p)) of None \<Rightarrow> AddSucceeds | Some _ \<Rightarrow> AddFails)]))"

definition spec_outcome :: "env \<Rightarrow> (string \<rightharpoonup> string) \<Rightarrow> string \<Rightarrow> string \<Rightarrow> refresh_state" where
  "spec_outcome env sh arn p = (case run_machine START (service_events env sh arn p) of Some t \<Rightarrow> t | None \<Rightarrow> START)"

definition spec_conditions :: "env \<Rightarrow> string \<Rightarrow> string \<Rightarrow> bool" where
  "spec_conditions env arn p \<longleftrightarrow>
     fault env (PutItem arn (PStr p)) = None \<and> fault env (DeleteItem arn) = None
     \<and> (case fault env (AssociateResourceShare arn (PStr p)) of None \<Rightarrow> True | Some e \<Rightarrow> is_client_error e)"

fun spec_refresh_all ::
  "env \<Rightarrow> (string \<rightharpoonup> string) \<Rightarrow> (string, pyval) pydict \<Rightarrow> (string \<times> string) list \<Rightarrow> failure_summary \<Rightarrow> failure_summary" where
  "spec_refresh_all env sh prev [] a = a"
| "spec_refresh_all env sh prev ((arn, p) # pairs) a =
     spec_refresh_all env sh prev pairs (refresh_effect (arn \<in> set (map fst prev)) arn p (spec_outcome env sh arn p) a)"

lemma spec_outcome_run:
  "refresh_run START (service_events env sh arn p) (spec_outcome env sh arn p) \<and> terminal (spec_outcome env sh arn p)"
  by (simp add: service_events_def spec_outcome_def split: option.splits)

lemma refresh_share_spec_outcome:
  assumes "dry_run rm" and "spec_conditions env arn p"
  shows "\<exists>s'. refresh_share env rm prev arn (PStr p) s = (Inr (), s')
            \<and> abs_state s' = refresh_effect (arn \<in> set (map fst prev)) arn p (spec_outcome env (shares (hworld s)) arn p) (abs_state s)"
  using assms
  by (auto simp: spec_conditions_def spec_outcome_def service_events_def refresh_defs service_defs py_simps abs_state_def
       delete_conv' update_conv' split: option.splits if_splits)

text \<open>
  C2: one iteration of the loop body implements the spec's per-share state machine:
  when the mutating calls are live, the table calls succeed and a failed
  re-association raises a service error, the body returns normally, the run of the
  machine on the services' answers ends in a terminal state, and the counters and the
  failure table change exactly as that state prescribes.
\<close>

theorem refresh_share_refines:
  assumes live: "dry_run rm"
    and conditions: "spec_conditions env arn p"
    and run: "refresh_run START (service_events env (shares (hworld s)) arn p) t"
  shows "\<exists>s'. refresh_share env rm prev arn (PStr p) s = (Inr (), s')
            \<and> terminal t \<and> abs_state s' = refresh_effect (arn \<in> set (map fst prev)) arn p t (abs_state s)"
proof -
  have "t = spec_outcome env (shares (hworld s)) arn p"
    using run spec_outcome_run [of env "shares (hworld s)" arn p] by (simp add: refresh_run_iff)
  then show ?thesis
    using refresh_share_spec_outcome [OF live conditions] spec_outcome_run by auto
qed

text \<open>The loop, share by share, by induction on the work set.\<close>

lemma refresh_all_spec_outcome:
  assumes live: "dry_run rm"
    and conditions: "list_all (\<lambda>(arn, p). spec_conditions env arn p) pairs"
  shows "\<exists>s'. refresh_all env rm prev (map (\<lambda>(arn, p). (arn, PStr p)) pairs) s = (Inr (), s')
            \<and> abs_state s' = spec_refresh_all env (shares (hworld s)) prev pairs (abs_state s)"
  using conditions
proof (induction pairs arbitrary: s)
  case Nil
  then show ?case by (simp add: py_simps)
next
  case (Cons pair pairs)
  obtain arn p where pair: "pair = (arn, p)" by (cases pair)
  with Cons.prems have c: "spec_conditions env arn p" and cs: "list_all (\<lambda>(arn, p). spec_conditions env arn p) pairs"
    by simp_all
  obtain s1 where s1: "refresh_share env rm prev arn (PStr p) s = (Inr (), s1)"
    and a1: "abs_state s1 = refresh_effect (arn \<in> set (map fst prev)) arn p (spec_outcome env (shares (hworld s)) arn p) (abs_state s)"
    using refresh_share_spec_outcome [OF live c] by blast
  have sh: "shares (hworld s1) = shares (hworld s)"
    using py_preservesD [OF refresh_share_keeps_shares, of env rm prev arn "PStr p" s] s1 by simp
  obtain s' where rest: "refresh_all env rm prev (map (\<lambda>(arn, p). (arn, PStr p)) pairs) s1 = (Inr (), s')"
    and a': "abs_state s' = spec_refresh_all env (shares (hworld s1)) prev pairs (abs_state s1)"
    using Cons.IH [OF cs] by blast
  have "refresh_all env rm prev (map (\<lambda>(arn, p). (arn, PStr p)) (pair # pairs)) s = (Inr (), s')"
    using s1 rest by (simp add: pair py_bind_def)
  moreover have "abs_state s' = spec_refresh_all env (shares (hworld s)) prev (pair # pairs) (abs_state s)"
    using a' a1 sh by (simp add: pair)
  ultimately show ?case by blast
qed

text \<open>
  C1: the refresh loop of \<open>lambda_handler\<close> implements the spec's contract for the
  whole work set: under the same assumptions, for every share, the loop returns
  normally and its counters and the failure table are those of the spec's run over the
  work set, share by share, each share's terminal state given by the services'
  answers.
\<close>

theorem refresh_all_refines:
  assumes live: "dry_run rm"
    and conditions: "list_all (\<lambda>(arn, p). spec_conditions env arn p) pairs"
  shows "\<exists>s'. refresh_all env rm prev (map (\<lambda>(arn, p). (arn, PStr p)) pairs) s = (Inr (), s')
            \<and> abs_state s' = spec_refresh_all env (shares (hworld s)) prev pairs (abs_state s)"
  using assms by (rule refresh_all_spec_outcome)

definition example_env :: env where
  "example_env = \<lparr>now = 1000, fault = (\<lambda>c. if c = AssociateResourceShare ''arn2'' (PStr ''222222222222'')
                                           then Some (ClientError ''ThrottlingException'') else None)\<rparr>"

definition example_rm :: ram_manager where
  "example_rm = \<lparr>timeout_timestamp = 900, dry_run = True\<rparr>"

definition example_state :: handler_state where
  "example_state =
     \<lparr>hworld = \<lparr>shares = [''arn1'' \<mapsto> ''LakeFormation-1'', ''arn2'' \<mapsto> ''LakeFormation-2''],
                associations = [], ddb_table = [(''arn1'', ''111111111111'')]\<rparr>,
      refreshed_ram_shares = 0, failed_ram_shares_count = 0\<rparr>"

lemmas example_defs = example_env_def example_rm_def example_state_def

theorem refresh_share_refines_witness:
  "dry_run example_rm \<and> spec_conditions example_env ''arn1'' ''111111111111''
   \<and> refresh_run START (service_events example_env (shares (hworld example_state)) ''arn1'' ''111111111111'') REFRESHED
   \<and> (\<exists>s'. refresh_share example_env example_rm [(''arn1'', PInt 111111111111)] ''arn1'' (PStr ''111111111111'') example_state = (Inr (), s')
        \<and> terminal REFRESHED
        \<and> abs_state s' = refresh_effect True ''arn1'' ''111111111111'' REFRESHED (abs_state example_state))"
proof -
  have h1: "dry_run example_rm" by (simp add: example_defs)
  have h2: "spec_conditions example_env ''arn1'' ''111111111111''" by (simp add: example_defs spec_conditions_def)
  have h3: "refresh_run START (service_events example_env (shares (hworld example_state)) ''arn1'' ''111111111111'') REFRESHED"
    by (simp add: example_defs service_events_def)
  show ?thesis
    using h1 h2 h3 refresh_share_refines [OF h1 h2 h3, of "[(''arn1'', PInt 111111111111)]"] by simp
qed

theorem refresh_all_refines_witness:
  "dry_run example_rm
   \<and> list_all (\<lambda>(arn, p). spec_conditions example_env arn p) [(''arn1'', ''111111111111''), (''arn2'', ''222222222222'')]
   \<and> (\<exists>s'. refresh_all example_env example_rm [(''arn1'', PInt 111111111111)]
               [(''arn1'', PStr ''111111111111''), (''arn2'', PStr ''222222222222'')] example_state = (Inr (), s')
        \<and> abs_state s' = \<lparr>sum_refreshed = 1, sum_failed = 1, sum_store = [''arn2'' \<mapsto> ''222222222222'']\<rparr>)"
proof -
  have h1: "dry_run example_rm" by (simp add: example_defs)
  have h2: "list_all (\<lambda>(arn, p). spec_conditions example_env arn p) [(''arn1'', ''111111111111''), (''arn2'', ''222222222222'')]"
    by (simp add: example_defs spec_conditions_def)
  have "spec_refresh_all example_env (shares (hworld example_state)) [(''arn1'', PInt 111111111111)]
          [(''arn1'', ''111111111111''), (''arn2'', ''222222222222'')] (abs_state example_state)
        = \<lparr>sum_refreshed = 1, sum_failed = 1, sum_store = [''arn2'' \<mapsto> ''222222222222'']\<rparr>"
    by (simp add: example_defs spec_outcome_def service_events_def abs_state_def fun_eq_iff)
  then show ?thesis
    using h1 h2 refresh_all_refines [OF h1 h2, of "[(''arn1'', PInt 111111111111)]" example_state] by simp
qed

end
