(* ===== verification/Utility.thy ===== *)
theory Utility
  imports Services
begin

text \<open>
  The repair script \<open>src/utility/fix_lakeformation_ram_invites.py\<close>, a command-line
  tool separate from the Lambda. It lists the Lake Formation permissions page by page
  and, for each permission granted through a RAM share, inspects the share's principal
  association: it associates a missing principal, and it disassociates and
  re-associates a principal whose association failed or is older than eleven hours.
  Each mutating call is made only when the script runs with \<open>--no-dry-run\<close>.

  The script's module-level statements are the definitions below, in source order:
  \<open>get_account_id\<close>, the body of the innermost loop (\<open>fix_share\<close>), the body of the loop
  over a page's permissions (\<open>fix_permission\<close>), the \<open>while\<close> loop over the pages
  (\<open>fix_loop\<close>) and the script itself (\<open>fix_lakeformation_ram_invites\<close>). The
  lemmas characterise the page loop, its frames and a single share's treatment; the
  properties built on them are in \<open>UtilityProperties\<close>.
\<close>

definition ELEVEN_HOURS_IN_SECS_script :: int where
  "ELEVEN_HOURS_IN_SECS_script = 11 * 60 * 60"

text \<open>\<open>--no-dry-run\<close> is declared with \<open>action='store_false'\<close> and read into
  \<open>IS_DRY_RUN\<close>: the script mutates only when the flag is given.\<close>

definition is_dry_run_of_args :: "bool \<Rightarrow> bool" where
  "is_dry_run_of_args no_dry_run_given = (\<not> no_dry_run_given)"

definition get_account_id :: "string \<Rightarrow> exc + string" where
  "get_account_id principal_id =
     (if startswith principal_id ''arn:aws:iam::'' then py_index (py_split CHR '':'' principal_id) 4
      else if py_isdigit principal_id \<and> length principal_id = 12 then Inr principal_id
      else Inl (ValueError (''Invalid principal: '' @ principal_id)))"

text \<open>\<open>timeout_timestamp = int(time.time()) - ELEVEN_HOURS_IN_SECS\<close>.\<close>

definition script_timeout_timestamp :: "env \<Rightarrow> int" where
  "script_timeout_timestamp env = py_int (now env) - ELEVEN_HOURS_IN_SECS_script"

text \<open>Disassociate, then re-associate: the recreation of an invitation.\<close>

definition recreate_association :: "env \<Rightarrow> string \<Rightarrow> string \<Rightarrow> (world, unit) pyst" where
  "recreate_association env account_id resource_share_arn =
     py_bind (disassociate_resource_share env resource_share_arn (PStr account_id))
       (\<lambda>_. associate_resource_share env resource_share_arn (PStr account_id))"

text \<open>The body of \<open>for resource_share_arn in resource_share_arns\<close>, with its
  \<open>try ... except ram.exceptions.UnknownResourceException\<close>; \<open>continue\<close> when the
  share has not exactly one association.\<close>

definition fix_share :: "env \<Rightarrow> bool \<Rightarrow> int \<Rightarrow> string \<Rightarrow> string \<Rightarrow> (world, unit) pyst" where
  "fix_share env IS_DRY_RUN timeout_timestamp account_id resource_share_arn =
     py_try
       (py_bind (get_share_associations env resource_share_arn) (\<lambda>share_associations.
          if length share_associations \<noteq> 1 then py_return ()
          else
            (let resource_share = hd share_associations in
             if associatedEntity resource_share = [] then
               py_when (\<not> IS_DRY_RUN) (associate_resource_share env resource_share_arn (PStr account_id))
             else if associatedEntity resource_share \<noteq> account_id then py_return ()
             else if status resource_share = FAILED then
               py_when (\<not> IS_DRY_RUN) (recreate_association env account_id resource_share_arn)
             else if timeout_timestamp > py_int (creationTime resource_share) then
               py_when (\<not> IS_DRY_RUN) (recreate_association env account_id resource_share_arn)
             else py_return ())))
       (\<lambda>e. if e = UnknownResourceException then py_return () else py_raise e)"

text \<open>The body of \<open>for permission in perms["PrincipalResourcePermissions"]\<close>: the
  principal is resolved before the share loop, so an invalid principal raises even
  when the share list is empty.\<close>

definition fix_permission :: "env \<Rightarrow> bool \<Rightarrow> int \<Rightarrow> lf_permission \<Rightarrow> (world, unit) pyst" where
  "fix_permission env IS_DRY_RUN timeout_timestamp permission =
     (case resource_share_details permission of
        None \<Rightarrow> py_return ()
      | Some resource_share_arns \<Rightarrow>
          (case get_account_id (principal_identifier permission) of
             Inl e \<Rightarrow> py_raise e
           | Inr account_id \<Rightarrow>
               py_foreach (fix_share env IS_DRY_RUN timeout_timestamp account_id) resource_share_arns))"

definition fix_page :: "env \<Rightarrow> bool \<Rightarrow> int \<Rightarrow> lf_permission list \<Rightarrow> (world, unit) pyst" where
  "fix_page env IS_DRY_RUN timeout_timestamp perms =
     py_foreach (fix_permission env IS_DRY_RUN timeout_timestamp) perms"

text \<open>
  \<open>while perms.get("NextToken") is not None: ...; perms = lf.list_permissions(NextToken=...)\<close>.
  The loop's state is the current page and its token. The guard tests the token of the
  page about to be processed, so a page without a next token (the last one) is fetched
  and never processed. The inner \<open>if perms.get("NextToken") is None: break\<close> is
  unreachable (the guard has just checked the same token) and is omitted. The loop
  terminates because each fetched page carries a larger token, bounded by the number
  of pages.
\<close>

definition pages_left :: "lf_permission list list \<Rightarrow> nat option \<Rightarrow> nat" where
  "pages_left pages nxt = (case nxt of None \<Rightarrow> 0 | Some i \<Rightarrow> Suc (length pages - i))"

lemma pages_left_decreases:
  "list_permissions env pages (Some tok) w = (Inr (perms, nxt), w') \<Longrightarrow>
   pages_left pages nxt < pages_left pages (Some tok)"
  by (auto dest!: list_permissions_next simp: pages_left_def split: option.splits)

function fix_loop ::
  "env \<Rightarrow> bool \<Rightarrow> int \<Rightarrow> lf_permission list list \<Rightarrow> lf_permission list \<times> nat option \<Rightarrow> (world, unit) pyst" where
  "fix_loop env IS_DRY_RUN timeout_timestamp pages (perms, next_token) w =
     (case next_token of
        None \<Rightarrow> (Inr (), w)
      | Some tok \<Rightarrow>
          (case fix_page env IS_DRY_RUN timeout_timestamp perms w of
             (Inl e, w') \<Rightarrow> (Inl e, w')
           | (Inr _, w') \<Rightarrow>
               (case list_permissions env pages (Some tok) w' of
                  (Inl e, w'') \<Rightarrow> (Inl e, w'')
                | (Inr page, w'') \<Rightarrow> fix_loop env IS_DRY_RUN timeout_timestamp pages page w'')))"
  by pat_completeness auto

termination
  by (relation "measure (\<lambda>(env, d, t, pages, (perms, nxt), w). pages_left pages nxt)")
     (auto dest!: sym [THEN pages_left_decreases])

declare fix_loop.simps [simp del]

text \<open>The script: parse the flag, fetch the first page, take the cutoff, run the loop.\<close>

definition fix_lakeformation_ram_invites ::
  "env \<Rightarrow> bool \<Rightarrow> lf_permission list list \<Rightarrow> (world, unit) pyst" where
  "fix_lakeformation_ram_invites env no_dry_run_given pages =
     (let IS_DRY_RUN = is_dry_run_of_args no_dry_run_given in
      py_bind (list_permissions env pages None)
        (\<lambda>perms. fix_loop env IS_DRY_RUN (script_timeout_timestamp env) pages perms))"

text \<open>The token of the request for page \<open>k\<close>: the first request has none.\<close>

definition page_token :: "nat \<Rightarrow> nat option" where
  "page_token k = (if k = 0 then None else Some k)"

section \<open>The page loop\<close>

text \<open>With \<open>list_permissions\<close> answering every request, the loop is the page body
  run over every page but the last.\<close>

lemma list_permissions_ok:
  "fault env (ListPermissions tok) = None \<Longrightarrow>
   list_permissions env pages tok w =
     (Inr (let i = (case tok of None \<Rightarrow> 0 | Some i \<Rightarrow> i)
           in (if i < length pages then pages ! i else [], if Suc i < length pages then Some (Suc i) else None)), w)"
  by (simp add: list_permissions_def Let_def)

lemma fix_loop_None [simp]: "fix_loop env d ts pages (perms, None) = py_return ()"
  by (rule ext) (simp add: py_simps fix_loop.simps)

lemma fix_loop_Some:
  assumes "fault env (ListPermissions (Some i)) = None"
  shows "fix_loop env d ts pages (perms, Some i) =
           py_bind (fix_page env d ts perms)
             (\<lambda>_. fix_loop env d ts pages (if i < length pages then pages ! i else [],
                                          if Suc i < length pages then Some (Suc i) else None))"
proof (rule ext)
  fix w
  show "fix_loop env d ts pages (perms, Some i) w = py_bind (fix_page env d ts perms)
             (\<lambda>_. fix_loop env d ts pages (if i < length pages then pages ! i else [],
                                          if Suc i < length pages then Some (Suc i) else None)) w"
    using assms by (subst fix_loop.simps) (simp add: py_bind_def list_permissions_ok split: prod.split sum.split)
qed

lemma fix_loop_eq:
  assumes lp: "\<And>t. fault env (ListPermissions t) = None"
  shows "i < length pages \<Longrightarrow>
         fix_loop env d ts pages (perms, Some i) =
           py_bind (fix_page env d ts perms) (\<lambda>_. py_foreach (fix_page env d ts) (butlast (drop i pages)))"
proof (induction "length pages - i" arbitrary: perms i)
  case 0
  then show ?case by simp
next
  case (Suc n)
  have drop: "drop i pages = pages ! i # drop (Suc i) pages" using Suc.prems by (simp add: Cons_nth_drop_Suc)
  show ?case
  proof (cases "Suc i < length pages")
    case True
    have "drop (Suc i) pages \<noteq> []" using True by simp
    then have "butlast (drop i pages) = pages ! i # butlast (drop (Suc i) pages)" using drop by simp
    moreover have "fix_loop env d ts pages (pages ! i, Some (Suc i)) =
                py_bind (fix_page env d ts (pages ! i)) (\<lambda>_. py_foreach (fix_page env d ts) (butlast (drop (Suc i) pages)))"
      using Suc.hyps(1) [of "Suc i"] Suc.hyps(2) True by simp
    ultimately show ?thesis
      using True Suc.prems by (simp add: fix_loop_Some lp)
  next
    case False
    then have "drop (Suc i) pages = []" by simp
    with drop have "butlast (drop i pages) = []" by simp
    then show ?thesis
      using False Suc.prems by (simp add: fix_loop_Some lp)
  qed
qed

lemma fix_page_concat: "py_foreach (fix_page env d ts) pss = fix_page env d ts (concat pss)"
  by (induction pss) (simp_all add: fix_page_def py_foreach_append)

lemma fix_page_append:
  "fix_page env d ts (xs @ ys) = py_bind (fix_page env d ts xs) (\<lambda>_. fix_page env d ts ys)"
  by (simp add: fix_page_def py_foreach_append)

lemma fix_lakeformation_ram_invites_eq:
  assumes lp: "\<And>t. fault env (ListPermissions t) = None"
  shows "fix_lakeformation_ram_invites env flag pages =
           fix_page env (is_dry_run_of_args flag) (script_timeout_timestamp env) (concat (butlast pages))"
proof (cases pages)
  case Nil
  then show ?thesis using lp
    by (simp add: fix_lakeformation_ram_invites_def list_permissions_def fix_page_def py_bind_def fun_eq_iff)
next
  case (Cons p ps)
  show ?thesis
  proof (cases ps)
    case Nil
    then show ?thesis using Cons lp
      by (simp add: fix_lakeformation_ram_invites_def list_permissions_def fix_page_def py_bind_def fun_eq_iff)
  next
    case (Cons q qs)
    have first: "list_permissions env pages None = py_return (p, Some (Suc 0))"
      using lp \<open>pages = p # ps\<close> Cons by (simp add: list_permissions_def py_return_def fun_eq_iff)
    have "fix_loop env (is_dry_run_of_args flag) (script_timeout_timestamp env) pages (p, Some (Suc 0)) =
            py_bind (fix_page env (is_dry_run_of_args flag) (script_timeout_timestamp env) p)
              (\<lambda>_. py_foreach (fix_page env (is_dry_run_of_args flag) (script_timeout_timestamp env)) (butlast ps))"
      using fix_loop_eq [OF lp, of "Suc 0" pages] \<open>pages = p # ps\<close> Cons by simp
    then show ?thesis
      using \<open>pages = p # ps\<close> Cons first
      by (simp add: fix_lakeformation_ram_invites_def fix_page_concat fix_page_append Let_def)
  qed
qed

text \<open>A failing fetch ends the loop after the pages before it.\<close>

lemma fix_loop_Some_fault:
  assumes "fault env (ListPermissions (Some i)) = Some e"
  shows "fix_loop env d ts pages (perms, Some i) = py_bind (fix_page env d ts perms) (\<lambda>_. py_raise e)"
proof (rule ext)
  fix w
  show "fix_loop env d ts pages (perms, Some i) w = py_bind (fix_page env d ts perms) (\<lambda>_. py_raise e) w"
    using assms by (subst fix_loop.simps) (simp add: py_simps list_permissions_def split: prod.split sum.split)
qed

lemma fix_loop_fault:
  assumes ok: "\<And>j. i \<le> j \<Longrightarrow> j < k \<Longrightarrow> fault env (ListPermissions (Some j)) = None"
    and bad: "fault env (ListPermissions (Some k)) = Some e"
    and k: "k < length pages"
  shows "i \<le> k \<Longrightarrow> fix_loop env d ts pages (perms, Some i) =
           py_bind (fix_page env d ts perms)
             (\<lambda>_. py_bind (py_foreach (fix_page env d ts) (take (k - i) (drop i pages))) (\<lambda>_. py_raise e))"
  using ok
proof (induction "k - i" arbitrary: i perms)
  case 0
  then have "i = k" by simp
  then show ?case using bad by (simp add: fix_loop_Some_fault)
next
  case (Suc n)
  then have i: "i < k" "Suc i \<le> k" by simp_all
  have drop: "take (k - i) (drop i pages) = pages ! i # take (k - Suc i) (drop (Suc i) pages)"
    using i k by (simp add: Cons_nth_drop_Suc take_Suc_Cons [symmetric] Suc_diff_Suc)
  have ih: "fix_loop env d ts pages (pages ! i, Some (Suc i)) =
              py_bind (fix_page env d ts (pages ! i))
                (\<lambda>_. py_bind (py_foreach (fix_page env d ts) (take (k - Suc i) (drop (Suc i) pages))) (\<lambda>_. py_raise e))"
    using Suc.hyps(1) [of "Suc i"] Suc.hyps(2) Suc.prems i by simp
  show ?case
    using i k Suc.prems(2) [of i] ih drop by (simp add: fix_loop_Some py_bind_assoc)
qed

section \<open>Frames\<close>

text \<open>A view of the world that every processed page keeps is kept by the whole
  script, wherever it stops; the default (dry) run keeps every view, and a run keeps the
  view of every share the listing does not name.\<close>

lemma list_permissions_page:
  "list_permissions env pages tok w = (Inr (perms, nxt), w') \<Longrightarrow> perms \<in> set pages \<or> perms = []"
  by (auto simp: list_permissions_def Let_def split: option.splits if_splits)

lemma fix_loop_preserves:
  "(\<And>perms. perms \<in> set pages \<or> perms = [] \<Longrightarrow> py_preserves f (fix_page env d ts perms)) \<Longrightarrow>
   fst pg \<in> set pages \<or> fst pg = [] \<Longrightarrow> f (snd (fix_loop env d ts pages pg w)) = f w"
proof (induction env d ts pages pg w rule: fix_loop.induct)
  case (1 env d ts pages perms next_token w)
  show ?case
  proof (cases next_token)
    case None
    then show ?thesis by (simp add: fix_loop.simps py_return_def)
  next
    case (Some tok)
    obtain r w' where fp: "fix_page env d ts perms w = (r, w')" by fastforce
    have fw': "f w' = f w" using py_preservesD [OF "1.prems"(1), of perms w] "1.prems"(2) fp by simp
    show ?thesis
    proof (cases r)
      case (Inl e)
      then show ?thesis using Some fp fw' by (simp add: fix_loop.simps)
    next
      case (Inr u)
      obtain r2 w'' where lp: "list_permissions env pages (Some tok) w' = (r2, w'')" by fastforce
      have fw'': "f w'' = f w'" using py_preservesD [OF queries_preserve_world(2), of f env pages "Some tok" w'] lp by simp
      show ?thesis
      proof (cases r2)
        case (Inl e)
        then show ?thesis using Some fp Inr lp fw' fw'' by (simp add: fix_loop.simps)
      next
        case (Inr page)
        have pg: "fst page \<in> set pages \<or> fst page = []"
          using lp Inr list_permissions_page [of env pages "Some tok" w' "fst page" "snd page" w''] by simp
        have "f (snd (fix_loop env d ts pages page w'')) = f w''"
          by (rule "1.IH" [OF Some fp [symmetric] \<open>r = Inr u\<close> lp [symmetric] Inr "1.prems"(1) pg])
        then show ?thesis using Some fp \<open>r = Inr u\<close> lp Inr fw' fw'' by (simp add: fix_loop.simps)
      qed
    qed
  qed
qed

lemma fix_lakeformation_ram_invites_preserves:
  assumes "\<And>perms. perms \<in> set pages \<or> perms = [] \<Longrightarrow>
             py_preserves f (fix_page env (is_dry_run_of_args flag) (script_timeout_timestamp env) perms)"
  shows "f (snd (fix_lakeformation_ram_invites env flag pages w)) = f w"
proof -
  obtain r w' where lp: "list_permissions env pages None w = (r, w')" by fastforce
  have fw': "f w' = f w" using py_preservesD [OF queries_preserve_world(2), of f env pages None w] lp by simp
  show ?thesis
  proof (cases r)
    case (Inl e)
    then show ?thesis using lp fw' by (simp add: fix_lakeformation_ram_invites_def py_bind_def Let_def)
  next
    case (Inr page)
    have "fst page \<in> set pages \<or> fst page = []"
      using lp Inr list_permissions_page [of env pages None w "fst page" "snd page" w'] by simp
    then have "f (snd (fix_loop env (is_dry_run_of_args flag) (script_timeout_timestamp env) pages page w')) = f w'"
      using assms by (intro fix_loop_preserves) blast+
    then show ?thesis using lp Inr fw' by (simp add: fix_lakeformation_ram_invites_def py_bind_def Let_def)
  qed
qed

lemma fix_share_dry_preserves: "py_preserves f (fix_share env True ts account_id arn)"
  unfolding fix_share_def py_when_def Let_def
  by (simp only: not_True_eq_False if_False) (intro preserves_intros)

lemma fix_permission_preserves:
  assumes "\<And>acct arn arns. resource_share_details perm = Some arns \<Longrightarrow> arn \<in> set arns \<Longrightarrow>
             py_preserves f (fix_share env d ts acct arn)"
  shows "py_preserves f (fix_permission env d ts perm)"
  unfolding fix_permission_def
  by (auto split: option.splits sum.splits intro!: preserves_intros assms)

lemma fix_page_dry_preserves: "py_preserves f (fix_page env True ts perms)"
  unfolding fix_page_def
  by (intro preserves_intros fix_permission_preserves fix_share_dry_preserves)

section \<open>One share\<close>

lemma fix_share_recreates:
  assumes one: "filter (\<lambda>a. resourceShareArn a = arn) (associations w) = [a]"
    and acct: "associatedEntity a = acct" "acct \<noteq> []"
    and due: "status a = FAILED \<or> ts > py_int (creationTime a)"
    and share: "shares w arn = Some name"
    and ok: "fault env (GetShareAssociations arn) = None"
      "fault env (DisassociateResourceShare arn (PStr acct)) = None"
      "fault env (AssociateResourceShare arn (PStr acct)) = None"
  shows "fix_share env False ts acct arn w =
           (Inr (), w\<lparr>associations := drop_association arn acct (associations w) @
                      [\<lparr>resourceShareArn = arn, resourceShareName = name, associatedEntity = acct,
                        status = ASSOCIATING, creationTime = now env\<rparr>]\<rparr>)"
  using assms
  by (auto simp: fix_share_def get_share_associations_def recreate_association_def service_defs py_simps Let_def)

lemma filter_drop_association_single:
  "filter (\<lambda>a. resourceShareArn a = arn) as = [a] \<Longrightarrow> associatedEntity a = acct \<Longrightarrow>
   filter (\<lambda>b. resourceShareArn b = arn) (drop_association arn acct as) = []"
proof -
  assume one: "filter (\<lambda>a. resourceShareArn a = arn) as = [a]" and "associatedEntity a = acct"
  have "filter (\<lambda>b. resourceShareArn b = arn) (drop_association arn acct as)
        = filter (\<lambda>b. associatedEntity b \<noteq> acct) (filter (\<lambda>a. resourceShareArn a = arn) as)"
    by (auto simp: drop_association_def filter_filter intro!: filter_cong)
  with one \<open>associatedEntity a = acct\<close> show ?thesis by simp
qed

section \<open>Account ids\<close>

lemma py_split_iam:
  "py_split CHR '':'' (''arn:aws:iam::'' @ rest) = [''arn'', ''aws'', ''iam'', ''''] @ py_split CHR '':'' rest"
  by (simp add: Let_def)

lemma digits_no_colon: "py_isdigit s \<Longrightarrow> CHR '':'' \<notin> set s"
  by (auto simp: py_isdigit_def is_digit_def list_all_iff)

lemma digits_not_iam: "py_isdigit s \<Longrightarrow> \<not> startswith s ''arn:aws:iam::''"
  by (auto simp: startswith_conv py_isdigit_def is_digit_def)

end
