(* ===== verification/UtilityProperties.thy ===== *)
theory UtilityProperties
  imports Utility
begin

text \<open>
  The properties of the repair script \<open>src/utility/fix_lakeformation_ram_invites.py\<close>
  (claims C15 to C21, C23 and C25), proved from the lemmas of \<open>Utility\<close> about
  its page loop, its frames and the treatment of one share, each with a witness on a
  listing that holds one Lake Formation grant.
\<close>

text \<open>The data of the witnesses: one Lake Formation grant made through RAM and accepted a
  day before the run.\<close>

definition util_arn :: string where
  "util_arn = ''arn:aws:ram:us-east-1:123456789012:resource-share/lf-grant''"

definition util_world :: world where
  "util_world =
     \<lparr>shares = [util_arn \<mapsto> ''LakeFormation-V4-ACTJVKOTWF''],
      associations = [\<lparr>resourceShareArn = util_arn, resourceShareName = ''LakeFormation-V4-ACTJVKOTWF'',
                       associatedEntity = ''111111111111'', status = ASSOCIATED, creationTime = 1700000000 - 86400\<rparr>],
      ddb_table = []\<rparr>"

definition util_env :: env where
  "util_env = \<lparr>now = 1700000000, fault = (\<lambda>_. None)\<rparr>"

definition util_permission :: lf_permission where
  "util_permission = \<lparr>principal_identifier = ''arn:aws:iam::111111111111:root'', resource_share_details = Some [util_arn]\<rparr>"

definition bad_permission :: lf_permission where
  "bad_permission = \<lparr>principal_identifier = ''alice'', resource_share_details = Some []\<rparr>"

lemmas util_defs = util_arn_def util_world_def util_env_def util_permission_def

section \<open>Properties of the repair script\<close>

text \<open>
  C15: the page loop skips the last page. When \<open>list_permissions\<close> answers every
  request, the script is the page body run over the permissions of every page but the
  last: the \<open>while\<close> guard tests the token of the page about to be processed, so the
  final page, which has no next token, is fetched and dropped, and a listing of a
  single page is not processed at all.
\<close>

theorem fix_lakeformation_ram_invites_skips_last_page:
  assumes "\<And>t. fault env (ListPermissions t) = None"
  shows "fix_lakeformation_ram_invites env flag pages =
           fix_page env (is_dry_run_of_args flag) (script_timeout_timestamp env) (concat (butlast pages))"
  using assms by (rule fix_lakeformation_ram_invites_eq)

theorem fix_lakeformation_ram_invites_skips_last_page_witness:
  "fault util_env (ListPermissions None) = None
   \<and> fix_lakeformation_ram_invites util_env True [[util_permission]] util_world = (Inr (), util_world)"
proof -
  have h: "\<And>t. fault util_env (ListPermissions t) = None" by (simp add: util_env_def)
  show ?thesis
    using h fix_lakeformation_ram_invites_skips_last_page [OF h, of True "[[util_permission]]"]
    by (simp add: fix_page_def py_simps)
qed

text \<open>
  C16: an accepted grant older than eleven hours is revoked. The age test is reached
  for any status other than \<open>FAILED\<close>, so with \<open>--no-dry-run\<close> an association
  in status \<open>ASSOCIATED\<close> (the invitation was accepted) whose creation time lies
  before the cutoff is disassociated and re-associated: the principal's only
  association with the share is a fresh pending invitation.
\<close>

theorem accepted_grant_reset_to_invitation:
  assumes "filter (\<lambda>a. resourceShareArn a = arn) (associations w) = [a]"
    and "associatedEntity a = acct" and "acct \<noteq> []"
    and "status a = ASSOCIATED" and "py_int (creationTime a) < ts"
    and "shares w arn = Some name"
    and "fault env (GetShareAssociations arn) = None"
    and "fault env (DisassociateResourceShare arn (PStr acct)) = None"
    and "fault env (AssociateResourceShare arn (PStr acct)) = None"
  shows "fst (fix_share env False ts acct arn w) = Inr ()
         \<and> filter (\<lambda>b. resourceShareArn b = arn) (associations (snd (fix_share env False ts acct arn w)))
           = [\<lparr>resourceShareArn = arn, resourceShareName = name, associatedEntity = acct,
               status = ASSOCIATING, creationTime = now env\<rparr>]"
proof -
  have "fix_share env False ts acct arn w =
          (Inr (), w\<lparr>associations := drop_association arn acct (associations w) @
                      [\<lparr>resourceShareArn = arn, resourceShareName = name, associatedEntity = acct,
                        status = ASSOCIATING, creationTime = now env\<rparr>]\<rparr>)"
    by (rule fix_share_recreates [OF assms(1-3) _ assms(6-9)]) (simp add: assms(5))
  then show ?thesis
    using filter_drop_association_single [OF assms(1,2)] by simp
qed

theorem accepted_grant_reset_to_invitation_witness:
  "fst (fix_share util_env False (script_timeout_timestamp util_env) ''111111111111'' util_arn util_world) = Inr ()
   \<and> filter (\<lambda>b. resourceShareArn b = util_arn)
       (associations (snd (fix_share util_env False (script_timeout_timestamp util_env) ''111111111111'' util_arn util_world)))
     = [\<lparr>resourceShareArn = util_arn, resourceShareName = ''LakeFormation-V4-ACTJVKOTWF'',
         associatedEntity = ''111111111111'', status = ASSOCIATING, creationTime = 1700000000\<rparr>]"
proof -
  let ?a = "\<lparr>resourceShareArn = util_arn, resourceShareName = ''LakeFormation-V4-ACTJVKOTWF'',
             associatedEntity = ''111111111111'', status = ASSOCIATED, creationTime = 1700000000 - 86400\<rparr>"
  have h1: "filter (\<lambda>a. resourceShareArn a = util_arn) (associations util_world) = [?a]" by (simp add: util_world_def)
  have h5: "py_int (creationTime ?a) < script_timeout_timestamp util_env"
    by (simp add: script_timeout_timestamp_def ELEVEN_HOURS_IN_SECS_script_def util_env_def py_int_def)
  have h6: "shares util_world util_arn = Some ''LakeFormation-V4-ACTJVKOTWF''" by (simp add: util_world_def)
  have f: "\<And>c. fault util_env c = None" by (simp add: util_env_def)
  show ?thesis
    using accepted_grant_reset_to_invitation [OF h1 _ _ _ h5 h6 f f f] by (simp add: util_env_def)
qed

text \<open>
  C17: the share body changes nothing when the share does not have exactly one
  association, when the association belongs to another principal, or when it is
  neither failed nor older than the cutoff.
\<close>

theorem fix_share_skips_unmatched:
  assumes "fault env (GetShareAssociations arn) = None"
    and "shares w arn \<noteq> None"
    and "length (filter (\<lambda>a. resourceShareArn a = arn) (associations w)) \<noteq> 1
         \<or> (\<exists>a. filter (\<lambda>a. resourceShareArn a = arn) (associations w) = [a] \<and> associatedEntity a \<noteq> []
               \<and> (associatedEntity a \<noteq> acct \<or> (status a \<noteq> FAILED \<and> \<not> py_int (creationTime a) < ts)))"
  shows "fix_share env d ts acct arn w = (Inr (), w)"
  using assms by (auto simp: fix_share_def get_share_associations_def py_simps Let_def)

theorem fix_share_skips_unmatched_witness:
  "fault util_env (GetShareAssociations util_arn) = None \<and> shares util_world util_arn \<noteq> None
   \<and> fix_share util_env False (script_timeout_timestamp util_env) ''222222222222'' util_arn util_world = (Inr (), util_world)"
proof -
  have h1: "fault util_env (GetShareAssociations util_arn) = None" by (simp add: util_env_def)
  have h2: "shares util_world util_arn \<noteq> None" by (simp add: util_world_def)
  have h3: "length (filter (\<lambda>a. resourceShareArn a = util_arn) (associations util_world)) \<noteq> 1
         \<or> (\<exists>a. filter (\<lambda>a. resourceShareArn a = util_arn) (associations util_world) = [a] \<and> associatedEntity a \<noteq> []
               \<and> (associatedEntity a \<noteq> ''222222222222''
                  \<or> (status a \<noteq> FAILED \<and> \<not> py_int (creationTime a) < script_timeout_timestamp util_env)))"
    by (simp add: util_world_def)
  show ?thesis using h1 h2 fix_share_skips_unmatched [OF h1 h2 h3] by blast
qed

text \<open>
  C18: a run without \<open>--no-dry-run\<close> (the default) changes nothing, whatever the
  listing and whatever the services answer.
\<close>

theorem default_run_changes_nothing:
  "snd (fix_lakeformation_ram_invites env False pages w) = w"
proof -
  have "\<And>perms. py_preserves (\<lambda>w. w) (fix_page env (is_dry_run_of_args False) (script_timeout_timestamp env) perms)"
    by (simp add: is_dry_run_of_args_def fix_page_dry_preserves)
  then show ?thesis
    using fix_lakeformation_ram_invites_preserves [where f = "\<lambda>w. w" and flag = False and w = w] by simp
qed

text \<open>
  C19: \<open>get_account_id\<close> recovers an account id, given directly as twelve digits or
  as the account field of an IAM ARN built from it.
\<close>

theorem get_account_id_roundtrip:
  assumes "py_isdigit acct" and "length acct = 12"
  shows "get_account_id acct = Inr acct
         \<and> get_account_id (''arn:aws:iam::'' @ acct @ CHR '':'' # rest) = Inr acct"
proof
  show "get_account_id acct = Inr acct"
    using assms digits_not_iam [OF assms(1)] by (simp add: get_account_id_def)
next
  have "py_split CHR '':'' (''arn:aws:iam::'' @ acct @ CHR '':'' # rest)
          = [''arn'', ''aws'', ''iam'', '''', acct] @ py_split CHR '':'' rest"
    by (simp only: py_split_iam py_split_append_sep [OF digits_no_colon [OF assms(1)]]) simp
  then show "get_account_id (''arn:aws:iam::'' @ acct @ CHR '':'' # rest) = Inr acct"
    by (simp add: get_account_id_def py_index_def startswith_append [of "''arn:aws:iam::''", simplified])
qed

theorem get_account_id_roundtrip_witness:
  "get_account_id ''111111111111'' = Inr ''111111111111''
   \<and> get_account_id (''arn:aws:iam::'' @ ''111111111111'' @ CHR '':'' # ''root'') = Inr ''111111111111''"
proof -
  have h1: "py_isdigit ''111111111111''" by (simp add: py_isdigit_def is_digit_def)
  have h2: "length ''111111111111'' = 12" by simp
  show ?thesis by (rule get_account_id_roundtrip [OF h1 h2])
qed

text \<open>
  C20: \<open>get_account_id\<close> raises only the \<open>ValueError\<close> for a principal that is
  neither an IAM ARN nor twelve digits: the index \<open>split(':')[4]\<close> is always in
  range on an IAM ARN.
\<close>

theorem get_account_id_raises_only_value_error:
  assumes "get_account_id principal_id = Inl e"
  shows "e = ValueError (''Invalid principal: '' @ principal_id)
         \<and> \<not> startswith principal_id ''arn:aws:iam::''
         \<and> \<not> (py_isdigit principal_id \<and> length principal_id = 12)"
proof (cases "startswith principal_id ''arn:aws:iam::''")
  case True
  then obtain r where r: "principal_id = ''arn:aws:iam::'' @ r" by (auto simp: startswith_conv)
  have "4 < length (py_split CHR '':'' principal_id)"
    by (simp only: r py_split_iam) (cases "py_split CHR '':'' r", simp_all)
  with True assms show ?thesis by (simp add: get_account_id_def py_index_def)
next
  case False
  with assms show ?thesis by (auto simp: get_account_id_def split: if_splits)
qed

theorem get_account_id_raises_only_value_error_witness:
  "get_account_id ''alice'' = Inl (ValueError ''Invalid principal: alice'')
   \<and> \<not> startswith ''alice'' ''arn:aws:iam::''"
proof -
  have h: "get_account_id ''alice'' = Inl (ValueError ''Invalid principal: alice'')"
    by (simp add: get_account_id_def startswith_def py_isdigit_def is_digit_def)
  show ?thesis using h get_account_id_raises_only_value_error [OF h] by blast
qed

text \<open>
  C21: an invalid principal in a permission granted through RAM aborts the page:
  the \<open>ValueError\<close> is not caught, the permissions after it are not processed, and
  the script ends with the exception.
\<close>

theorem invalid_principal_aborts_page:
  assumes "resource_share_details perm = Some arns"
    and "get_account_id (principal_identifier perm) = Inl e"
  shows "fix_page env d ts (pre @ perm # post) = py_bind (fix_page env d ts pre) (\<lambda>_. py_raise e)"
  using assms by (simp add: fix_page_append) (simp add: fix_page_def fix_permission_def)

theorem invalid_principal_aborts_page_witness:
  "fix_page util_env False (script_timeout_timestamp util_env) [bad_permission, util_permission] util_world
     = (Inl (ValueError ''Invalid principal: alice''), util_world)"
proof -
  have h1: "resource_share_details bad_permission = Some []" by (simp add: bad_permission_def)
  have h2: "get_account_id (principal_identifier bad_permission) = Inl (ValueError ''Invalid principal: alice'')"
    by (simp add: bad_permission_def get_account_id_def startswith_def py_isdigit_def is_digit_def)
  show ?thesis
    using invalid_principal_aborts_page [OF h1 h2, of util_env False "script_timeout_timestamp util_env" "[]" "[util_permission]"]
    by (simp add: fix_page_def py_simps)
qed

text \<open>
  C23: a lookup error on a share is handled only when it is
  \<open>UnknownResourceException\<close>, which RAM also raises for a share that no longer
  exists: that share is skipped with nothing changed. Any other error (throttling, access
  denied) leaves the share body and, uncaught, ends the script.
\<close>

theorem fix_share_lookup_errors:
  assumes "fault env (GetShareAssociations arn) = Some e
           \<or> (fault env (GetShareAssociations arn) = None \<and> shares w arn = None \<and> e = UnknownResourceException)"
  shows "fix_share env d ts acct arn w = (if e = UnknownResourceException then (Inr (), w) else (Inl e, w))"
  using assms by (auto simp: fix_share_def get_share_associations_def py_simps)

theorem fix_share_lookup_errors_witness:
  "fix_share (util_env\<lparr>fault := (\<lambda>_. Some (ClientError ''ThrottlingException''))\<rparr>) False 0 ''111111111111'' util_arn util_world
     = (Inl (ClientError ''ThrottlingException''), util_world)
   \<and> fix_share util_env False 0 ''111111111111'' ''arn:deleted'' util_world = (Inr (), util_world)"
proof -
  have h1: "fault (util_env\<lparr>fault := (\<lambda>_. Some (ClientError ''ThrottlingException''))\<rparr>) (GetShareAssociations util_arn)
              = Some (ClientError ''ThrottlingException'')
            \<or> (fault (util_env\<lparr>fault := (\<lambda>_. Some (ClientError ''ThrottlingException''))\<rparr>) (GetShareAssociations util_arn) = None
               \<and> shares util_world util_arn = None \<and> ClientError ''ThrottlingException'' = UnknownResourceException)"
    by simp
  have h2: "fault util_env (GetShareAssociations ''arn:deleted'') = Some UnknownResourceException
            \<or> (fault util_env (GetShareAssociations ''arn:deleted'') = None
               \<and> shares util_world ''arn:deleted'' = None \<and> UnknownResourceException = UnknownResourceException)"
    by (simp add: util_env_def util_world_def util_arn_def)
  show ?thesis
    using fix_share_lookup_errors [OF h1, of False 0 "''111111111111''"]
          fix_share_lookup_errors [OF h2, of False 0 "''111111111111''"] by simp
qed

text \<open>
  C25: a failing \<open>list_permissions\<close> request ends the script with its exception.
  When the request for page \<open>k\<close> fails and the requests before it succeed, the script
  has processed exactly the pages before \<open>k\<close> and raises the request's exception; the
  pages from \<open>k\<close> on are never processed.
\<close>

theorem list_permissions_fault_stops_script:
  assumes "k < length pages"
    and "\<And>j. j < k \<Longrightarrow> fault env (ListPermissions (page_token j)) = None"
    and "fault env (ListPermissions (page_token k)) = Some e"
  shows "fix_lakeformation_ram_invites env flag pages =
           py_bind (fix_page env (is_dry_run_of_args flag) (script_timeout_timestamp env) (concat (take k pages)))
             (\<lambda>_. py_raise e)"
proof (cases k)
  case 0
  then show ?thesis using assms(3)
    by (simp add: fix_lakeformation_ram_invites_def page_token_def list_permissions_def fix_page_def py_simps fun_eq_iff)
next
  case (Suc m)
  let ?d = "is_dry_run_of_args flag" and ?t = "script_timeout_timestamp env"
  have first: "list_permissions env pages None = py_return (pages ! 0, Some (Suc 0))"
    using assms(1) assms(2) [of 0] Suc by (auto simp: list_permissions_def page_token_def py_return_def fun_eq_iff)
  have ok: "fault env (ListPermissions (Some j)) = None" if "Suc 0 \<le> j" "j < k" for j
    using assms(2) [of j] that by (simp add: page_token_def)
  have bad: "fault env (ListPermissions (Some k)) = Some e" using assms(3) Suc by (simp add: page_token_def)
  have loop: "fix_loop env ?d ?t pages (pages ! 0, Some (Suc 0)) =
                py_bind (fix_page env ?d ?t (pages ! 0))
                  (\<lambda>_. py_bind (py_foreach (fix_page env ?d ?t) (take (k - Suc 0) (drop (Suc 0) pages))) (\<lambda>_. py_raise e))"
    using fix_loop_fault [OF ok bad assms(1)] Suc by simp
  have "take k pages = pages ! 0 # take (k - Suc 0) (drop (Suc 0) pages)"
    using assms(1) Suc by (cases pages) simp_all
  then show ?thesis
    using first loop
    by (simp add: fix_lakeformation_ram_invites_def fix_page_concat fix_page_append py_bind_assoc Let_def)
qed

theorem list_permissions_fault_stops_script_witness:
  "fix_lakeformation_ram_invites
     (util_env\<lparr>fault := (\<lambda>c. if c = ListPermissions (Some 1) then Some (ClientError ''ThrottlingException'') else None)\<rparr>)
     True [[], [util_permission], []] util_world
   = (Inl (ClientError ''ThrottlingException''), util_world)"
proof -
  let ?env = "util_env\<lparr>fault := (\<lambda>c. if c = ListPermissions (Some 1) then Some (ClientError ''ThrottlingException'') else None)\<rparr>"
  have h1: "1 < length [[], [util_permission], ([] :: lf_permission list)]" by simp
  have h2: "\<And>j. j < 1 \<Longrightarrow> fault ?env (ListPermissions (page_token j)) = None" by (simp add: page_token_def)
  have h3: "fault ?env (ListPermissions (page_token 1)) = Some (ClientError ''ThrottlingException'')"
    by (simp add: page_token_def)
  show ?thesis
    using list_permissions_fault_stops_script [OF h1 h2 h3, of True] by (simp add: fix_page_def py_simps)
qed

end
