(* ===== verification/Spec2Isabelle.thy ===== *)
theory Spec2Isabelle
  imports RefreshSpec UtilityProperties
begin

text \<open>
  \<^bold>\<open>Stale RAM invitation monitor: a verification library.\<close>

  The repository has two programs. The Lambda function (\<open>src/src/lf_stale_ram_invite_monitor/\<close>)
  runs on a schedule: it finds pending AWS RAM invitations of Lake Formation shares older
  than a timeout, removes and re-adds each invitee so that RAM issues a fresh invitation,
  and keeps a DynamoDB table of the shares whose re-invitation failed, so that a later run
  retries them. The repair script (\<open>src/utility/fix_lakeformation_ram_invites.py\<close>) walks
  the Lake Formation permissions granted through RAM and repairs their associations.

  \<^bold>\<open>Theories.\<close>
  \<^item> \<open>Prelude\<close>: Python values (\<open>pyval\<close>), their types (\<open>py_typeof\<close>) and the
    conformance of a dictionary to a \<open>dict[str, t]\<close> annotation (\<open>dict_conforms\<close>);
    exceptions (\<open>exc\<close>); dictionaries as insertion-ordered association lists
    (\<open>dict_update\<close> is \<open>dict.update\<close>); \<open>int()\<close>, \<open>startswith\<close>, \<open>split\<close>,
    \<open>isdigit\<close>; \<open>json.loads\<close>, which raises exactly on text outside the JSON syntax
    Python's decoder accepts (a lexer \<open>json_tokens\<close> and a pushdown acceptor
    \<open>json_run\<close> over the tokens) and decodes integers, plain strings and the
    constants; page folding for boto3 paginators; an exception-and-state monad
    \<open>pyst\<close> (\<open>py_bind\<close>, \<open>py_try\<close>, \<open>py_raise\<close>, \<open>py_foreach\<close>) in which
    every \<open>raise\<close> and \<open>except\<close> of the source is a branch; frame and invariant
    predicates \<open>py_preserves\<close> and \<open>py_keeps\<close> with compositional rules
    (collections \<open>preserves_intros\<close>, \<open>keeps_intros\<close>).
  \<^item> \<open>Services\<close>: RAM, the DynamoDB table and Lake Formation's \<open>list_permissions\<close>,
    modelled from the spec (they are not code of the repository): a world of shares,
    principal associations and table items, and an environment giving the time and an
    injected fault per API call. Lake Formation's listing is a fixed list of pages whose
    tokens are page indices.
  \<^item> \<open>RamManager\<close> (\<open>ram_manager.py\<close>): \<open>is_expired_invitation\<close>,
    \<open>get_new_expired_ram_invitations\<close>, \<open>deassociate_account_from_ram_share\<close>,
    \<open>associate_account_with_ram_share\<close>, and the page loop of the scan over any
    sequence of pages and page errors (C3, C4, C29).
  \<^item> \<open>DdbManager\<close> (\<open>ddb_manager.py\<close>): the scan into a dictionary with \<open>json.loads\<close>
    on each account, \<open>add_resource_share_to_ddb\<close> (whose \<open>except\<close> clause looks up a
    class through \<open>meta.client\<close>, which a low-level client lacks:
    \<open>ddb_client_meta_client_exception\<close>), \<open>remove_resource_share_from_ddb\<close>.
  \<^item> \<open>LambdaHandler\<close> (\<open>lambda_handler.py\<close>): the per-share body of the loop of
    \<open>lambda_handler\<close> (\<open>refresh_share\<close>, with its nested \<open>try\<close> blocks), the loop
    (\<open>refresh_all\<close>), the summary and the handler with its event defaults; the frames of
    one iteration, its counters, and its effect on services that answer every call.
  \<^item> \<open>RefreshSpec\<close>: the spec's per-share state machine as an inductive step relation
    with its executable counterpart, an abstraction of the handler's state into counters
    and failure records, and the refinement of the loop by the spec's outcome (C1, C2).
  \<^item> \<open>Utility\<close> (\<open>fix_lakeformation_ram_invites.py\<close>): \<open>get_account_id\<close>, the per-share
    decision \<open>fix_share\<close>, the permission and page loops, the \<open>NextToken\<close> loop
    \<open>fix_loop\<close> (a \<open>function\<close> whose termination measure \<open>pages_left\<close> counts the
    pages still to fetch) and the script \<open>fix_lakeformation_ram_invites\<close>, with the
    lemmas on the loop and one share; \<open>UtilityProperties\<close> holds the script's
    properties (C15 to C21, C23, C25).
  \<^item> this theory: repeated scheduled invocations (\<open>scheduled_runs\<close>), the spec's view of
    the scan (\<open>expired_principals\<close>), the module's \<open>__main__\<close> entry point
    (\<open>main_event\<close>, \<open>module_main\<close>: the handler on a fixed event, with no property
    of its own), the unit test's scenario (\<open>test_world\<close>, \<open>test_env\<close>,
    \<open>test_event\<close>) as the input of the witnesses, and the properties of the handler
    that span the components (C5 to C14, C22, C24, C26 to C28).

  \<^bold>\<open>What the lemmas show.\<close> For the Lambda: the scan returns exactly the pending Lake
  Formation invitations created before the cutoff (C3, C4), however RAM splits them into
  pages, and the first failed page aborts the scan (C29); the table's principal wins
  over the scan's, so a live run re-invites the recorded principal of a recorded share
  and leaves the share's other invitations alone (C5); under the spec's conditions the
  loop refines the spec's outcome per share (C1, C2) and, on a clean failure store, the
  whole handler refines the spec's \<open>run\<close> (C27); the counts of a response are bounded
  by the invitations and records it started from (C24); under the spec's conditions no
  grant is lost silently (C22); nothing to refresh means no call and no change (C13);
  an event without a table name raises \<open>KeyError\<close> before any call (C14); on services
  that answer every call, a live run whose records all decode to strings empties the
  failure table (C28). The deviations of the code from its intent are theorems: account
  ids come back from the table as integers (C6) and are refused by the client, so a
  failure record is never cleared (C7); a record \<open>json.loads\<close> cannot decode aborts
  every run (C8); a failing delete counts a share twice (C9); a non-client error loses a
  principal (C10); a failing cleanup aborts the loop (C11); a dry run clears the table
  (C12); a failing table write surfaces as \<open>AttributeError\<close> and loses the share (C26).
  For the script: the page loop skips the last page (C15); a failing page request ends
  the script after the pages before it (C25); the script revokes and re-invites an
  accepted grant older than eleven hours (C16) and leaves a share that does not match
  alone (C17); the
  default run changes nothing (C18); \<open>get_account_id\<close> recovers the account id of an
  IAM ARN or a bare id (C19) and raises only \<open>ValueError\<close> (C20), which aborts the
  page (C21); and only \<open>UnknownResourceException\<close> is handled on a share (C23).

  \<^bold>\<open>Bounds and fuel.\<close> No fuel is used. Every loop of the handler runs over a finite
  list (the pages, the work set), repeated invocations are a list of events, the JSON
  lexer consumes at least one character per step, and the script's \<open>while\<close> loop
  terminates because the page tokens grow towards the number of pages. That is a
  property of the service model: with a service that hands out tokens forever the loop
  would not end, and the model does not cover that.

  \<^bold>\<open>Not modelled.\<close> Logging, tracing, argument parsing beyond the \<open>--no-dry-run\<close>
  flag, and boto3 client construction are I/O without state the theorems depend on. The
  \<open>DdbManager\<close> constructor only stores the table name, and the world has one table, so
  the name is checked for presence (C14) and not modelled further. The RAM service
  answers the handler's listing in one page and faults only on its first request: the
  page loop itself is proved for every sequence of pages and page errors (C29), so a
  finer service model would add no behaviour of the code. The DynamoDB table is a map
  from share to item, so one item per share holds of any code and is not stated.
  Strings are ASCII, so \<open>isdigit\<close> is the ASCII test and \<open>json.loads\<close> is modelled
  on ASCII documents. \<open>tests/\<close> is the source of the scenario \<open>test_world\<close>; its
  single assertion is a computation on that scenario and is not stated as a property.
\<close>

section \<open>Scheduled invocations\<close>

text \<open>The scheduler invokes the handler again and again on the same services; each
  invocation starts from the world the previous one left.\<close>

fun scheduled_runs :: "(env \<times> event) list \<Rightarrow> world \<Rightarrow> world" where
  "scheduled_runs [] w = w"
| "scheduled_runs ((env, ev) # runs) w = scheduled_runs runs (snd (lambda_handler env ev w))"

text \<open>The spec's view of the scan: the expired invitations as share and principal, the
  later invitation of a share winning.\<close>

definition expired_principals :: "ram_manager \<Rightarrow> world \<Rightarrow> (string \<times> string) list" where
  "expired_principals rm w =
     dict_update [] (map (\<lambda>i. (resourceShareArn i, associatedEntity i)) (filter (is_expired_invitation rm) (pending_invitations w)))"

section \<open>The module entry point\<close>

text \<open>\<open>if __name__ == "__main__": lambda_handler({"ddb_table_name": ..., "ram_timeout_in_seconds": 1000}, None)\<close>:
  a live run (no \<open>dry_run\<close> key) with a cutoff of 1000 seconds.\<close>

definition main_event :: event where
  "main_event = \<lparr>ram_timeout_in_seconds = Some 1000, dry_run_flag = None,
                  ddb_table_name = Some ''lf_stale_ram_invite_monitor''\<rparr>"

definition module_main :: "env \<Rightarrow> (world, response) pyst" where
  "module_main env = lambda_handler env main_event"

section \<open>Examples\<close>

definition test_arn :: string where
  "test_arn = ''arn:aws:ram:us-east-1:123456789012:resource-share/4af299d5-debf-482e-9e4f-d02aef7364ef''"

text \<open>The scenario of \<open>tests/unit/test_main.py\<close>: one pending invitation of a Lake
  Formation share, created five minutes before the invocation, a one-second timeout,
  an empty table, services that answer every call.\<close>

definition test_world :: world where
  "test_world =
     \<lparr>shares = [test_arn \<mapsto> ''LakeFormation-V4-ACTJVKOTWF''],
      associations = [\<lparr>resourceShareArn = test_arn, resourceShareName = ''LakeFormation-V4-ACTJVKOTWF'',
                       associatedEntity = ''111111111111'', status = ASSOCIATING, creationTime = 1700000000 - 300\<rparr>],
      ddb_table = []\<rparr>"

definition test_env :: env where
  "test_env = \<lparr>now = 1700000000, fault = (\<lambda>_. None)\<rparr>"

definition test_event :: event where
  "test_event = \<lparr>ram_timeout_in_seconds = Some 1, dry_run_flag = None, ddb_table_name = Some ''test-ddb-table''\<rparr>"

lemmas test_defs = test_arn_def test_world_def test_env_def test_event_def

text \<open>The services of the test, with the re-association throttled.\<close>

definition throttle_env :: env where
  "throttle_env = \<lparr>now = 1700000000, fault = (\<lambda>c. if c = AssociateResourceShare test_arn (PStr ''111111111111'')
                                                  then Some (ClientError ''ThrottlingException'') else None)\<rparr>"

text \<open>Services on which both the re-association and the failure-table write fail.\<close>

definition put_fault_env :: env where
  "put_fault_env = \<lparr>now = 1000, fault = (\<lambda>c. if c = AssociateResourceShare ''arn1'' (PStr ''111111111111'')
                                             then Some (ClientError ''ThrottlingException'')
                                             else if c = PutItem ''arn1'' (PStr ''111111111111'')
                                             then Some InternalServerError else None)\<rparr>"

text \<open>The test's services with a failure record naming another principal for the
  test's share than its pending invitation does.\<close>

definition conflicting_record_world :: world where
  "conflicting_record_world = test_world\<lparr>ddb_table := [(test_arn, json_dumps_str ''222222222222'')]\<rparr>"

text \<open>The test's services with a pending invitation, years old, of a share outside the
  Lake Formation namespace.\<close>

definition foreign_share_world :: world where
  "foreign_share_world =
     test_world\<lparr>associations := [\<lparr>resourceShareArn = test_arn, resourceShareName = ''analytics-share'',
                                    associatedEntity = ''111111111111'', status = ASSOCIATING, creationTime = 1000\<rparr>]\<rparr>"

section \<open>Shared lemmas\<close>

lemma lambda_handler_keeps_numeric_record:
  assumes rec: "map_of (ddb_table w) k = Some a"
    and num: "json_uint a"
    and wf: "dict_wf (ddb_table w)"
    and live: "dry_run_flag ev \<noteq> Some False"
  shows "map_of (ddb_table (snd (lambda_handler env ev w))) k = Some a"
  using lambda_handler_cases [of env ev w]
proof
  assume "snd (lambda_handler env ev w) = w"
  with rec show ?thesis by simp
next
  assume "\<exists>expired prev.
        get_new_expired_ram_invitations (handler_ram_manager env ev) env w = (Inr expired, w)
        \<and> get_previously_failed_accounts_for_resource_share env w = (Inr prev, w)
        \<and> dict_update expired prev \<noteq> []
        \<and> lambda_handler env ev w = run_refresh env (handler_ram_manager env ev) prev (dict_update expired prev) w"
  then obtain expired prev where
    scan: "get_new_expired_ram_invitations (handler_ram_manager env ev) env w = (Inr expired, w)"
    and read: "get_previously_failed_accounts_for_resource_share env w = (Inr prev, w)"
    and run: "lambda_handler env ev w = run_refresh env (handler_ram_manager env ev) prev (dict_update expired prev) w"
    by blast
  let ?rm = "handler_ram_manager env ev"
  let ?work = "dict_update expired prev"
  have wf_expired: "dict_wf expired"
    using scan get_new_expired_ram_invitations_eq [of ?rm env w] by (auto split: option.splits intro: dict_update_wf)
  have decoded: "items_to_dict [] (ddb_table w) = Inr prev"
    using read by (simp add: get_previously_failed_eq split: option.splits)
  then have wf_prev: "dict_wf prev" by (rule items_to_dict_wf [rotated]) simp
  have "map_of prev k = Some (PInt (digits_value a))"
    using items_to_dict_Inr [OF decoded] map_of_decoded_items [OF wf, of "[]" k] rec json_loads_uint [OF num]
    by simp
  then have "map_of ?work k = Some (PInt (digits_value a))"
    using wf_prev by (simp add: map_of_dict_update_wf)
  moreover have "dict_wf ?work" using wf_expired by (rule dict_update_wf)
  ultimately have "\<forall>(arn, v) \<in> set ?work. arn = k \<longrightarrow> \<not> (\<exists>p. v = PStr p)"
    using map_of_is_SomeI by fastforce
  moreover have "dry_run ?rm" using live by (simp add: dry_run_handler_ram_manager)
  ultimately have "py_keeps (\<lambda>s. map_of (ddb_table (hworld s)) k = Some a) (refresh_all env ?rm prev ?work)"
    by (intro refresh_all_keeps_unusable_record)
  then have "py_keeps (\<lambda>w. map_of (ddb_table w) k = Some a) (run_refresh env ?rm prev ?work)"
    by (rule run_refresh_keeps)
  from py_keepsD [OF this, of w] rec have "map_of (ddb_table (snd (run_refresh env ?rm prev ?work w))) k = Some a"
    by simp
  with run show ?thesis by simp
qed

lemma lambda_handler_keeps_wf:
  "py_keeps (\<lambda>w. dict_wf (ddb_table w)) (lambda_handler env ev)"
  by (intro lambda_handler_keeps run_refresh_keeps refresh_all_keeps refresh_share_keeps_table_wf)

lemma scan_expired_principals:
  "fault env GetResourceShareAssociations = None \<Longrightarrow>
   get_new_expired_ram_invitations rm env w = (Inr (map (\<lambda>(arn, p). (arn, PStr p)) (expired_principals rm w)), w)"
proof -
  assume ok: "fault env GetResourceShareAssociations = None"
  have pstr: "(\<lambda>(arn, p). (arn, PStr p)) = apsnd PStr" by (auto simp: fun_eq_iff)
  have e: "expired_pairs rm (pending_invitations w)
          = map (apsnd PStr) (map (\<lambda>i. (resourceShareArn i, associatedEntity i)) (filter (is_expired_invitation rm) (pending_invitations w)))"
    by (simp add: expired_pairs_def)
  have d: "dict_update [] (map (apsnd PStr) xs) = map (apsnd PStr) (dict_update [] xs)" for xs :: "(string \<times> string) list"
    using dict_update_apsnd [of PStr "[]" xs] by simp
  show ?thesis
    unfolding get_new_expired_ram_invitations_eq expired_principals_def pstr
    by (simp only: ok option.case e d)
qed

text \<open>On services that answer every call, with failure records that decode to strings,
  the handler runs the loop on a work set of share/principal pairs: one per share, every
  recorded share among them, a recorded share with its recorded principal.\<close>

lemma fault_free_readable_run:
  assumes faults: "fault env = (\<lambda>_. None)" and named: "ddb_table_name ev \<noteq> None"
    and readable: "list_all (\<lambda>(k, a). \<exists>p. json_loads a = Inr (PStr p)) (ddb_table w)"
  obtains pairs prev where
    "lambda_handler env ev w =
       (if pairs = [] then (Inr (Response ''No expired RAM shares found.'' 0 0), w)
        else run_refresh env (handler_ram_manager env ev) prev (map (\<lambda>(arn, p). (arn, PStr p)) pairs) w)"
    and "distinct (map fst pairs)"
    and "set (map fst prev) = set (map fst (ddb_table w))"
    and "set (map fst (ddb_table w)) \<subseteq> set (map fst pairs)"
    and "\<And>k a p. dict_wf (ddb_table w) \<Longrightarrow> map_of (ddb_table w) k = Some a \<Longrightarrow> json_loads a = Inr (PStr p) \<Longrightarrow>
           map_of pairs k = Some p"
proof -
  let ?rm = "handler_ram_manager env ev"
  let ?dec = "map (\<lambda>(k, a). (k, projr (json_loads a))) (ddb_table w)"
  let ?expired = "map (\<lambda>(arn, p). (arn, PStr p)) (expired_principals ?rm w)"
  let ?prev = "dict_update [] ?dec"
  let ?work = "dict_update ?expired ?prev"
  have scan: "get_new_expired_ram_invitations ?rm env w = (Inr ?expired, w)"
    using scan_expired_principals [of env ?rm w] faults by simp
  have dec: "list_all (\<lambda>(k, a). \<not> isl (json_loads a)) (ddb_table w)"
    using readable by (auto simp: list_all_iff)
  have read: "get_previously_failed_accounts_for_resource_share env w = (Inr ?prev, w)"
    using items_to_dict_decoded [OF dec, of "[]"] faults by (simp add: get_previously_failed_eq)
  have c_dec: "dict_conforms ''str'' ?dec"
    using readable by (auto simp: dict_conforms_def list_all_iff)
  have c_exp: "dict_conforms ''str'' ?expired" by (auto simp: dict_conforms_def list_all_iff)
  have c_prev: "dict_conforms ''str'' ?prev"
    by (rule dict_conforms_dict_update_both [OF _ c_dec]) (simp add: dict_conforms_def)
  obtain pairs where work: "?work = map (\<lambda>(arn, p). (arn, PStr p)) pairs" and keys: "map fst pairs = map fst ?work"
    using str_dict_as_pairs [OF dict_conforms_dict_update_both [OF c_exp c_prev]] by blast
  have "dict_wf (expired_principals ?rm w)" unfolding expired_principals_def by (rule dict_update_wf) simp
  then have wf_exp: "dict_wf ?expired" by (simp add: comp_def case_prod_beta)
  have wf_prev: "dict_wf ?prev" by (rule dict_update_wf) simp
  have keys_prev: "set (map fst ?prev) = set (map fst (ddb_table w))"
    using keys_dict_update [of "[]" ?dec] by (simp add: image_image case_prod_beta)
  show thesis
  proof
    show "lambda_handler env ev w =
       (if pairs = [] then (Inr (Response ''No expired RAM shares found.'' 0 0), w)
        else run_refresh env ?rm ?prev (map (\<lambda>(arn, p). (arn, PStr p)) pairs) w)"
      using scan read named work by (auto simp: lambda_handler_unfold)
    show "distinct (map fst pairs)" using keys dict_update_wf [OF wf_exp, of ?prev] by simp
    show "set (map fst ?prev) = set (map fst (ddb_table w))" by (rule keys_prev)
    show "set (map fst (ddb_table w)) \<subseteq> set (map fst pairs)"
      using keys keys_prev keys_dict_update [of ?expired ?prev] by auto
    fix k a p
    assume wf: "dict_wf (ddb_table w)" and rec: "map_of (ddb_table w) k = Some a" and p: "json_loads a = Inr (PStr p)"
    have "map_of ?work k = Some (PStr p)"
      using map_of_decoded_items [OF wf, of "[]" k] rec p wf_prev by (simp add: map_of_dict_update_wf)
    then have "map_of (map (\<lambda>(arn, p). (arn, PStr p)) pairs) k = Some (PStr p)" by (simp only: work)
    then show "map_of pairs k = Some p" by (simp add: map_of_map case_prod_beta map_option_case split: option.splits)
  qed
qed

section \<open>Properties\<close>

text \<open>
  C5: the failure table's principal wins over the scan's (line 45,
  \<open>expired_invitations.update(previous_failed_accounts)\<close>). On services that answer
  every call, a live run re-invites the recorded principal of every recorded share:
  the share's associations with that principal are replaced by one fresh pending
  invitation, and the share's other invitations, among them an expired invitation of
  another principal that the scan found, stay as they were.
\<close>

theorem lambda_handler_reinvites_recorded_principal:
  assumes faults: "fault env = (\<lambda>_. None)"
    and live: "dry_run_flag ev \<noteq> Some False" and named: "ddb_table_name ev \<noteq> None"
    and readable: "list_all (\<lambda>(k, a). \<exists>p. json_loads a = Inr (PStr p)) (ddb_table w)"
    and wf: "dict_wf (ddb_table w)"
    and stored: "map_of (ddb_table w) arn = Some a" and decodes: "json_loads a = Inr (PStr p)"
    and share: "shares w arn = Some name"
  shows "(\<exists>resp. fst (lambda_handler env ev w) = Inr resp)
         \<and> share_associations arn (snd (lambda_handler env ev w)) =
             drop_association arn p (share_associations arn w) @
               [\<lparr>resourceShareArn = arn, resourceShareName = name, associatedEntity = p,
                 status = ASSOCIATING, creationTime = now env\<rparr>]"
proof -
  let ?rm = "handler_ram_manager env ev"
  obtain pairs prev where
    run: "lambda_handler env ev w =
       (if pairs = [] then (Inr (Response ''No expired RAM shares found.'' 0 0), w)
        else run_refresh env ?rm prev (map (\<lambda>(arn, p). (arn, PStr p)) pairs) w)"
    and dist: "distinct (map fst pairs)"
    and keys_prev: "set (map fst prev) = set (map fst (ddb_table w))"
    and cover: "set (map fst (ddb_table w)) \<subseteq> set (map fst pairs)"
    and val: "\<And>k a p. dict_wf (ddb_table w) \<Longrightarrow> map_of (ddb_table w) k = Some a \<Longrightarrow> json_loads a = Inr (PStr p) \<Longrightarrow>
           map_of pairs k = Some p"
    by (rule fault_free_readable_run [OF faults named readable]) (rule that)
  have mem: "(arn, p) \<in> set pairs" using val [OF wf stored decodes] by (rule map_of_SomeD)
  then have ne: "pairs \<noteq> []" by auto
  have rm: "dry_run ?rm" using live by (simp add: dry_run_handler_ram_manager)
  let ?s0 = "\<lparr>hworld = w, refreshed_ram_shares = 0, failed_ram_shares_count = 0\<rparr>"
  obtain r s' where loop: "refresh_all env ?rm prev (map (\<lambda>(arn, p). (arn, PStr p)) pairs) ?s0 = (r, s')"
    by fastforce
  have "r = Inr ()" using refresh_all_fault_free [OF faults rm, of prev pairs ?s0] loop by simp
  moreover have "share_associations arn (hworld s') =
      drop_association arn p (share_associations arn w) @
        [\<lparr>resourceShareArn = arn, resourceShareName = name, associatedEntity = p,
          status = ASSOCIATING, creationTime = now env\<rparr>]"
    using refresh_all_reinvites [OF faults rm dist mem, of ?s0 name prev] share loop by simp
  ultimately show ?thesis using run ne loop by (simp add: run_refresh_def)
qed

theorem lambda_handler_reinvites_recorded_principal_witness:
  "share_associations test_arn (snd (lambda_handler test_env test_event conflicting_record_world)) =
     [\<lparr>resourceShareArn = test_arn, resourceShareName = ''LakeFormation-V4-ACTJVKOTWF'',
       associatedEntity = ''111111111111'', status = ASSOCIATING, creationTime = 1700000000 - 300\<rparr>,
      \<lparr>resourceShareArn = test_arn, resourceShareName = ''LakeFormation-V4-ACTJVKOTWF'',
       associatedEntity = ''222222222222'', status = ASSOCIATING, creationTime = 1700000000\<rparr>]"
proof -
  have dec: "json_loads (json_dumps_str ''222222222222'') = Inr (PStr ''222222222222'')" by code_simp
  have h1: "fault test_env = (\<lambda>_. None)" by (simp add: test_env_def)
  have h2: "dry_run_flag test_event \<noteq> Some False" "ddb_table_name test_event \<noteq> None"
    by (simp_all add: test_event_def)
  have h3: "list_all (\<lambda>(k, a). \<exists>p. json_loads a = Inr (PStr p)) (ddb_table conflicting_record_world)"
    "dict_wf (ddb_table conflicting_record_world)"
    "map_of (ddb_table conflicting_record_world) test_arn = Some (json_dumps_str ''222222222222'')"
    using dec by (simp_all add: conflicting_record_world_def)
  have h4: "shares conflicting_record_world test_arn = Some ''LakeFormation-V4-ACTJVKOTWF''"
    by (simp add: conflicting_record_world_def test_world_def)
  show ?thesis
    using lambda_handler_reinvites_recorded_principal [OF h1 h2 h3 dec h4]
    by (simp add: conflicting_record_world_def test_world_def test_env_def drop_association_def test_arn_def)
qed

text \<open>
  C6: the failure table does not give back what it was given. \<open>add_resource_share_to_ddb\<close>
  stores the account id as a plain string, and the next read decodes it with
  \<open>json.loads\<close>: an account id of digits without a leading zero comes back as an integer,
  not as the string that was stored.
\<close>

theorem failure_record_reads_back_as_number:
  assumes num: "json_uint p"
    and put_ok: "fault env (PutItem arn (PStr p)) = None"
    and scan_ok: "fault env ScanTable = None"
    and wf: "dict_wf (ddb_table w)"
    and readable: "list_all (\<lambda>(k, a). \<not> isl (json_loads a)) (ddb_table w)"
  shows "\<exists>prev. get_previously_failed_accounts_for_resource_share env (snd (add_resource_share_to_ddb env arn (PStr p) w))
                  = (Inr prev, snd (add_resource_share_to_ddb env arn (PStr p) w))
              \<and> map_of prev arn = Some (PInt (digits_value p)) \<and> map_of prev arn \<noteq> Some (PStr p)"
proof -
  let ?t = "AList.update arn p (ddb_table w)"
  have w': "snd (add_resource_share_to_ddb env arn (PStr p) w) = w\<lparr>ddb_table := ?t\<rparr>"
    using put_ok by (simp add: add_resource_share_to_ddb_ok)
  have "set ?t \<subseteq> insert (arn, p) (set (ddb_table w))"
    by (rule set_update_subset)
  then have "list_all (\<lambda>(k, a). \<not> isl (json_loads a)) ?t"
    using readable json_loads_uint [OF num] by (auto simp: list_all_iff)
  then have "items_to_dict [] ?t = Inr (dict_update [] (map (\<lambda>(k, a). (k, projr (json_loads a))) ?t))"
    by (rule items_to_dict_decoded)
  moreover have "map_of (dict_update [] (map (\<lambda>(k, a). (k, projr (json_loads a))) ?t)) arn = Some (PInt (digits_value p))"
    using map_of_decoded_items [of ?t "[]" arn] wf json_loads_uint [OF num]
    by (simp add: distinct_update update_conv')
  ultimately show ?thesis
    using w' scan_ok by (simp add: get_previously_failed_eq)
qed

theorem failure_record_reads_back_as_number_witness:
  "json_uint ''111111111111'' \<and> fault test_env (PutItem test_arn (PStr ''111111111111'')) = None
   \<and> fault test_env ScanTable = None \<and> dict_wf (ddb_table test_world)
   \<and> list_all (\<lambda>(k, a). \<not> isl (json_loads a)) (ddb_table test_world)
   \<and> (\<exists>prev. get_previously_failed_accounts_for_resource_share test_env
                 (snd (add_resource_share_to_ddb test_env test_arn (PStr ''111111111111'') test_world))
               = (Inr prev, snd (add_resource_share_to_ddb test_env test_arn (PStr ''111111111111'') test_world))
             \<and> map_of prev test_arn = Some (PInt 111111111111))"
proof -
  have h1: "json_uint ''111111111111''" by (simp add: json_uint_def is_digit_def)
  have h2: "fault test_env (PutItem test_arn (PStr ''111111111111'')) = None" by (simp add: test_defs)
  have h3: "fault test_env ScanTable = None" by (simp add: test_defs)
  have h4: "dict_wf (ddb_table test_world)" by (simp add: test_defs)
  have h5: "list_all (\<lambda>(k, a). \<not> isl (json_loads a)) (ddb_table test_world)" by (simp add: test_defs)
  have v: "digits_value ''111111111111'' = 111111111111" by (simp add: digits_value_def)
  obtain prev where
      "get_previously_failed_accounts_for_resource_share test_env
         (snd (add_resource_share_to_ddb test_env test_arn (PStr ''111111111111'') test_world))
       = (Inr prev, snd (add_resource_share_to_ddb test_env test_arn (PStr ''111111111111'') test_world))"
      and "map_of prev test_arn = Some (PInt (digits_value ''111111111111''))"
    using failure_record_reads_back_as_number [OF h1 h2 h3 h4 h5] by blast
  with h1 h2 h3 h4 h5 v show ?thesis by (intro conjI exI) simp_all
qed

text \<open>
  C7: a failure record is never cleared. Once \<open>add_resource_share_to_ddb\<close> has stored
  an account id of digits (without a leading zero), every later invocation in which the
  mutating calls are live reads it back as an integer, the share's disassociation is
  refused before RAM is called, the share counts as failed, and the record stays: after
  any sequence of such invocations the table still holds it.
\<close>

theorem numeric_failure_record_never_cleared:
  assumes "map_of (ddb_table w) k = Some a"
    and "json_uint a"
    and "dict_wf (ddb_table w)"
    and "list_all (\<lambda>(env, ev). dry_run_flag ev \<noteq> Some False) runs"
  shows "map_of (ddb_table (scheduled_runs runs w)) k = Some a"
  using assms
proof (induction runs arbitrary: w)
  case Nil
  then show ?case by simp
next
  case (Cons run runs)
  obtain env ev where run: "run = (env, ev)" by (cases run)
  let ?w' = "snd (lambda_handler env ev w)"
  have "map_of (ddb_table ?w') k = Some a"
    using Cons.prems run by (intro lambda_handler_keeps_numeric_record) simp_all
  moreover have "dict_wf (ddb_table ?w')"
    using py_keepsD [OF lambda_handler_keeps_wf] Cons.prems(3) .
  ultimately show ?case
    using Cons.IH [of ?w'] Cons.prems(2,4) run by simp
qed

theorem numeric_failure_record_never_cleared_witness:
  "map_of (ddb_table (test_world\<lparr>ddb_table := [(test_arn, ''111111111111'')]\<rparr>)) test_arn = Some ''111111111111''
   \<and> json_uint ''111111111111''
   \<and> dict_wf (ddb_table (test_world\<lparr>ddb_table := [(test_arn, ''111111111111'')]\<rparr>))
   \<and> list_all (\<lambda>(env, ev). dry_run_flag ev \<noteq> Some False) [(test_env, test_event), (test_env, test_event)]
   \<and> map_of (ddb_table (scheduled_runs [(test_env, test_event), (test_env, test_event)]
                          (test_world\<lparr>ddb_table := [(test_arn, ''111111111111'')]\<rparr>))) test_arn = Some ''111111111111''"
proof -
  have h1: "map_of (ddb_table (test_world\<lparr>ddb_table := [(test_arn, ''111111111111'')]\<rparr>)) test_arn = Some ''111111111111''"
    by simp
  have h2: "json_uint ''111111111111''" by (simp add: json_uint_def is_digit_def)
  have h3: "dict_wf (ddb_table (test_world\<lparr>ddb_table := [(test_arn, ''111111111111'')]\<rparr>))" by simp
  have h4: "list_all (\<lambda>(env, ev). dry_run_flag ev \<noteq> Some False) [(test_env, test_event), (test_env, test_event)]"
    by (simp add: test_event_def)
  show ?thesis using h1 h2 h3 h4 numeric_failure_record_never_cleared [OF h1 h2 h3 h4] by blast
qed

text \<open>
  C8: a failure record that \<open>json.loads\<close> cannot decode blocks the monitor: every
  invocation that gets as far as reading the table raises \<open>JSONDecodeError\<close> before
  any share is refreshed, and changes nothing. \<open>add_resource_share_to_ddb\<close> writes such
  records itself: every account id with a leading zero, and every principal given as
  an ARN.
\<close>

theorem undecodable_record_blocks_every_run:
  assumes "ddb_table_name ev \<noteq> None"
    and "fault env GetResourceShareAssociations = None"
    and "fault env ScanTable = None"
    and "(k, a) \<in> set (ddb_table w)"
    and "isl (json_loads a)"
  shows "lambda_handler env ev w = (Inl JSONDecodeError, w)"
proof -
  have "get_previously_failed_accounts_for_resource_share env w = (Inl JSONDecodeError, w)"
    using assms(3-5) by (simp add: get_previously_failed_eq items_to_dict_Inl)
  then show ?thesis
    using assms(1,2) by (auto simp: lambda_handler_unfold get_new_expired_ram_invitations_eq)
qed

theorem undecodable_record_blocks_every_run_witness:
  "ddb_table_name test_event \<noteq> None \<and> fault test_env GetResourceShareAssociations = None
   \<and> fault test_env ScanTable = None
   \<and> (test_arn, ''012345678901'') \<in> set (ddb_table (test_world\<lparr>ddb_table := [(test_arn, ''012345678901'')]\<rparr>))
   \<and> isl (json_loads ''012345678901'')
   \<and> lambda_handler test_env test_event (test_world\<lparr>ddb_table := [(test_arn, ''012345678901'')]\<rparr>)
     = (Inl JSONDecodeError, test_world\<lparr>ddb_table := [(test_arn, ''012345678901'')]\<rparr>)"
proof -
  have h1: "ddb_table_name test_event \<noteq> None" by (simp add: test_event_def)
  have h2: "fault test_env GetResourceShareAssociations = None" by (simp add: test_env_def)
  have h3: "fault test_env ScanTable = None" by (simp add: test_env_def)
  have h4: "(test_arn, ''012345678901'') \<in> set (ddb_table (test_world\<lparr>ddb_table := [(test_arn, ''012345678901'')]\<rparr>))"
    by simp
  have h5: "isl (json_loads ''012345678901'')" by code_simp
  show ?thesis using h1 h2 h3 h4 h5 undecodable_record_blocks_every_run [OF h1 h2 h3 h4 h5] by blast
qed

text \<open>
  C9: a share can be counted both refreshed and failed. When the principal is
  re-associated but deleting the share's old failure record fails with a service
  error, the \<open>except ClientError\<close> meant for the re-association catches the delete's
  error: the share is counted refreshed and failed, and its record is written again
  although the new invitation exists.
\<close>

theorem delete_failure_counts_share_twice:
  assumes "dry_run rm"
    and "fault env (DisassociateResourceShare arn (PStr p)) = None"
    and "shares (hworld s) arn = Some name"
    and "fault env (AssociateResourceShare arn (PStr p)) = None"
    and "arn \<in> set (map fst prev)"
    and "fault env (DeleteItem arn) = Some (ClientError c)"
    and "fault env (PutItem arn (PStr p)) = None"
  shows "\<exists>s'. refresh_share env rm prev arn (PStr p) s = (Inr (), s')
           \<and> refreshed_ram_shares s' = Suc (refreshed_ram_shares s)
           \<and> failed_ram_shares_count s' = Suc (failed_ram_shares_count s)
           \<and> map_of (ddb_table (hworld s')) arn = Some p
           \<and> (\<exists>a \<in> set (associations (hworld s')). resourceShareArn a = arn \<and> associatedEntity a = p
                \<and> status a = ASSOCIATING \<and> creationTime a = now env)"
  using assms by (simp add: refresh_defs service_defs py_simps update_conv')

definition delete_fault_env :: env where
  "delete_fault_env = \<lparr>now = 1000, fault = (\<lambda>c. if c = DeleteItem ''arn1''
                                                then Some (ClientError ''ProvisionedThroughputExceededException'') else None)\<rparr>"

theorem delete_failure_counts_share_twice_witness:
  "\<exists>s'. refresh_share delete_fault_env example_rm [(''arn1'', PInt 111111111111)] ''arn1'' (PStr ''111111111111'') example_state
         = (Inr (), s')
       \<and> refreshed_ram_shares s' = 1 \<and> failed_ram_shares_count s' = 1
       \<and> map_of (ddb_table (hworld s')) ''arn1'' = Some ''111111111111''
       \<and> (\<exists>a \<in> set (associations (hworld s')). resourceShareArn a = ''arn1'' \<and> associatedEntity a = ''111111111111''
            \<and> status a = ASSOCIATING \<and> creationTime a = now delete_fault_env)"
proof -
  have h1: "dry_run example_rm" by (simp add: example_defs)
  have h2: "fault delete_fault_env (DisassociateResourceShare ''arn1'' (PStr ''111111111111'')) = None"
    by (simp add: delete_fault_env_def)
  have h3: "shares (hworld example_state) ''arn1'' = Some ''LakeFormation-1''" by (simp add: example_defs)
  have h4: "fault delete_fault_env (AssociateResourceShare ''arn1'' (PStr ''111111111111'')) = None"
    by (simp add: delete_fault_env_def)
  have h5: "''arn1'' \<in> set (map fst [(''arn1'', PInt 111111111111)])" by simp
  have h6: "fault delete_fault_env (DeleteItem ''arn1'') = Some (ClientError ''ProvisionedThroughputExceededException'')"
    by (simp add: delete_fault_env_def)
  have h7: "fault delete_fault_env (PutItem ''arn1'' (PStr ''111111111111'')) = None"
    by (simp add: delete_fault_env_def)
  have c: "refreshed_ram_shares example_state = 0 \<and> failed_ram_shares_count example_state = 0"
    by (simp add: example_defs)
  show ?thesis using delete_failure_counts_share_twice [OF h1 h2 h3 h4 h5 h6 h7] c by simp
qed

text \<open>
  C10: a re-association that fails with an exception outside \<open>ClientError\<close> (a
  connection error, for instance) loses the grant: the principal has been
  disassociated, the exception passes the \<open>except ClientError\<close> and reaches the catch-all
  handler, the share counts as failed, and nothing is written to the failure table, so
  no later invocation retries it unless the scan finds it again.
\<close>

theorem add_failure_outside_client_errors_loses_principal:
  assumes "dry_run rm"
    and "fault env (DisassociateResourceShare arn (PStr p)) = None"
    and "shares (hworld s) arn = Some name"
    and "fault env (AssociateResourceShare arn (PStr p)) = Some e"
    and "\<not> is_client_error e"
  shows "refresh_share env rm prev arn (PStr p) s =
           (Inr (), s\<lparr>hworld := (hworld s)\<lparr>associations := drop_association arn p (associations (hworld s))\<rparr>,
                      failed_ram_shares_count := Suc (failed_ram_shares_count s)\<rparr>)"
  using assms by (cases e) (simp_all add: refresh_defs service_defs py_simps)

definition connection_fault_env :: env where
  "connection_fault_env = \<lparr>now = 1000, fault = (\<lambda>c. if c = AssociateResourceShare ''arn1'' (PStr ''111111111111'')
                                                    then Some EndpointConnectionError else None)\<rparr>"

theorem add_failure_outside_client_errors_loses_principal_witness:
  "dry_run example_rm
   \<and> fault connection_fault_env (DisassociateResourceShare ''arn1'' (PStr ''111111111111'')) = None
   \<and> shares (hworld example_state) ''arn1'' = Some ''LakeFormation-1''
   \<and> fault connection_fault_env (AssociateResourceShare ''arn1'' (PStr ''111111111111'')) = Some EndpointConnectionError
   \<and> \<not> is_client_error EndpointConnectionError
   \<and> ddb_table (hworld (snd (refresh_share connection_fault_env example_rm [] ''arn1'' (PStr ''111111111111'') example_state)))
     = ddb_table (hworld example_state)"
proof -
  have h1: "dry_run example_rm" by (simp add: example_defs)
  have h2: "fault connection_fault_env (DisassociateResourceShare ''arn1'' (PStr ''111111111111'')) = None"
    by (simp add: connection_fault_env_def)
  have h3: "shares (hworld example_state) ''arn1'' = Some ''LakeFormation-1''" by (simp add: example_defs)
  have h4: "fault connection_fault_env (AssociateResourceShare ''arn1'' (PStr ''111111111111'')) = Some EndpointConnectionError"
    by (simp add: connection_fault_env_def)
  have h5: "\<not> is_client_error EndpointConnectionError" by simp
  show ?thesis
    using h1 h2 h3 h4 h5 add_failure_outside_client_errors_loses_principal [OF h1 h2 h3 h4 h5, of "[]"] by simp
qed

text \<open>
  C11: when a share no longer exists and deleting its failure record fails with any
  error other than \<open>ResourceNotFoundException\<close>, the exception leaves the
  \<open>except UnknownResourceException\<close> handler: the loop stops there, the remaining
  shares of the work set are not processed, and the invocation ends with the exception
  instead of a summary.
\<close>

theorem unknown_share_cleanup_failure_aborts_loop:
  assumes "dry_run rm"
    and "fault env (DisassociateResourceShare arn (PStr p)) = Some UnknownResourceException"
    and "arn \<in> set (map fst prev)"
    and "fault env (DeleteItem arn) = Some e"
    and "e \<noteq> ResourceNotFoundException"
  shows "refresh_all env rm prev ((arn, PStr p) # work) s = (Inl e, s)"
  using assms by (simp add: refresh_defs service_defs py_simps)

definition gone_fault_env :: env where
  "gone_fault_env = \<lparr>now = 1000, fault = (\<lambda>c. if c = DisassociateResourceShare ''arn1'' (PStr ''111111111111'')
                                              then Some UnknownResourceException
                                              else if c = DeleteItem ''arn1'' then Some (ClientError ''AccessDeniedException'')
                                              else None)\<rparr>"

theorem unknown_share_cleanup_failure_aborts_loop_witness:
  "dry_run example_rm
   \<and> fault gone_fault_env (DisassociateResourceShare ''arn1'' (PStr ''111111111111'')) = Some UnknownResourceException
   \<and> ''arn1'' \<in> set (map fst [(''arn1'', PInt 111111111111)])
   \<and> fault gone_fault_env (DeleteItem ''arn1'') = Some (ClientError ''AccessDeniedException'')
   \<and> ClientError ''AccessDeniedException'' \<noteq> ResourceNotFoundException
   \<and> refresh_all gone_fault_env example_rm [(''arn1'', PInt 111111111111)]
       [(''arn1'', PStr ''111111111111''), (''arn2'', PStr ''222222222222'')] example_state
     = (Inl (ClientError ''AccessDeniedException''), example_state)"
proof -
  have h1: "dry_run example_rm" by (simp add: example_defs)
  have h2: "fault gone_fault_env (DisassociateResourceShare ''arn1'' (PStr ''111111111111'')) = Some UnknownResourceException"
    by (simp add: gone_fault_env_def)
  have h3: "''arn1'' \<in> set (map fst [(''arn1'', PInt 111111111111)])" by simp
  have h4: "fault gone_fault_env (DeleteItem ''arn1'') = Some (ClientError ''AccessDeniedException'')"
    by (simp add: gone_fault_env_def)
  have h5: "ClientError ''AccessDeniedException'' \<noteq> ResourceNotFoundException" by simp
  show ?thesis
    using h1 h2 h3 h4 h5 unknown_share_cleanup_failure_aborts_loop [OF h1 h2 h3 h4 h5] by blast
qed

text \<open>
  C12: with the \<open>dry_run\<close> flag false no RAM call is made, yet the share is counted as
  refreshed and its failure record, if it had one, is deleted: a dry run changes the
  failure table and forgets the pending retries.
\<close>

theorem flag_off_clears_failure_records:
  assumes "\<not> dry_run rm"
    and "fault env (DeleteItem arn) = None"
  shows "refresh_share env rm prev arn acct s =
     (Inr (), s\<lparr>hworld := (if arn \<in> set (map fst prev)
                             then (hworld s)\<lparr>ddb_table := AList.delete arn (ddb_table (hworld s))\<rparr>
                             else hworld s),
               refreshed_ram_shares := Suc (refreshed_ram_shares s)\<rparr>)"
  using assms by (rule refresh_share_flag_off)

theorem flag_off_clears_failure_records_witness:
  "\<not> dry_run (example_rm\<lparr>dry_run := False\<rparr>) \<and> fault example_env (DeleteItem ''arn1'') = None
   \<and> ddb_table (hworld (snd (refresh_share example_env (example_rm\<lparr>dry_run := False\<rparr>)
         [(''arn1'', PInt 111111111111)] ''arn1'' (PInt 111111111111) example_state))) = []"
proof -
  have h1: "\<not> dry_run (example_rm\<lparr>dry_run := False\<rparr>)" by simp
  have h2: "fault example_env (DeleteItem ''arn1'') = None" by (simp add: example_defs)
  show ?thesis
    using h1 h2 flag_off_clears_failure_records [OF h1 h2, of "[(''arn1'', PInt 111111111111)]" "PInt 111111111111" example_state]
    by (simp add: example_defs)
qed

text \<open>
  C13: when no pending invitation belongs to the managed namespace and the failure table
  is empty, the handler answers \<open>No expired RAM shares found.\<close> with both counts zero and
  makes no mutating call: the world is unchanged.
\<close>

theorem nothing_to_refresh_changes_nothing:
  assumes "ddb_table_name ev \<noteq> None"
    and "fault env GetResourceShareAssociations = None"
    and "fault env ScanTable = None"
    and "ddb_table w = []"
    and "\<forall>inv \<in> set (pending_invitations w). \<not> startswith (resourceShareName inv) ''LakeFormation-''"
  shows "lambda_handler env ev w = (Inr (Response ''No expired RAM shares found.'' 0 0), w)"
proof -
  have "filter (is_expired_invitation rm) (pending_invitations w) = []" for rm
    using assms(5) by (auto simp: filter_empty_conv is_expired_invitation_def LAKE_FORMATION_PREFIX_def)
  then have "expired_pairs rm (pending_invitations w) = []" for rm
    by (simp add: expired_pairs_def)
  then show ?thesis
    using assms(1-4)
    by (auto simp: lambda_handler_unfold get_new_expired_ram_invitations_eq get_previously_failed_eq)
qed

theorem nothing_to_refresh_changes_nothing_witness:
  "lambda_handler test_env test_event foreign_share_world
     = (Inr (Response ''No expired RAM shares found.'' 0 0), foreign_share_world)"
proof -
  have h1: "ddb_table_name test_event \<noteq> None" by (simp add: test_event_def)
  have h2: "fault test_env GetResourceShareAssociations = None" by (simp add: test_env_def)
  have h3: "fault test_env ScanTable = None" by (simp add: test_env_def)
  have h4: "ddb_table foreign_share_world = []" by (simp add: foreign_share_world_def test_world_def)
  have h5: "\<forall>inv \<in> set (pending_invitations foreign_share_world).
              \<not> startswith (resourceShareName inv) ''LakeFormation-''"
    by (simp add: pending_invitations_def foreign_share_world_def startswith_def)
  show ?thesis by (rule nothing_to_refresh_changes_nothing [OF h1 h2 h3 h4 h5])
qed

text \<open>
  C14: an event without \<open>ddb_table_name\<close> fails with \<open>KeyError\<close> before any call is made.
\<close>

theorem missing_table_name_raises_key_error:
  "ddb_table_name ev = None \<Longrightarrow> lambda_handler env ev w = (Inl (KeyError ''ddb_table_name''), w)"
  by (simp add: lambda_handler_unfold)

theorem missing_table_name_raises_key_error_witness:
  "ddb_table_name (test_event\<lparr>ddb_table_name := None\<rparr>) = None
   \<and> lambda_handler test_env (test_event\<lparr>ddb_table_name := None\<rparr>) test_world = (Inl (KeyError ''ddb_table_name''), test_world)"
proof -
  have h: "ddb_table_name (test_event\<lparr>ddb_table_name := None\<rparr>) = None" by simp
  show ?thesis using h missing_table_name_raises_key_error [OF h] by blast
qed

text \<open>
  C22: no silent loss of a grant under the spec's conditions. When the mutating calls are
  live, a failed re-association raises a service error (a \<open>ClientError\<close>) and the
  failure table accepts the write, a principal associated with a share before an
  iteration of the loop is, after it, associated with the share again or recorded in
  the failure table for the next run, whatever else fails.
\<close>

theorem refresh_share_no_silent_loss:
  assumes "dry_run rm"
    and "\<exists>a \<in> set (associations (hworld s)). resourceShareArn a = arn \<and> associatedEntity a = p"
    and "\<And>e. fault env (AssociateResourceShare arn (PStr p)) = Some e \<Longrightarrow> is_client_error e"
    and "fault env (PutItem arn (PStr p)) = None"
  shows "(\<exists>a \<in> set (associations (hworld (snd (refresh_share env rm prev arn (PStr p) s)))).
            resourceShareArn a = arn \<and> associatedEntity a = p)
         \<or> map_of (ddb_table (hworld (snd (refresh_share env rm prev arn (PStr p) s)))) arn = Some p"
proof (cases "fault env (DisassociateResourceShare arn (PStr p)) = None \<and> shares (hworld s) arn \<noteq> None")
  case False
  then show ?thesis using assms(1,2)
    by (auto simp: refresh_defs service_defs py_simps split: option.splits prod.splits sum.splits)
next
  case True
  then show ?thesis using assms
    by (cases "fault env (AssociateResourceShare arn (PStr p))")
       (auto simp: refresh_defs service_defs py_simps update_conv' split: option.splits prod.splits sum.splits)
qed

theorem refresh_share_no_silent_loss_witness:
  "map_of (ddb_table (hworld (snd (refresh_share throttle_env example_rm [] test_arn (PStr ''111111111111'')
      \<lparr>hworld = test_world, refreshed_ram_shares = 0, failed_ram_shares_count = 0\<rparr>)))) test_arn
   = Some ''111111111111''"
proof -
  let ?s = "\<lparr>hworld = test_world, refreshed_ram_shares = 0, failed_ram_shares_count = 0\<rparr>"
  have h1: "dry_run example_rm" by (simp add: example_defs)
  have h2: "\<exists>a \<in> set (associations (hworld ?s)). resourceShareArn a = test_arn \<and> associatedEntity a = ''111111111111''"
    by (simp add: test_world_def)
  have h3: "\<And>e. fault throttle_env (AssociateResourceShare test_arn (PStr ''111111111111'')) = Some e \<Longrightarrow> is_client_error e"
    by (auto simp: throttle_env_def)
  have h4: "fault throttle_env (PutItem test_arn (PStr ''111111111111'')) = None" by (simp add: throttle_env_def)
  have gone: "\<not> (\<exists>a \<in> set (associations (hworld (snd (refresh_share throttle_env example_rm [] test_arn (PStr ''111111111111'') ?s)))).
            resourceShareArn a = test_arn \<and> associatedEntity a = ''111111111111'')"
    by (simp add: refresh_defs service_defs py_simps throttle_env_def test_world_def example_defs drop_association_def)
  show ?thesis using refresh_share_no_silent_loss [OF h1 h2 h3 h4] gone by blast
qed

text \<open>
  C24: the counts of a response are bounded by the input: neither the number of
  recreated shares nor the number of failed ones exceeds the number of pending
  invitations plus the number of failure records, since the work set has one entry per
  share and each iteration adds at most one to each count.
\<close>

theorem response_counts_bounded:
  assumes "lambda_handler env ev w = (Inr (Response m r f), w')"
  shows "r \<le> length (pending_invitations w) + length (ddb_table w)
         \<and> f \<le> length (pending_invitations w) + length (ddb_table w)"
proof (cases "ddb_table_name ev = None \<or> fault env GetResourceShareAssociations \<noteq> None \<or> fault env ScanTable \<noteq> None")
  case True
  with assms show ?thesis
    by (auto simp: lambda_handler_unfold get_new_expired_ram_invitations_eq get_previously_failed_eq split: option.splits)
next
  case False
  let ?rm = "handler_ram_manager env ev"
  let ?expired = "dict_update [] (expired_pairs ?rm (pending_invitations w))"
  obtain prev where read: "items_to_dict [] (ddb_table w) = Inr prev"
    using False assms
    by (cases "items_to_dict [] (ddb_table w)")
       (auto simp: lambda_handler_unfold get_new_expired_ram_invitations_eq get_previously_failed_eq split: option.splits)
  have "length ?expired \<le> length (expired_pairs ?rm (pending_invitations w))"
    using length_dict_update [of "[]" "expired_pairs ?rm (pending_invitations w)"] by simp
  also have "\<dots> \<le> length (pending_invitations w)" by (simp add: expired_pairs_def)
  finally have le_e: "length ?expired \<le> length (pending_invitations w)" .
  have "prev = dict_update [] (map (\<lambda>(k, a). (k, projr (json_loads a))) (ddb_table w))"
    using items_to_dict_Inr [OF read] by simp
  then have le_p: "length prev \<le> length (ddb_table w)"
    using length_dict_update [of "[]" "map (\<lambda>(k, a). (k, projr (json_loads a))) (ddb_table w)"] by simp
  have wf_e: "dict_wf ?expired" by (rule dict_update_wf) simp
  have le_w: "length (dict_update ?expired prev) \<le> length (pending_invitations w) + length (ddb_table w)"
    using length_dict_update [OF wf_e, of prev] le_e le_p by simp
  show ?thesis
  proof (cases "dict_update ?expired prev = []")
    case True
    with assms False read show ?thesis
      by (auto simp: lambda_handler_unfold get_new_expired_ram_invitations_eq get_previously_failed_eq split: option.splits)
  next
    case empty: False
    with assms False read have "run_refresh env ?rm prev (dict_update ?expired prev) w = (Inr (Response m r f), w')"
      by (auto simp: lambda_handler_unfold get_new_expired_ram_invitations_eq get_previously_failed_eq split: option.splits)
    then show ?thesis using response_counts_work le_w by fastforce
  qed
qed

theorem response_counts_bounded_witness:
  "fst (lambda_handler test_env test_event test_world) = Inr (Response ''Recreated 1 RAM invitations. Failed = 0'' 1 0)
   \<and> (1::nat) \<le> length (pending_invitations test_world) + length (ddb_table test_world)"
proof -
  have h: "fst (lambda_handler test_env test_event test_world) = Inr (Response ''Recreated 1 RAM invitations. Failed = 0'' 1 0)"
    by code_simp
  then have "lambda_handler test_env test_event test_world
               = (Inr (Response ''Recreated 1 RAM invitations. Failed = 0'' 1 0), snd (lambda_handler test_env test_event test_world))"
    by (metis prod.collapse)
  from response_counts_bounded [OF this] h show ?thesis by simp
qed

text \<open>
  C26: a failure of the failure-table write is never handled as the code intends. When
  \<open>put_item\<close> raises, even \<open>InternalServerError\<close>, the \<open>except\<close> clause of
  \<open>add_resource_share_to_ddb\<close> raises \<open>AttributeError\<close> while naming its class. In the
  loop, after a failed re-association, that error leaves the \<open>except ClientError\<close>
  handler before the failure is counted and reaches the catch-all. The share counts as
  failed once, its principal stays disassociated, and no record is written, so no
  later run retries it.
\<close>

theorem failed_record_write_loses_share:
  assumes "dry_run rm"
    and "fault env (DisassociateResourceShare arn (PStr p)) = None"
    and "shares (hworld s) arn = Some name"
    and "fault env (AssociateResourceShare arn (PStr p)) = Some (ClientError c)"
    and "fault env (PutItem arn (PStr p)) = Some e"
  shows "add_resource_share_to_ddb env arn (PStr p) (hworld s)
           = (Inl (AttributeError ''ClientMeta object has no attribute client''), hworld s)
         \<and> refresh_share env rm prev arn (PStr p) s =
           (Inr (), s\<lparr>hworld := (hworld s)\<lparr>associations := drop_association arn p (associations (hworld s))\<rparr>,
                      failed_ram_shares_count := Suc (failed_ram_shares_count s)\<rparr>)"
  using assms by (simp add: add_resource_share_to_ddb_raises(1) refresh_defs service_defs py_simps)

theorem failed_record_write_loses_share_witness:
  "refresh_share put_fault_env example_rm [] ''arn1'' (PStr ''111111111111'') example_state =
     (Inr (), example_state\<lparr>failed_ram_shares_count := 1\<rparr>)"
proof -
  have h1: "dry_run example_rm" by (simp add: example_defs)
  have h2: "fault put_fault_env (DisassociateResourceShare ''arn1'' (PStr ''111111111111'')) = None"
    by (simp add: put_fault_env_def)
  have h3: "shares (hworld example_state) ''arn1'' = Some ''LakeFormation-1''" by (simp add: example_defs)
  have h4: "fault put_fault_env (AssociateResourceShare ''arn1'' (PStr ''111111111111'')) = Some (ClientError ''ThrottlingException'')"
    by (simp add: put_fault_env_def)
  have h5: "fault put_fault_env (PutItem ''arn1'' (PStr ''111111111111'')) = Some InternalServerError"
    by (simp add: put_fault_env_def)
  show ?thesis
    using failed_record_write_loses_share [OF h1 h2 h3 h4 h5, of "[]"] by (simp add: example_defs drop_association_def)
qed

text \<open>
  C27: on a clean failure store (the first run) the handler implements the spec's
  contract \<open>run(config) -> RunSummary\<close>. When the mutating calls are live, the reads
  succeed, some invitation has expired and every expired share meets the spec's
  conditions, the handler answers with the spec's counts and leaves the failure
  table the spec's run prescribes, share by share over the expired invitations.
\<close>

theorem lambda_handler_refines_spec:
  assumes live: "dry_run_flag ev \<noteq> Some False" and named: "ddb_table_name ev \<noteq> None"
    and reads: "fault env GetResourceShareAssociations = None" "fault env ScanTable = None"
    and clean: "ddb_table w = []"
    and some: "expired_principals (handler_ram_manager env ev) w \<noteq> []"
    and conditions: "list_all (\<lambda>(arn, p). spec_conditions env arn p) (expired_principals (handler_ram_manager env ev) w)"
  shows "\<exists>w' r f. lambda_handler env ev w = (Inr (Response (summary_message r f) r f), w')
           \<and> spec_refresh_all env (shares w) [] (expired_principals (handler_ram_manager env ev) w)
               \<lparr>sum_refreshed = 0, sum_failed = 0, sum_store = Map.empty\<rparr>
             = \<lparr>sum_refreshed = r, sum_failed = f, sum_store = map_of (ddb_table w')\<rparr>"
proof -
  let ?rm = "handler_ram_manager env ev"
  let ?pairs = "expired_principals ?rm w"
  let ?work = "map (\<lambda>(arn, p). (arn, PStr p)) ?pairs"
  let ?s0 = "\<lparr>hworld = w, refreshed_ram_shares = 0, failed_ram_shares_count = 0\<rparr>"
  have rm: "dry_run ?rm" using live by (simp add: dry_run_handler_ram_manager)
  obtain s' where loop: "refresh_all env ?rm [] ?work ?s0 = (Inr (), s')"
    and abs: "abs_state s' = spec_refresh_all env (shares w) [] ?pairs (abs_state ?s0)"
    using refresh_all_spec_outcome [OF rm conditions, of "[]" ?s0] by auto
  have "lambda_handler env ev w = run_refresh env ?rm [] ?work w"
    using named reads clean some scan_expired_principals [OF reads(1), of ?rm w]
    by (auto simp: lambda_handler_unfold get_previously_failed_eq)
  also have "\<dots> = (Inr (Response (summary_message (refreshed_ram_shares s') (failed_ram_shares_count s'))
                      (refreshed_ram_shares s') (failed_ram_shares_count s')), hworld s')"
    using loop by (simp add: run_refresh_def)
  finally show ?thesis
    using abs clean by (auto simp: abs_state_def)
qed

theorem lambda_handler_refines_spec_witness:
  "\<exists>w' r f. lambda_handler test_env test_event test_world = (Inr (Response (summary_message r f) r f), w')
           \<and> r = 1 \<and> f = 0 \<and> ddb_table w' = []"
proof -
  have ep: "expired_principals (handler_ram_manager test_env test_event) test_world = [(test_arn, ''111111111111'')]"
    by (simp add: expired_principals_def handler_ram_manager_def RamManager_def is_expired_invitation_def
                  LAKE_FORMATION_PREFIX_def pending_invitations_def startswith_def py_int_def test_defs)
  have h1: "dry_run_flag test_event \<noteq> Some False" by (simp add: test_event_def)
  have h2: "ddb_table_name test_event \<noteq> None" by (simp add: test_event_def)
  have h3: "fault test_env GetResourceShareAssociations = None" "fault test_env ScanTable = None"
    by (simp_all add: test_env_def)
  have h4: "ddb_table test_world = []" by (simp add: test_world_def)
  have h5: "expired_principals (handler_ram_manager test_env test_event) test_world \<noteq> []" by (simp add: ep)
  have h6: "list_all (\<lambda>(arn, p). spec_conditions test_env arn p) (expired_principals (handler_ram_manager test_env test_event) test_world)"
    by (simp only: ep) (simp add: spec_conditions_def test_env_def)
  have spec: "spec_refresh_all test_env (shares test_world) [] [(test_arn, ''111111111111'')]
                \<lparr>sum_refreshed = 0, sum_failed = 0, sum_store = Map.empty\<rparr>
              = \<lparr>sum_refreshed = 1, sum_failed = 0, sum_store = Map.empty\<rparr>"
    by (simp add: spec_outcome_def service_events_def test_env_def test_world_def)
  obtain w' r f where run: "lambda_handler test_env test_event test_world = (Inr (Response (summary_message r f) r f), w')"
    and eq: "spec_refresh_all test_env (shares test_world) [] (expired_principals (handler_ram_manager test_env test_event) test_world)
               \<lparr>sum_refreshed = 0, sum_failed = 0, sum_store = Map.empty\<rparr>
             = \<lparr>sum_refreshed = r, sum_failed = f, sum_store = map_of (ddb_table w')\<rparr>"
    using lambda_handler_refines_spec [OF h1 h2 h3 h4 h5 h6] by blast
  from eq [unfolded ep spec] have "r = 1 \<and> f = 0 \<and> map_of (ddb_table w') = Map.empty" by simp
  with run show ?thesis by auto
qed

text \<open>
  C28: the failure replay makes progress when the stored principals are readable. On
  services that answer every call, a live invocation whose failure records all decode
  to strings succeeds and leaves the failure table empty: every recorded share is
  retried and, re-invited or gone, its record removed. C7 shows that the records
  \<open>add_resource_share_to_ddb\<close> actually writes do not decode to strings.
\<close>

theorem fault_free_run_drains_readable_records:
  assumes faults: "fault env = (\<lambda>_. None)"
    and live: "dry_run_flag ev \<noteq> Some False" and named: "ddb_table_name ev \<noteq> None"
    and readable: "list_all (\<lambda>(k, a). \<exists>p. json_loads a = Inr (PStr p)) (ddb_table w)"
  shows "(\<exists>resp. fst (lambda_handler env ev w) = Inr resp) \<and> ddb_table (snd (lambda_handler env ev w)) = []"
proof -
  let ?rm = "handler_ram_manager env ev"
  obtain pairs prev where
    run: "lambda_handler env ev w =
       (if pairs = [] then (Inr (Response ''No expired RAM shares found.'' 0 0), w)
        else run_refresh env ?rm prev (map (\<lambda>(arn, p). (arn, PStr p)) pairs) w)"
    and dist: "distinct (map fst pairs)"
    and keys_prev: "set (map fst prev) = set (map fst (ddb_table w))"
    and cover: "set (map fst (ddb_table w)) \<subseteq> set (map fst pairs)"
    and val: "\<And>k a p. dict_wf (ddb_table w) \<Longrightarrow> map_of (ddb_table w) k = Some a \<Longrightarrow> json_loads a = Inr (PStr p) \<Longrightarrow>
           map_of pairs k = Some p"
    by (rule fault_free_readable_run [OF faults named readable]) (rule that)
  have rm: "dry_run ?rm" using live by (simp add: dry_run_handler_ram_manager)
  let ?s0 = "\<lparr>hworld = w, refreshed_ram_shares = 0, failed_ram_shares_count = 0\<rparr>"
  obtain r s' where loop: "refresh_all env ?rm prev (map (\<lambda>(arn, p). (arn, PStr p)) pairs) ?s0 = (r, s')"
    by fastforce
  have ok: "r = Inr ()" and tab: "map_of (ddb_table (hworld s')) = map_of (ddb_table w) |` (- (set (map fst pairs) \<inter> set (map fst prev)))"
    using refresh_all_fault_free [OF faults rm, of prev pairs ?s0] loop by simp_all
  have "map_of (ddb_table (hworld s')) = Map.empty"
    using tab cover keys_prev by (auto simp: restrict_map_def fun_eq_iff map_of_eq_None_iff)
  then have empty: "ddb_table (hworld s') = []" by (cases "ddb_table (hworld s')") auto
  show ?thesis
  proof (cases "pairs = []")
    case True
    then have "ddb_table w = []" using cover by simp
    with True run show ?thesis by simp
  next
    case False
    with run loop ok empty show ?thesis by (simp add: run_refresh_def)
  qed
qed

theorem fault_free_run_drains_readable_records_witness:
  "ddb_table (snd (lambda_handler test_env test_event
      (test_world\<lparr>ddb_table := [(test_arn, json_dumps_str ''111111111111'')]\<rparr>))) = []"
proof -
  have h1: "fault test_env = (\<lambda>_. None)" by (simp add: test_env_def)
  have h2: "dry_run_flag test_event \<noteq> Some False" "ddb_table_name test_event \<noteq> None"
    by (simp_all add: test_event_def)
  have h3: "list_all (\<lambda>(k, a). \<exists>p. json_loads a = Inr (PStr p))
              (ddb_table (test_world\<lparr>ddb_table := [(test_arn, json_dumps_str ''111111111111'')]\<rparr>))"
  proof -
    have "json_loads (json_dumps_str ''111111111111'') = Inr (PStr ''111111111111'')" by code_simp
    then show ?thesis by simp
  qed
  show ?thesis using fault_free_run_drains_readable_records [OF h1 h2 h3] by blast
qed

end
